theory Spec2Isabelle
  imports Main
begin

section \<open>The container resolver: data model\<close>

text \<open>
  The package \<open>containersResolver\<close> sequences calls to two external collaborators (the
  images extractor and the syft packages extractor) and to the filesystem.  None of those
  is part of the repository, so each of them is a parameter of the model: a field of the
  record \<open>env\<close> that maps the world before the call to the values the Go function returns
  and the world after it.  The types of the collaborators' data (\<open>types.FileImages\<close>, the
  settings map, \<open>types.ImageModel\<close>, the list of \<open>ContainerResolution\<close>) are type
  parameters \<open>'f\<close>, \<open>'s\<close>, \<open>'i\<close>, \<open>'r\<close>; the world is \<open>'w\<close>.

  A Go \<open>error\<close> is a value of type \<open>error option\<close>: \<open>None\<close> is \<open>nil\<close>.  A Go function
  with several results returns all of them, also when the error is not \<open>nil\<close>.
\<close>

datatype error = Error string

datatype level = DebugLevel | InfoLevel | WarnLevel | ErrorLevel

datatype logarg = ArgString string | ArgStrings "string list" | ArgBool bool

text \<open>
  Every call that leaves the package is recorded, in order, with the arguments it was
  given and the error it returned: the trace is what a mock of the collaborators observes.
  The calls of the logger are recorded as well (\<open>Log\<close> for \<open>Msg\<close>, \<open>Logf\<close> for \<open>Msgf\<close>).
\<close>

datatype ('f, 's, 'i, 'r) event =
    SetGlobalLevel level
  | Log level "error option" string
  | Logf level string "logarg list"
  | Call_IsValidFolderPath string bool "error option"
  | Call_MkdirAll string nat "error option"
  | Call_Command string "string list" "error option"
  | Call_ExtractFiles string 'f 's string "error option"
  | Call_ExtractAndMergeImagesFromFiles 'f "'i list" 's "error option"
  | Call_AnalyzeImagesWithPlatform "'i list" string "error option"
  | Call_AnalyzeImages "'i list" "error option"
  | Call_SaveObjectToFile string 'r "error option"
  | Call_DeleteDirectory string "error option"

record ('w, 'f, 's, 'i, 'r) env =
  GOOS :: string
  Join :: "string list \<Rightarrow> string"
  ToImageModels :: "string list \<Rightarrow> 'i list"
  IsValidFolderPath :: "'w \<Rightarrow> string \<Rightarrow> (bool \<times> error option) \<times> 'w"
  MkdirAll :: "'w \<Rightarrow> string \<Rightarrow> nat \<Rightarrow> error option \<times> 'w"
  Command :: "'w \<Rightarrow> string \<Rightarrow> string list \<Rightarrow> error option \<times> 'w"
  ExtractFiles :: "'w \<Rightarrow> string \<Rightarrow> ('f \<times> 's \<times> string \<times> error option) \<times> 'w"
  ExtractAndMergeImagesFromFiles ::
    "'w \<Rightarrow> 'f \<Rightarrow> 'i list \<Rightarrow> 's \<Rightarrow> ('i list \<times> error option) \<times> 'w"
  AnalyzeImagesWithPlatform :: "'w \<Rightarrow> 'i list \<Rightarrow> string \<Rightarrow> ('r \<times> error option) \<times> 'w"
  AnalyzeImages :: "'w \<Rightarrow> 'i list \<Rightarrow> ('r \<times> error option) \<times> 'w"
  SaveObjectToFile :: "'w \<Rightarrow> string \<Rightarrow> 'r \<Rightarrow> error option \<times> 'w"
  DeleteDirectory :: "'w \<Rightarrow> string \<Rightarrow> error option \<times> 'w"

record ('w, 'e) state =
  world :: 'w
  trace :: "'e list"

type_synonym ('w, 'f, 's, 'i, 'r) st = "('w, ('f, 's, 'i, 'r) event) state"

definition emit :: "'e \<Rightarrow> ('w, 'e) state \<Rightarrow> ('w, 'e) state" where
  "emit e s = s\<lparr>trace := trace s @ [e]\<rparr>"

definition new_events :: "('w, 'e) state \<Rightarrow> ('w, 'e) state \<Rightarrow> 'e list" where
  "new_events s s' = drop (length (trace s)) (trace s')"

subsection \<open>Calls that leave the package\<close>

definition call_IsValidFolderPath ::
  "('w, 'f, 's, 'i, 'r) env \<Rightarrow> string \<Rightarrow> ('w, 'f, 's, 'i, 'r) st
    \<Rightarrow> (bool \<times> error option) \<times> ('w, 'f, 's, 'i, 'r) st" where
  "call_IsValidFolderPath env p s =
     (case IsValidFolderPath env (world s) p of
        ((ok, err), w) \<Rightarrow>
          ((ok, err), \<lparr>world = w, trace = trace s @ [Call_IsValidFolderPath p ok err]\<rparr>))"

definition call_MkdirAll ::
  "('w, 'f, 's, 'i, 'r) env \<Rightarrow> string \<Rightarrow> nat \<Rightarrow> ('w, 'f, 's, 'i, 'r) st
    \<Rightarrow> error option \<times> ('w, 'f, 's, 'i, 'r) st" where
  "call_MkdirAll env p perm s =
     (case MkdirAll env (world s) p perm of
        (err, w) \<Rightarrow> (err, \<lparr>world = w, trace = trace s @ [Call_MkdirAll p perm err]\<rparr>))"

definition call_Command ::
  "('w, 'f, 's, 'i, 'r) env \<Rightarrow> string \<Rightarrow> string list \<Rightarrow> ('w, 'f, 's, 'i, 'r) st
    \<Rightarrow> error option \<times> ('w, 'f, 's, 'i, 'r) st" where
  "call_Command env name args s =
     (case Command env (world s) name args of
        (err, w) \<Rightarrow> (err, \<lparr>world = w, trace = trace s @ [Call_Command name args err]\<rparr>))"

definition call_ExtractFiles ::
  "('w, 'f, 's, 'i, 'r) env \<Rightarrow> string \<Rightarrow> ('w, 'f, 's, 'i, 'r) st
    \<Rightarrow> ('f \<times> 's \<times> string \<times> error option) \<times> ('w, 'f, 's, 'i, 'r) st" where
  "call_ExtractFiles env scanPath s =
     (case ExtractFiles env (world s) scanPath of
        ((files, settings, out, err), w) \<Rightarrow>
          ((files, settings, out, err),
           \<lparr>world = w, trace = trace s @ [Call_ExtractFiles scanPath files settings out err]\<rparr>))"

definition call_ExtractAndMergeImagesFromFiles ::
  "('w, 'f, 's, 'i, 'r) env \<Rightarrow> 'f \<Rightarrow> 'i list \<Rightarrow> 's \<Rightarrow> ('w, 'f, 's, 'i, 'r) st
    \<Rightarrow> ('i list \<times> error option) \<times> ('w, 'f, 's, 'i, 'r) st" where
  "call_ExtractAndMergeImagesFromFiles env files images settings s =
     (case ExtractAndMergeImagesFromFiles env (world s) files images settings of
        ((merged, err), w) \<Rightarrow>
          ((merged, err),
           \<lparr>world = w,
            trace = trace s @ [Call_ExtractAndMergeImagesFromFiles files images settings err]\<rparr>))"

definition call_AnalyzeImagesWithPlatform ::
  "('w, 'f, 's, 'i, 'r) env \<Rightarrow> 'i list \<Rightarrow> string \<Rightarrow> ('w, 'f, 's, 'i, 'r) st
    \<Rightarrow> ('r \<times> error option) \<times> ('w, 'f, 's, 'i, 'r) st" where
  "call_AnalyzeImagesWithPlatform env images platform s =
     (case AnalyzeImagesWithPlatform env (world s) images platform of
        ((res, err), w) \<Rightarrow>
          ((res, err),
           \<lparr>world = w, trace = trace s @ [Call_AnalyzeImagesWithPlatform images platform err]\<rparr>))"

definition call_AnalyzeImages ::
  "('w, 'f, 's, 'i, 'r) env \<Rightarrow> 'i list \<Rightarrow> ('w, 'f, 's, 'i, 'r) st
    \<Rightarrow> ('r \<times> error option) \<times> ('w, 'f, 's, 'i, 'r) st" where
  "call_AnalyzeImages env images s =
     (case AnalyzeImages env (world s) images of
        ((res, err), w) \<Rightarrow>
          ((res, err), \<lparr>world = w, trace = trace s @ [Call_AnalyzeImages images err]\<rparr>))"

definition call_SaveObjectToFile ::
  "('w, 'f, 's, 'i, 'r) env \<Rightarrow> string \<Rightarrow> 'r \<Rightarrow> ('w, 'f, 's, 'i, 'r) st
    \<Rightarrow> error option \<times> ('w, 'f, 's, 'i, 'r) st" where
  "call_SaveObjectToFile env folderPath obj s =
     (case SaveObjectToFile env (world s) folderPath obj of
        (err, w) \<Rightarrow>
          (err, \<lparr>world = w, trace = trace s @ [Call_SaveObjectToFile folderPath obj err]\<rparr>))"

definition call_DeleteDirectory ::
  "('w, 'f, 's, 'i, 'r) env \<Rightarrow> string \<Rightarrow> ('w, 'f, 's, 'i, 'r) st
    \<Rightarrow> error option \<times> ('w, 'f, 's, 'i, 'r) st" where
  "call_DeleteDirectory env p s =
     (case DeleteDirectory env (world s) p of
        (err, w) \<Rightarrow> (err, \<lparr>world = w, trace = trace s @ [Call_DeleteDirectory p err]\<rparr>))"

section \<open>The resolver of \<open>pkg/containerResolver/containerScanner.go\<close>\<close>

text \<open>\<open>hideDirectoryOnWindows\<close> runs \<open>attrib +H dirPath\<close>, on Windows only.\<close>

definition hideDirectoryOnWindows ::
  "('w, 'f, 's, 'i, 'r) env \<Rightarrow> string \<Rightarrow> ('w, 'f, 's, 'i, 'r) st
    \<Rightarrow> error option \<times> ('w, 'f, 's, 'i, 'r) st" where
  "hideDirectoryOnWindows env dirPath s =
     (if GOOS env \<noteq> ''windows'' then (None, s)
      else call_Command env ''attrib'' [''+H'', dirPath] s)"

text \<open>
  \<open>validate\<close> returns the path of the results folder and an error.  Permission \<open>0755\<close>
  is \<open>493\<close>.
\<close>

definition validate ::
  "('w, 'f, 's, 'i, 'r) env \<Rightarrow> string \<Rightarrow> ('w, 'f, 's, 'i, 'r) st
    \<Rightarrow> (string \<times> error option) \<times> ('w, 'f, 's, 'i, 'r) st" where
  "validate env resolutionFolderPath s =
     (case call_IsValidFolderPath env resolutionFolderPath s of
        ((isValidFolderPath, err), s1) \<Rightarrow>
          if err \<noteq> None \<or> isValidFolderPath = False then (('''', err), s1)
          else
            let checkmarxFolderPath = Join env [resolutionFolderPath, ''.checkmarx''];
                checkmarxPath = Join env [checkmarxFolderPath, ''containers'']
            in case call_MkdirAll env checkmarxPath 493 s1 of
                 (err, s2) \<Rightarrow>
                   if err \<noteq> None then (('''', err), s2)
                   else if GOOS env = ''windows'' then
                     (case hideDirectoryOnWindows env checkmarxFolderPath s2 of
                        (err, s3) \<Rightarrow>
                          if err \<noteq> None then
                            ((checkmarxPath, None),
                             emit (Log WarnLevel err
                               ''Could not hide .checkmarx folder on Windows'') s3)
                          else ((checkmarxPath, None), s3))
                   else ((checkmarxPath, None), s2))"

text \<open>
  \<open>cleanup\<close> returns the error of the deletion of the output directory only; both
  failures are logged as warnings.
\<close>

definition cleanup ::
  "('w, 'f, 's, 'i, 'r) env \<Rightarrow> string \<Rightarrow> string \<Rightarrow> string \<Rightarrow> ('w, 'f, 's, 'i, 'r) st
    \<Rightarrow> error option \<times> ('w, 'f, 's, 'i, 'r) st" where
  "cleanup env originalPath outputPath checkmarxPath s =
     (case (if outputPath \<noteq> '''' \<and> outputPath \<noteq> originalPath then
              (case call_DeleteDirectory env outputPath s of
                 (err, s1) \<Rightarrow>
                   if err \<noteq> None then
                     (err, emit (Log WarnLevel err ''Could not delete output directory'') s1)
                   else (err, s1))
            else (None, s)) of
        (err, s2) \<Rightarrow>
          if checkmarxPath \<noteq> '''' then
            (case call_DeleteDirectory env checkmarxPath s2 of
               (cxErr, s3) \<Rightarrow>
                 if cxErr \<noteq> None then
                   (err, emit (Log WarnLevel cxErr
                      ''Could not delete containers directory inside .checkmarx folder'') s3)
                 else (err, s3))
          else (err, s2))"

text \<open>
  \<open>Resolve\<close>: the logger set-up, then validation, file extraction, image merge, analysis
  for the platform \<open>linux/amd64\<close>, persistence and cleanup; each step returns its error at
  once.
\<close>

definition Resolve ::
  "('w, 'f, 's, 'i, 'r) env \<Rightarrow> string \<Rightarrow> string \<Rightarrow> string list \<Rightarrow> bool
    \<Rightarrow> ('w, 'f, 's, 'i, 'r) st \<Rightarrow> error option \<times> ('w, 'f, 's, 'i, 'r) st" where
  "Resolve env scanPath resolutionFolderPath images isDebug s =
     (let s0 = emit (SetGlobalLevel (if isDebug then DebugLevel else InfoLevel)) s;
          s1 = emit (Logf DebugLevel
                 ''Resolve func parameters: scanPath=%s, resolutionFolderPath=%s, images=%s, isDebug=%t''
                 [ArgString scanPath, ArgString resolutionFolderPath, ArgStrings images,
                  ArgBool isDebug]) s0
      in case validate env resolutionFolderPath s1 of
        ((checkmarxPath, err), s2) \<Rightarrow>
          if err \<noteq> None then
            (err, emit (Log ErrorLevel err
               ''Resolution Path is not valid or could not create .checkmarx folder.'') s2)
          else
          case call_ExtractFiles env scanPath
                 (emit (Log DebugLevel None ''Call ExtractFiles...'') s2) of
            ((filesWithImages, settingsFiles, outputPath, err), s3) \<Rightarrow>
              if err \<noteq> None then
                (err, emit (Log ErrorLevel err ''Could not extract files.'') s3)
              else
              case call_ExtractAndMergeImagesFromFiles env filesWithImages
                     (ToImageModels env images) settingsFiles s3 of
                ((imagesToAnalyze, err), s4) \<Rightarrow>
                  if err \<noteq> None then
                    (err, emit (Log ErrorLevel err ''Could not extract images from files.'') s4)
                  else
                  case call_AnalyzeImagesWithPlatform env imagesToAnalyze ''linux/amd64'' s4 of
                    ((resolutionResult, err), s5) \<Rightarrow>
                      if err \<noteq> None then
                        (err, emit (Log ErrorLevel err ''Could not analyze images.'') s5)
                      else
                      case call_SaveObjectToFile env checkmarxPath resolutionResult s5 of
                        (err, s6) \<Rightarrow>
                          if err \<noteq> None then
                            (err, emit (Log ErrorLevel err
                               ''Could not save resolution result.'') s6)
                          else
                          case cleanup env resolutionFolderPath outputPath checkmarxPath s6 of
                            (err, s7) \<Rightarrow>
                              if err \<noteq> None then
                                (err, emit (Log ErrorLevel err
                                   ''Could not cleanup resources.'') s7)
                              else (None, s7))"

section \<open>The earlier resolvers\<close>

subsection \<open>The second resolver of \<open>containerScanner.go\<close>\<close>

text \<open>
  The file holds a second resolver after the first: it analyses with \<open>AnalyzeImages\<close>,
  joins the results folder in one call, does not hide the folder, and its \<open>cleanup\<close>
  deletes both directories under one condition and returns either error.
\<close>

definition validate_v2 ::
  "('w, 'f, 's, 'i, 'r) env \<Rightarrow> string \<Rightarrow> ('w, 'f, 's, 'i, 'r) st
    \<Rightarrow> (string \<times> error option) \<times> ('w, 'f, 's, 'i, 'r) st" where
  "validate_v2 env resolutionFolderPath s =
     (case call_IsValidFolderPath env resolutionFolderPath s of
        ((isValidFolderPath, err), s1) \<Rightarrow>
          if err \<noteq> None \<or> isValidFolderPath = False then (('''', err), s1)
          else
            let checkmarxPath = Join env [resolutionFolderPath, ''.checkmarx'', ''containers'']
            in case call_MkdirAll env checkmarxPath 493 s1 of
                 (err, s2) \<Rightarrow>
                   if err \<noteq> None then (('''', err), s2)
                   else ((checkmarxPath, None), s2))"

definition cleanup_v2 ::
  "('w, 'f, 's, 'i, 'r) env \<Rightarrow> string \<Rightarrow> string \<Rightarrow> string \<Rightarrow> ('w, 'f, 's, 'i, 'r) st
    \<Rightarrow> error option \<times> ('w, 'f, 's, 'i, 'r) st" where
  "cleanup_v2 env originalPath outputPath checkmarxPath s =
     (if outputPath \<noteq> '''' \<and> outputPath \<noteq> originalPath \<and> checkmarxPath \<noteq> '''' then
        (case call_DeleteDirectory env outputPath s of
           (err, s1) \<Rightarrow>
             (case call_DeleteDirectory env checkmarxPath s1 of
                (cxErr, s2) \<Rightarrow>
                  if err \<noteq> None then (err, s2)
                  else if cxErr \<noteq> None then (cxErr, s2)
                  else (None, s2)))
      else (None, s))"

definition Resolve_v2 ::
  "('w, 'f, 's, 'i, 'r) env \<Rightarrow> string \<Rightarrow> string \<Rightarrow> string list \<Rightarrow> bool
    \<Rightarrow> ('w, 'f, 's, 'i, 'r) st \<Rightarrow> error option \<times> ('w, 'f, 's, 'i, 'r) st" where
  "Resolve_v2 env scanPath resolutionFolderPath images isDebug s =
     (let s0 = emit (SetGlobalLevel (if isDebug then DebugLevel else InfoLevel)) s;
          s1 = emit (Logf DebugLevel
                 ''Resolve func parameters: scanPath=%s, resolutionFolderPath=%s, images=%s, isDebug=%t''
                 [ArgString scanPath, ArgString resolutionFolderPath, ArgStrings images,
                  ArgBool isDebug]) s0
      in case validate_v2 env resolutionFolderPath s1 of
        ((checkmarxPath, err), s2) \<Rightarrow>
          if err \<noteq> None then
            (err, emit (Log ErrorLevel err
               ''Resolution Path is not valid or could not create .checkmarx folder.'') s2)
          else
          case call_ExtractFiles env scanPath
                 (emit (Log DebugLevel None ''Call ExtractFiles...'') s2) of
            ((filesWithImages, settingsFiles, outputPath, err), s3) \<Rightarrow>
              if err \<noteq> None then
                (err, emit (Log ErrorLevel err ''Could not extract files.'') s3)
              else
              case call_ExtractAndMergeImagesFromFiles env filesWithImages
                     (ToImageModels env images) settingsFiles s3 of
                ((imagesToAnalyze, err), s4) \<Rightarrow>
                  if err \<noteq> None then
                    (err, emit (Log ErrorLevel err ''Could not extract images from files.'') s4)
                  else
                  case call_AnalyzeImages env imagesToAnalyze s4 of
                    ((resolutionResult, err), s5) \<Rightarrow>
                      if err \<noteq> None then
                        (err, emit (Log ErrorLevel err ''Could not analyze images.'') s5)
                      else
                      case call_SaveObjectToFile env checkmarxPath resolutionResult s5 of
                        (err, s6) \<Rightarrow>
                          if err \<noteq> None then
                            (err, emit (Log ErrorLevel err
                               ''Could not save resolution result.'') s6)
                          else
                          case cleanup_v2 env resolutionFolderPath outputPath checkmarxPath s6 of
                            (err, s7) \<Rightarrow>
                              if err \<noteq> None then
                                (err, emit (Log ErrorLevel err
                                   ''Could not cleanup resources.'') s7)
                              else (None, s7))"

subsection \<open>The resolver of \<open>unnamed/part_000\<close>\<close>

text \<open>
  The simplest resolver: no results folder.  \<open>validate\<close> returns the error of the folder
  check alone, the result is saved into the resolution folder itself, and \<open>cleanup\<close>
  deletes the output directory and returns its error.
\<close>

definition validate_v1 ::
  "('w, 'f, 's, 'i, 'r) env \<Rightarrow> string \<Rightarrow> ('w, 'f, 's, 'i, 'r) st
    \<Rightarrow> error option \<times> ('w, 'f, 's, 'i, 'r) st" where
  "validate_v1 env resolutionFolderPath s =
     (case call_IsValidFolderPath env resolutionFolderPath s of
        ((isValidFolderPath, err), s1) \<Rightarrow>
          if err \<noteq> None \<or> isValidFolderPath = False then (err, s1)
          else (None, s1))"

definition cleanup_v1 ::
  "('w, 'f, 's, 'i, 'r) env \<Rightarrow> string \<Rightarrow> string \<Rightarrow> ('w, 'f, 's, 'i, 'r) st
    \<Rightarrow> error option \<times> ('w, 'f, 's, 'i, 'r) st" where
  "cleanup_v1 env originalPath outputPath s =
     (if outputPath \<noteq> '''' \<and> outputPath \<noteq> originalPath then
        (case call_DeleteDirectory env outputPath s of
           (err, s1) \<Rightarrow> if err \<noteq> None then (err, s1) else (None, s1))
      else (None, s))"

definition Resolve_v1 ::
  "('w, 'f, 's, 'i, 'r) env \<Rightarrow> string \<Rightarrow> string \<Rightarrow> string list \<Rightarrow> bool
    \<Rightarrow> ('w, 'f, 's, 'i, 'r) st \<Rightarrow> error option \<times> ('w, 'f, 's, 'i, 'r) st" where
  "Resolve_v1 env scanPath resolutionFolderPath images isDebug s =
     (let s1 = emit (Logf DebugLevel
                 ''Resolve func parameters: scanPath=%s, resolutionFolderPath=%s, images=%s, isDebug=%t''
                 [ArgString scanPath, ArgString resolutionFolderPath, ArgStrings images,
                  ArgBool isDebug]) s
      in case validate_v1 env resolutionFolderPath s1 of
        (err, s2) \<Rightarrow>
          if err \<noteq> None then
            (err, emit (Log ErrorLevel err ''Resolution Path is not valid.'') s2)
          else
          case call_ExtractFiles env scanPath
                 (emit (Log DebugLevel None ''Call ExtractFiles...'') s2) of
            ((filesWithImages, settingsFiles, outputPath, err), s3) \<Rightarrow>
              if err \<noteq> None then
                (err, emit (Log ErrorLevel err ''Could not extract files.'') s3)
              else
              case call_ExtractAndMergeImagesFromFiles env filesWithImages
                     (ToImageModels env images) settingsFiles s3 of
                ((imagesToAnalyze, err), s4) \<Rightarrow>
                  if err \<noteq> None then
                    (err, emit (Log ErrorLevel err ''Could not extract images from files.'') s4)
                  else
                  case call_AnalyzeImages env imagesToAnalyze s4 of
                    ((resolutionResult, err), s5) \<Rightarrow>
                      if err \<noteq> None then
                        (err, emit (Log ErrorLevel err ''Could not analyze images.'') s5)
                      else
                      case call_SaveObjectToFile env resolutionFolderPath resolutionResult s5 of
                        (err, s6) \<Rightarrow>
                          if err \<noteq> None then
                            (err, emit (Log ErrorLevel err
                               ''Could not save resolution result.'') s6)
                          else
                          case cleanup_v1 env resolutionFolderPath outputPath s6 of
                            (err, s7) \<Rightarrow>
                              if err \<noteq> None then
                                (err, emit (Log ErrorLevel err
                                   ''Could not cleanup resources.'') s7)
                              else (None, s7))"

section \<open>Reading a trace\<close>

fun is_ExtractFiles :: "('f, 's, 'i, 'r) event \<Rightarrow> bool" where
  "is_ExtractFiles (Call_ExtractFiles p f st out e) = True"
| "is_ExtractFiles _ = False"

fun is_Merge :: "('f, 's, 'i, 'r) event \<Rightarrow> bool" where
  "is_Merge (Call_ExtractAndMergeImagesFromFiles f im st e) = True"
| "is_Merge _ = False"

fun is_Analyze :: "('f, 's, 'i, 'r) event \<Rightarrow> bool" where
  "is_Analyze (Call_AnalyzeImagesWithPlatform im pl e) = True"
| "is_Analyze (Call_AnalyzeImages im e) = True"
| "is_Analyze _ = False"

fun is_Save :: "('f, 's, 'i, 'r) event \<Rightarrow> bool" where
  "is_Save (Call_SaveObjectToFile p obj e) = True"
| "is_Save _ = False"

fun is_Delete :: "('f, 's, 'i, 'r) event \<Rightarrow> bool" where
  "is_Delete (Call_DeleteDirectory p e) = True"
| "is_Delete _ = False"

text \<open>The four collaborator calls of the pipeline: discovery, merge, analysis, persistence.\<close>

definition is_collaborator_call :: "('f, 's, 'i, 'r) event \<Rightarrow> bool" where
  "is_collaborator_call ev \<longleftrightarrow> is_ExtractFiles ev \<or> is_Merge ev \<or> is_Analyze ev \<or> is_Save ev"

fun call_error :: "('f, 's, 'i, 'r) event \<Rightarrow> error option" where
  "call_error (Call_IsValidFolderPath p ok e) = e"
| "call_error (Call_MkdirAll p perm e) = e"
| "call_error (Call_Command name args e) = e"
| "call_error (Call_ExtractFiles p f st out e) = e"
| "call_error (Call_ExtractAndMergeImagesFromFiles f im st e) = e"
| "call_error (Call_AnalyzeImagesWithPlatform im pl e) = e"
| "call_error (Call_AnalyzeImages im e) = e"
| "call_error (Call_SaveObjectToFile p obj e) = e"
| "call_error (Call_DeleteDirectory p e) = e"
| "call_error _ = None"

text \<open>The errors the collaborator calls of a trace returned, in the order of the calls.\<close>

definition collaborator_results :: "('f, 's, 'i, 'r) event list \<Rightarrow> error option list" where
  "collaborator_results evs = map call_error (filter is_collaborator_call evs)"

fun deleted_path :: "('f, 's, 'i, 'r) event \<Rightarrow> string list" where
  "deleted_path (Call_DeleteDirectory p e) = [p]"
| "deleted_path _ = []"

text \<open>The paths \<open>DeleteDirectory\<close> was called on, in order.\<close>

definition deletions :: "('f, 's, 'i, 'r) event list \<Rightarrow> string list" where
  "deletions evs = concat (map deleted_path evs)"

fun failed_deletion :: "('f, 's, 'i, 'r) event \<Rightarrow> (string \<times> error) list" where
  "failed_deletion (Call_DeleteDirectory p (Some e)) = [(p, e)]"
| "failed_deletion _ = []"

text \<open>The calls of \<open>DeleteDirectory\<close> that returned an error: the path and the error.\<close>

definition deletion_failures :: "('f, 's, 'i, 'r) event list \<Rightarrow> (string \<times> error) list" where
  "deletion_failures evs = concat (map failed_deletion evs)"

fun saved_path :: "('f, 's, 'i, 'r) event \<Rightarrow> string list" where
  "saved_path (Call_SaveObjectToFile p obj e) = [p]"
| "saved_path _ = []"

text \<open>The folders \<open>SaveObjectToFile\<close> was called on.\<close>

definition save_folders :: "('f, 's, 'i, 'r) event list \<Rightarrow> string list" where
  "save_folders evs = concat (map saved_path evs)"

fun is_warning :: "string \<Rightarrow> ('f, 's, 'i, 'r) event \<Rightarrow> bool" where
  "is_warning msg (Log lv e m) = (lv = WarnLevel \<and> m = msg)"
| "is_warning msg _ = False"

text \<open>A warning with the given message was logged.\<close>

definition warned :: "string \<Rightarrow> ('f, 's, 'i, 'r) event list \<Rightarrow> bool" where
  "warned msg evs \<longleftrightarrow> filter (is_warning msg) evs \<noteq> []"

section \<open>\<open>filepath.Join\<close> on a Unix system\<close>

text \<open>
  \<open>filepath.Join\<close> belongs to Go's standard library, so \<open>Join\<close> is a field of \<open>env\<close>.
  Where a property depends on what the joined path is, it is stated for the function
  below: \<open>filepath.Join\<close> as the library documents it for systems whose separator is
  \<open>/\<close>.  Empty elements before the first non-empty one are ignored, the rest is joined
  with the separator, and the result is cleaned (\<open>Clean\<close>): empty elements and \<open>.\<close>
  are dropped, an inner \<open>..\<close> is dropped together with the element before it, a \<open>..\<close>
  at the root is dropped, and the empty result is \<open>.\<close>.
\<close>

fun split_path :: "string \<Rightarrow> string list" where
  "split_path [] = [[]]"
| "split_path (c # cs) =
     (if c = CHR ''/'' then [] # split_path cs
      else (case split_path cs of [] \<Rightarrow> [[c]] | el # els \<Rightarrow> (c # el) # els))"

fun join_sep :: "string list \<Rightarrow> string" where
  "join_sep [] = []"
| "join_sep [el] = el"
| "join_sep (el # els) = el @ CHR ''/'' # join_sep els"

definition clean_element :: "bool \<Rightarrow> string list \<Rightarrow> string \<Rightarrow> string list" where
  "clean_element rooted out el =
     (if el = '''' \<or> el = ''.'' then out
      else if el = ''..'' then
        (if out \<noteq> [] \<and> last out \<noteq> ''..'' then butlast out
         else if \<not> rooted then out @ [''..'']
         else out)
      else out @ [el])"

definition Clean :: "string \<Rightarrow> string" where
  "Clean path =
     (case path of
        [] \<Rightarrow> ''.''
      | c # cs \<Rightarrow>
          let rooted = (c = CHR ''/'');
              out = foldl (clean_element rooted) [] (split_path path);
              cleaned = (if rooted then ''/'' else '''') @ join_sep out
          in if cleaned = '''' then ''.'' else cleaned)"

definition filepath_Join :: "string list \<Rightarrow> string" where
  "filepath_Join elem =
     (case dropWhile (\<lambda>el. el = '''') elem of
        [] \<Rightarrow> ''''
      | el # els \<Rightarrow> Clean (join_sep (el # els)))"

section \<open>Notions used in the proofs\<close>

text \<open>The state of \<open>Resolve\<close> when it calls \<open>validate\<close>: the logger is set up.\<close>

definition Resolve_start ::
  "string \<Rightarrow> string \<Rightarrow> string list \<Rightarrow> bool \<Rightarrow> ('w, 'f, 's, 'i, 'r) st
    \<Rightarrow> ('w, 'f, 's, 'i, 'r) st" where
  "Resolve_start scanPath resolutionFolderPath images isDebug s =
     emit (Logf DebugLevel
        ''Resolve func parameters: scanPath=%s, resolutionFolderPath=%s, images=%s, isDebug=%t''
        [ArgString scanPath, ArgString resolutionFolderPath, ArgStrings images,
         ArgBool isDebug])
       (emit (SetGlobalLevel (if isDebug then DebugLevel else InfoLevel)) s)"

definition Resolve_v1_start ::
  "string \<Rightarrow> string \<Rightarrow> string list \<Rightarrow> bool \<Rightarrow> ('w, 'f, 's, 'i, 'r) st
    \<Rightarrow> ('w, 'f, 's, 'i, 'r) st" where
  "Resolve_v1_start scanPath resolutionFolderPath images isDebug s =
     emit (Logf DebugLevel
        ''Resolve func parameters: scanPath=%s, resolutionFolderPath=%s, images=%s, isDebug=%t''
        [ArgString scanPath, ArgString resolutionFolderPath, ArgStrings images,
         ArgBool isDebug]) s"

text \<open>
  An event is silent when it is no call of a collaborator, no deletion and no warning: the
  logger's set-up, the debug and error entries of \<open>Resolve\<close>, and the calls of \<open>validate\<close>.
\<close>

fun silent :: "('f, 's, 'i, 'r) event \<Rightarrow> bool" where
  "silent (SetGlobalLevel lv) = True"
| "silent (Logf lv fmt args) = True"
| "silent (Log lv e msg) = (lv \<noteq> WarnLevel \<or> msg = ''Could not hide .checkmarx folder on Windows'')"
| "silent (Call_IsValidFolderPath p ok e) = True"
| "silent (Call_MkdirAll p perm e) = True"
| "silent (Call_Command name args e) = True"
| "silent _ = False"

text \<open>
  The weight of a path counts its elements: \<open>..\<close> counts \<open>-1\<close>, the empty element and
  \<open>.\<close> count \<open>0\<close>, every other element counts \<open>1\<close>.  \<open>Clean\<close> never lowers it.
\<close>

definition el_weight :: "string \<Rightarrow> int" where
  "el_weight el = (if el = '''' \<or> el = ''.'' then 0 else if el = ''..'' then - 1 else 1)"

definition weight :: "string list \<Rightarrow> int" where
  "weight els = sum_list (map el_weight els)"

definition path_weight :: "string \<Rightarrow> int" where
  "path_weight p = weight (split_path p)"

section \<open>Test doubles\<close>

text \<open>
  Concrete collaborators, after the mocks of \<open>containerScanner_test.go\<close>: a world is the
  list of the directories and the list of the files that exist.  Every call of \<open>test_env\<close>
  succeeds; the other environments replace one collaborator by one that fails.
\<close>

record fsys =
  dirs :: "string list"
  files :: "string list"

type_synonym test_env = "(fsys, string list, string list, string, string list) env"

type_synonym test_state = "(fsys, string list, string list, string, string list) st"

definition test_env :: test_env where
  "test_env =
     \<lparr>GOOS = ''linux'',
      Join = filepath_Join,
      ToImageModels = (\<lambda>images. images),
      IsValidFolderPath = (\<lambda>w p.
        if p \<in> set (dirs w) then ((True, None), w)
        else ((False, Some (Error (''stat '' @ p @ '': no such file or directory''))), w)),
      MkdirAll = (\<lambda>w p perm. (None, w\<lparr>dirs := p # dirs w\<rparr>)),
      Command = (\<lambda>w name args. (None, w)),
      ExtractFiles = (\<lambda>w p.
        (([''Dockerfile''], [''settings.json''], ''/output/path'', None),
         w\<lparr>dirs := ''/output/path'' # dirs w\<rparr>)),
      ExtractAndMergeImagesFromFiles = (\<lambda>w f im st. ((im, None), w)),
      AnalyzeImagesWithPlatform = (\<lambda>w im pl. ((im, None), w)),
      AnalyzeImages = (\<lambda>w im. ((im, None), w)),
      SaveObjectToFile = (\<lambda>w p obj.
        (None, w\<lparr>files := (p @ ''/containers-resolution.json'') # files w\<rparr>)),
      DeleteDirectory = (\<lambda>w p. (None, w\<lparr>dirs := removeAll p (dirs w)\<rparr>))\<rparr>"

text \<open>The folder check reports ``not valid'' and no error.\<close>

definition env_not_valid :: test_env where
  "env_not_valid = test_env\<lparr>IsValidFolderPath := (\<lambda>w p. ((False, None), w))\<rparr>"

text \<open>The results folder cannot be created.\<close>

definition env_mkdir_fails :: test_env where
  "env_mkdir_fails =
     test_env\<lparr>MkdirAll := (\<lambda>w p perm. (Some (Error ''permission denied''), w))\<rparr>"

definition env_extract_fails :: test_env where
  "env_extract_fails =
     test_env\<lparr>ExtractFiles := (\<lambda>w p.
       (([''Dockerfile''], [''settings.json''], ''/output/path'', Some (Error ''invalid path'')),
        w))\<rparr>"

definition env_analyze_fails :: test_env where
  "env_analyze_fails =
     test_env\<lparr>AnalyzeImagesWithPlatform := (\<lambda>w im pl.
                ((im, Some (Error ''error analyzing images'')), w)),
              AnalyzeImages := (\<lambda>w im. ((im, Some (Error ''error analyzing images'')), w))\<rparr>"

definition env_save_fails :: test_env where
  "env_save_fails =
     test_env\<lparr>SaveObjectToFile := (\<lambda>w p obj. (Some (Error ''disk full''), w))\<rparr>"

text \<open>The output directory cannot be deleted; every other directory can.\<close>

definition env_output_stays :: test_env where
  "env_output_stays =
     test_env\<lparr>DeleteDirectory := (\<lambda>w p.
       if p = ''/output/path'' then (Some (Error ''directory in use''), w)
       else (None, w\<lparr>dirs := removeAll p (dirs w)\<rparr>))\<rparr>"

text \<open>The results folder cannot be deleted; every other directory can.\<close>

definition env_results_stay :: test_env where
  "env_results_stay =
     test_env\<lparr>DeleteDirectory := (\<lambda>w p.
       if p = ''/output/path'' then (None, w\<lparr>dirs := removeAll p (dirs w)\<rparr>)
       else (Some (Error ''directory in use''), w))\<rparr>"

text \<open>No directory can be deleted.\<close>

definition env_delete_fails :: test_env where
  "env_delete_fails =
     test_env\<lparr>DeleteDirectory := (\<lambda>w p. (Some (Error ''directory in use''), w))\<rparr>"

text \<open>The extractor works in place: its output directory is the resolution folder.\<close>

definition env_output_in_place :: test_env where
  "env_output_in_place =
     test_env\<lparr>ExtractFiles := (\<lambda>w p.
       (([''Dockerfile''], [''settings.json''], ''../../test_files/resolution'', None), w))\<rparr>"

definition test_world :: fsys where
  "test_world = \<lparr>dirs = [''../../test_files/resolution'', ''../../test_files''], files = []\<rparr>"

definition test_start :: test_state where
  "test_start = \<lparr>world = test_world, trace = []\<rparr>"

definition test_scan :: string where
  "test_scan = ''../../test_files''"

definition test_folder :: string where
  "test_folder = ''../../test_files/resolution''"

definition test_images :: "string list" where
  "test_images = [''image1'', ''image2'']"

section \<open>Lemmas: one call, one event\<close>

lemma call_IsValidFolderPath_run:
  assumes "call_IsValidFolderPath env p s = ((ok, err), s')"
  shows "IsValidFolderPath env (world s) p = ((ok, err), world s')"
    and "trace s' = trace s @ [Call_IsValidFolderPath p ok err]"
  using assms by (auto simp: call_IsValidFolderPath_def split: prod.splits)

lemma call_MkdirAll_run:
  assumes "call_MkdirAll env p perm s = (err, s')"
  shows "MkdirAll env (world s) p perm = (err, world s')"
    and "trace s' = trace s @ [Call_MkdirAll p perm err]"
  using assms by (auto simp: call_MkdirAll_def split: prod.splits)

lemma call_Command_run:
  assumes "call_Command env name args s = (err, s')"
  shows "Command env (world s) name args = (err, world s')"
    and "trace s' = trace s @ [Call_Command name args err]"
  using assms by (auto simp: call_Command_def split: prod.splits)

lemma call_ExtractFiles_run:
  assumes "call_ExtractFiles env p s = ((f, st, out, err), s')"
  shows "ExtractFiles env (world s) p = ((f, st, out, err), world s')"
    and "trace s' = trace s @ [Call_ExtractFiles p f st out err]"
  using assms by (auto simp: call_ExtractFiles_def split: prod.splits)

lemma call_ExtractAndMergeImagesFromFiles_run:
  assumes "call_ExtractAndMergeImagesFromFiles env f im st s = ((merged, err), s')"
  shows "ExtractAndMergeImagesFromFiles env (world s) f im st = ((merged, err), world s')"
    and "trace s' = trace s @ [Call_ExtractAndMergeImagesFromFiles f im st err]"
  using assms by (auto simp: call_ExtractAndMergeImagesFromFiles_def split: prod.splits)

lemma call_AnalyzeImagesWithPlatform_run:
  assumes "call_AnalyzeImagesWithPlatform env im pl s = ((rr, err), s')"
  shows "AnalyzeImagesWithPlatform env (world s) im pl = ((rr, err), world s')"
    and "trace s' = trace s @ [Call_AnalyzeImagesWithPlatform im pl err]"
  using assms by (auto simp: call_AnalyzeImagesWithPlatform_def split: prod.splits)

lemma call_AnalyzeImages_run:
  assumes "call_AnalyzeImages env im s = ((rr, err), s')"
  shows "AnalyzeImages env (world s) im = ((rr, err), world s')"
    and "trace s' = trace s @ [Call_AnalyzeImages im err]"
  using assms by (auto simp: call_AnalyzeImages_def split: prod.splits)

lemma call_SaveObjectToFile_run:
  assumes "call_SaveObjectToFile env p obj s = (err, s')"
  shows "SaveObjectToFile env (world s) p obj = (err, world s')"
    and "trace s' = trace s @ [Call_SaveObjectToFile p obj err]"
  using assms by (auto simp: call_SaveObjectToFile_def split: prod.splits)

lemma call_DeleteDirectory_run:
  assumes "call_DeleteDirectory env p s = (err, s')"
  shows "DeleteDirectory env (world s) p = (err, world s')"
    and "trace s' = trace s @ [Call_DeleteDirectory p err]"
  using assms by (auto simp: call_DeleteDirectory_def split: prod.splits)

lemma emit_simps [simp]:
  "world (emit ev s) = world s" "trace (emit ev s) = trace s @ [ev]"
  by (simp_all add: emit_def)

lemma Resolve_start_simps [simp]:
  "world (Resolve_start scanPath r images dbg s) = world s"
  "trace (Resolve_start scanPath r images dbg s) =
     trace s @ [SetGlobalLevel (if dbg then DebugLevel else InfoLevel),
       Logf DebugLevel
         ''Resolve func parameters: scanPath=%s, resolutionFolderPath=%s, images=%s, isDebug=%t''
         [ArgString scanPath, ArgString r, ArgStrings images, ArgBool dbg]]"
  by (simp_all add: Resolve_start_def)

lemma Resolve_v1_start_simps [simp]:
  "world (Resolve_v1_start scanPath r images dbg s) = world s"
  "trace (Resolve_v1_start scanPath r images dbg s) =
     trace s @ [Logf DebugLevel
         ''Resolve func parameters: scanPath=%s, resolutionFolderPath=%s, images=%s, isDebug=%t''
         [ArgString scanPath, ArgString r, ArgStrings images, ArgBool dbg]]"
  by (simp_all add: Resolve_v1_start_def)

lemma new_events_append [simp]: "trace s' = trace s @ evs \<Longrightarrow> new_events s s' = evs"
  by (simp add: new_events_def)

section \<open>Lemmas: silent events\<close>

lemma silent_not_call:
  "silent ev \<Longrightarrow> \<not> is_collaborator_call ev \<and> \<not> is_ExtractFiles ev \<and> \<not> is_Merge ev
     \<and> \<not> is_Analyze ev \<and> \<not> is_Save ev \<and> \<not> is_Delete ev"
  by (cases ev) (simp_all add: is_collaborator_call_def)

lemma silent_filters:
  assumes "\<forall>ev \<in> set evs. silent ev"
  shows "filter is_collaborator_call evs = []"
    and "filter is_ExtractFiles evs = []"
    and "filter is_Merge evs = []"
    and "filter is_Analyze evs = []"
    and "filter is_Save evs = []"
    and "filter is_Delete evs = []"
  using assms silent_not_call by (auto simp: filter_empty_conv)

lemma silent_results:
  "\<forall>ev \<in> set evs. silent ev \<Longrightarrow> collaborator_results evs = []"
  by (simp add: collaborator_results_def silent_filters)

lemma silent_deletions: "\<forall>ev \<in> set evs. silent ev \<Longrightarrow> deletions evs = []"
proof (induction evs)
  case Nil
  then show ?case by (simp add: deletions_def)
next
  case (Cons ev evs)
  then show ?case by (cases ev) (simp_all add: deletions_def)
qed

lemma silent_save_folders: "\<forall>ev \<in> set evs. silent ev \<Longrightarrow> save_folders evs = []"
proof (induction evs)
  case Nil
  then show ?case by (simp add: save_folders_def)
next
  case (Cons ev evs)
  then show ?case by (cases ev) (simp_all add: save_folders_def)
qed

lemma silent_not_warning:
  "silent ev \<Longrightarrow> msg \<noteq> ''Could not hide .checkmarx folder on Windows'' \<Longrightarrow> \<not> is_warning msg ev"
  by (cases ev) auto

lemma silent_warned:
  assumes "\<forall>ev \<in> set evs. silent ev" "msg \<noteq> ''Could not hide .checkmarx folder on Windows''"
  shows "\<not> warned msg evs"
  using assms silent_not_warning by (auto simp: warned_def filter_empty_conv)

lemma collaborator_results_append [simp]:
  "collaborator_results (xs @ ys) = collaborator_results xs @ collaborator_results ys"
  by (simp add: collaborator_results_def)

lemma deletions_append [simp]: "deletions (xs @ ys) = deletions xs @ deletions ys"
  by (simp add: deletions_def)

lemma save_folders_append [simp]: "save_folders (xs @ ys) = save_folders xs @ save_folders ys"
  by (simp add: save_folders_def)

lemma warned_append [simp]: "warned msg (xs @ ys) \<longleftrightarrow> warned msg xs \<or> warned msg ys"
  by (simp add: warned_def)

lemma reading_Nil [simp]:
  "collaborator_results [] = []" "deletions [] = []" "save_folders [] = []" "\<not> warned msg []"
  by (simp_all add: collaborator_results_def deletions_def save_folders_def warned_def)

lemma reading_Cons [simp]:
  "collaborator_results (ev # evs) =
     (if is_collaborator_call ev then call_error ev # collaborator_results evs
      else collaborator_results evs)"
  "deletions (ev # evs) = deleted_path ev @ deletions evs"
  "save_folders (ev # evs) = saved_path ev @ save_folders evs"
  "warned msg (ev # evs) \<longleftrightarrow> is_warning msg ev \<or> warned msg evs"
  by (simp_all add: collaborator_results_def deletions_def save_folders_def warned_def)

lemma is_collaborator_call_simps [simp]:
  "\<not> is_collaborator_call (SetGlobalLevel lv)"
  "\<not> is_collaborator_call (Log lv e msg)"
  "\<not> is_collaborator_call (Logf lv fmt largs)"
  "\<not> is_collaborator_call (Call_IsValidFolderPath p ok e)"
  "\<not> is_collaborator_call (Call_MkdirAll p perm e)"
  "\<not> is_collaborator_call (Call_Command name args e)"
  "is_collaborator_call (Call_ExtractFiles p f st out e)"
  "is_collaborator_call (Call_ExtractAndMergeImagesFromFiles f im st e)"
  "is_collaborator_call (Call_AnalyzeImagesWithPlatform im pl e)"
  "is_collaborator_call (Call_AnalyzeImages im e)"
  "is_collaborator_call (Call_SaveObjectToFile p obj e)"
  "\<not> is_collaborator_call (Call_DeleteDirectory p e)"
  by (simp_all add: is_collaborator_call_def)

lemma nested_pair_collapse: "t = ((fst (fst t), snd (fst t)), snd t)"
  by simp

lemma deletion_failures_simps [simp]:
  "deletion_failures [] = []"
  "deletion_failures (ev # evs) = failed_deletion ev @ deletion_failures evs"
  "deletion_failures (xs @ ys) = deletion_failures xs @ deletion_failures ys"
  by (simp_all add: deletion_failures_def)

lemma silent_deletion_failures:
  "\<forall>ev \<in> set evs. silent ev \<Longrightarrow> deletion_failures evs = []"
proof (induction evs)
  case Nil
  then show ?case by simp
next
  case (Cons ev evs)
  then show ?case by (cases ev) simp_all
qed

lemma failed_deletion_Nil [simp]:
  "failed_deletion (Call_DeleteDirectory p e) = [] \<longleftrightarrow> e = None"
  by (cases e) simp_all

section \<open>Lemmas: the runs of \<open>validate\<close>, \<open>cleanup\<close> and \<open>Resolve\<close>\<close>

lemma validate_cases [consumes 1, case_names rejected mkdir_failed created hidden not_hidden]:
  assumes "validate env r s = ((cx, err), s')"
  obtains
    (rejected) ok where
      "IsValidFolderPath env (world s) r = ((ok, err), world s')"
      "err \<noteq> None \<or> \<not> ok"
      "cx = ''''"
      "trace s' = trace s @ [Call_IsValidFolderPath r ok err]"
  | (mkdir_failed) w1 e where
      "IsValidFolderPath env (world s) r = ((True, None), w1)"
      "MkdirAll env w1 (Join env [Join env [r, ''.checkmarx''], ''containers'']) 493
         = (Some e, world s')"
      "cx = ''''" "err = Some e"
      "trace s' = trace s @ [Call_IsValidFolderPath r True None,
         Call_MkdirAll (Join env [Join env [r, ''.checkmarx''], ''containers'']) 493 (Some e)]"
  | (created) w1 where
      "GOOS env \<noteq> ''windows''"
      "IsValidFolderPath env (world s) r = ((True, None), w1)"
      "MkdirAll env w1 (Join env [Join env [r, ''.checkmarx''], ''containers'']) 493
         = (None, world s')"
      "cx = Join env [Join env [r, ''.checkmarx''], ''containers'']" "err = None"
      "trace s' = trace s @ [Call_IsValidFolderPath r True None,
         Call_MkdirAll (Join env [Join env [r, ''.checkmarx''], ''containers'']) 493 None]"
  | (hidden) w1 w2 where
      "GOOS env = ''windows''"
      "IsValidFolderPath env (world s) r = ((True, None), w1)"
      "MkdirAll env w1 (Join env [Join env [r, ''.checkmarx''], ''containers'']) 493
         = (None, w2)"
      "Command env w2 ''attrib'' [''+H'', Join env [r, ''.checkmarx'']] = (None, world s')"
      "cx = Join env [Join env [r, ''.checkmarx''], ''containers'']" "err = None"
      "trace s' = trace s @ [Call_IsValidFolderPath r True None,
         Call_MkdirAll (Join env [Join env [r, ''.checkmarx''], ''containers'']) 493 None,
         Call_Command ''attrib'' [''+H'', Join env [r, ''.checkmarx'']] None]"
  | (not_hidden) w1 w2 e where
      "GOOS env = ''windows''"
      "IsValidFolderPath env (world s) r = ((True, None), w1)"
      "MkdirAll env w1 (Join env [Join env [r, ''.checkmarx''], ''containers'']) 493
         = (None, w2)"
      "Command env w2 ''attrib'' [''+H'', Join env [r, ''.checkmarx'']] = (Some e, world s')"
      "cx = Join env [Join env [r, ''.checkmarx''], ''containers'']" "err = None"
      "trace s' = trace s @ [Call_IsValidFolderPath r True None,
         Call_MkdirAll (Join env [Join env [r, ''.checkmarx''], ''containers'']) 493 None,
         Call_Command ''attrib'' [''+H'', Join env [r, ''.checkmarx'']] (Some e),
         Log WarnLevel (Some e) ''Could not hide .checkmarx folder on Windows'']"
proof -
  let ?cx = "Join env [Join env [r, ''.checkmarx''], ''containers'']"
  obtain ok verr s1 where iv: "call_IsValidFolderPath env r s = ((ok, verr), s1)"
    by (cases "call_IsValidFolderPath env r s") auto
  note ivr = call_IsValidFolderPath_run [OF iv]
  show thesis
  proof (cases "verr \<noteq> None \<or> \<not> ok")
    case True
    with assms iv have "cx = ''''" "err = verr" "s' = s1"
      by (auto simp: validate_def)
    with ivr True show thesis
      by (intro rejected [of ok]) auto
  next
    case False
    then have ok: "ok" "verr = None" by auto
    obtain merr s2 where mk: "call_MkdirAll env ?cx 493 s1 = (merr, s2)"
      by (cases "call_MkdirAll env ?cx 493 s1") auto
    note mkr = call_MkdirAll_run [OF mk]
    show thesis
    proof (cases merr)
      case (Some e)
      with assms iv ok mk have "cx = ''''" "err = Some e" "s' = s2"
        by (auto simp: validate_def Let_def)
      with ivr ok mkr Some show thesis
        by (intro mkdir_failed [of "world s1" e]) auto
    next
      case None
      note merr = None
      show thesis
      proof (cases "GOOS env = ''windows''")
        case False
        with assms iv ok mk merr have "cx = ?cx" "err = None" "s' = s2"
          by (auto simp: validate_def Let_def)
        with ivr ok mkr merr False show thesis
          by (intro created [of "world s1"]) auto
      next
        case True
        obtain herr s3 where
          h: "call_Command env ''attrib'' [''+H'', Join env [r, ''.checkmarx'']] s2 = (herr, s3)"
          by (cases "call_Command env ''attrib'' [''+H'', Join env [r, ''.checkmarx'']] s2") auto
        note hr = call_Command_run [OF h]
        show thesis
        proof (cases herr)
          case None
          with assms iv ok mk merr True h have "cx = ?cx" "err = None" "s' = s3"
            by (auto simp: validate_def hideDirectoryOnWindows_def Let_def)
          with ivr ok mkr merr True hr None show thesis
            by (intro hidden [of "world s1" "world s2"]) auto
        next
          case (Some e)
          with assms iv ok mk merr True h have "cx = ?cx" "err = None"
            "s' = emit (Log WarnLevel (Some e) ''Could not hide .checkmarx folder on Windows'') s3"
            by (auto simp: validate_def hideDirectoryOnWindows_def Let_def)
          with ivr ok mkr merr True hr Some show thesis
            by (intro not_hidden [of "world s1" "world s2" e]) auto
        qed
      qed
    qed
  qed
qed

lemma validate_silent:
  assumes "validate env r s = ((cx, err), s')"
  obtains vev where "trace s' = trace s @ vev" "\<forall>ev \<in> set vev. silent ev"
  using assms by (cases rule: validate_cases) auto

lemma cleanup_cases
  [consumes 1, case_names nothing results_only results_failed output_only both
    output_ok_results_failed output_failed output_failed_results_ok both_failed]:
  assumes "cleanup env orig out cx s = (err, s')"
  obtains
    (nothing)
      "\<not> (out \<noteq> '''' \<and> out \<noteq> orig)" "cx = ''''" "err = None" "s' = s"
  | (results_only)
      "\<not> (out \<noteq> '''' \<and> out \<noteq> orig)" "cx \<noteq> ''''" "err = None"
      "DeleteDirectory env (world s) cx = (None, world s')"
      "trace s' = trace s @ [Call_DeleteDirectory cx None]"
  | (results_failed) e where
      "\<not> (out \<noteq> '''' \<and> out \<noteq> orig)" "cx \<noteq> ''''" "err = None"
      "DeleteDirectory env (world s) cx = (Some e, world s')"
      "trace s' = trace s @ [Call_DeleteDirectory cx (Some e),
         Log WarnLevel (Some e) ''Could not delete containers directory inside .checkmarx folder'']"
  | (output_only)
      "out \<noteq> ''''" "out \<noteq> orig" "cx = ''''" "err = None"
      "DeleteDirectory env (world s) out = (None, world s')"
      "trace s' = trace s @ [Call_DeleteDirectory out None]"
  | (both) w1 where
      "out \<noteq> ''''" "out \<noteq> orig" "cx \<noteq> ''''" "err = None"
      "DeleteDirectory env (world s) out = (None, w1)"
      "DeleteDirectory env w1 cx = (None, world s')"
      "trace s' = trace s @ [Call_DeleteDirectory out None, Call_DeleteDirectory cx None]"
  | (output_ok_results_failed) w1 e where
      "out \<noteq> ''''" "out \<noteq> orig" "cx \<noteq> ''''" "err = None"
      "DeleteDirectory env (world s) out = (None, w1)"
      "DeleteDirectory env w1 cx = (Some e, world s')"
      "trace s' = trace s @ [Call_DeleteDirectory out None, Call_DeleteDirectory cx (Some e),
         Log WarnLevel (Some e) ''Could not delete containers directory inside .checkmarx folder'']"
  | (output_failed) e where
      "out \<noteq> ''''" "out \<noteq> orig" "cx = ''''" "err = Some e"
      "DeleteDirectory env (world s) out = (Some e, world s')"
      "trace s' = trace s @ [Call_DeleteDirectory out (Some e),
         Log WarnLevel (Some e) ''Could not delete output directory'']"
  | (output_failed_results_ok) w1 e where
      "out \<noteq> ''''" "out \<noteq> orig" "cx \<noteq> ''''" "err = Some e"
      "DeleteDirectory env (world s) out = (Some e, w1)"
      "DeleteDirectory env w1 cx = (None, world s')"
      "trace s' = trace s @ [Call_DeleteDirectory out (Some e),
         Log WarnLevel (Some e) ''Could not delete output directory'',
         Call_DeleteDirectory cx None]"
  | (both_failed) w1 e e' where
      "out \<noteq> ''''" "out \<noteq> orig" "cx \<noteq> ''''" "err = Some e"
      "DeleteDirectory env (world s) out = (Some e, w1)"
      "DeleteDirectory env w1 cx = (Some e', world s')"
      "trace s' = trace s @ [Call_DeleteDirectory out (Some e),
         Log WarnLevel (Some e) ''Could not delete output directory'',
         Call_DeleteDirectory cx (Some e'),
         Log WarnLevel (Some e') ''Could not delete containers directory inside .checkmarx folder'']"
  using assms
  unfolding cleanup_def call_DeleteDirectory_def
  by (auto simp: emit_def split: prod.splits if_splits)

lemma Resolve_raw_cases
  [consumes 1, case_names validation extraction merging analysis saving cleaning success]:
  assumes "Resolve env scanPath r images dbg s = (res, s')"
  obtains
    (validation) cx e s1 where
      "validate env r (Resolve_start scanPath r images dbg s) = ((cx, Some e), s1)"
      "res = Some e"
      "s' = emit (Log ErrorLevel (Some e)
               ''Resolution Path is not valid or could not create .checkmarx folder.'') s1"
  | (extraction) cx s1 f st out e s3 where
      "validate env r (Resolve_start scanPath r images dbg s) = ((cx, None), s1)"
      "call_ExtractFiles env scanPath (emit (Log DebugLevel None ''Call ExtractFiles...'') s1)
         = ((f, st, out, Some e), s3)"
      "res = Some e"
      "s' = emit (Log ErrorLevel (Some e) ''Could not extract files.'') s3"
  | (merging) cx s1 f st out s3 im e s4 where
      "validate env r (Resolve_start scanPath r images dbg s) = ((cx, None), s1)"
      "call_ExtractFiles env scanPath (emit (Log DebugLevel None ''Call ExtractFiles...'') s1)
         = ((f, st, out, None), s3)"
      "call_ExtractAndMergeImagesFromFiles env f (ToImageModels env images) st s3
         = ((im, Some e), s4)"
      "res = Some e"
      "s' = emit (Log ErrorLevel (Some e) ''Could not extract images from files.'') s4"
  | (analysis) cx s1 f st out s3 im s4 rr e s5 where
      "validate env r (Resolve_start scanPath r images dbg s) = ((cx, None), s1)"
      "call_ExtractFiles env scanPath (emit (Log DebugLevel None ''Call ExtractFiles...'') s1)
         = ((f, st, out, None), s3)"
      "call_ExtractAndMergeImagesFromFiles env f (ToImageModels env images) st s3
         = ((im, None), s4)"
      "call_AnalyzeImagesWithPlatform env im ''linux/amd64'' s4 = ((rr, Some e), s5)"
      "res = Some e"
      "s' = emit (Log ErrorLevel (Some e) ''Could not analyze images.'') s5"
  | (saving) cx s1 f st out s3 im s4 rr s5 e s6 where
      "validate env r (Resolve_start scanPath r images dbg s) = ((cx, None), s1)"
      "call_ExtractFiles env scanPath (emit (Log DebugLevel None ''Call ExtractFiles...'') s1)
         = ((f, st, out, None), s3)"
      "call_ExtractAndMergeImagesFromFiles env f (ToImageModels env images) st s3
         = ((im, None), s4)"
      "call_AnalyzeImagesWithPlatform env im ''linux/amd64'' s4 = ((rr, None), s5)"
      "call_SaveObjectToFile env cx rr s5 = (Some e, s6)"
      "res = Some e"
      "s' = emit (Log ErrorLevel (Some e) ''Could not save resolution result.'') s6"
  | (cleaning) cx s1 f st out s3 im s4 rr s5 s6 e s7 where
      "validate env r (Resolve_start scanPath r images dbg s) = ((cx, None), s1)"
      "call_ExtractFiles env scanPath (emit (Log DebugLevel None ''Call ExtractFiles...'') s1)
         = ((f, st, out, None), s3)"
      "call_ExtractAndMergeImagesFromFiles env f (ToImageModels env images) st s3
         = ((im, None), s4)"
      "call_AnalyzeImagesWithPlatform env im ''linux/amd64'' s4 = ((rr, None), s5)"
      "call_SaveObjectToFile env cx rr s5 = (None, s6)"
      "cleanup env r out cx s6 = (Some e, s7)"
      "res = Some e"
      "s' = emit (Log ErrorLevel (Some e) ''Could not cleanup resources.'') s7"
  | (success) cx s1 f st out s3 im s4 rr s5 s6 where
      "validate env r (Resolve_start scanPath r images dbg s) = ((cx, None), s1)"
      "call_ExtractFiles env scanPath (emit (Log DebugLevel None ''Call ExtractFiles...'') s1)
         = ((f, st, out, None), s3)"
      "call_ExtractAndMergeImagesFromFiles env f (ToImageModels env images) st s3
         = ((im, None), s4)"
      "call_AnalyzeImagesWithPlatform env im ''linux/amd64'' s4 = ((rr, None), s5)"
      "call_SaveObjectToFile env cx rr s5 = (None, s6)"
      "cleanup env r out cx s6 = (None, s')"
      "res = None"
  using assms unfolding Resolve_def Let_def Resolve_start_def [symmetric]
  by (auto split: prod.splits if_splits)

lemma not_silent_simps [simp]:
  "\<not> silent (Call_ExtractFiles p f st out e)"
  "\<not> silent (Call_ExtractAndMergeImagesFromFiles f im st e)"
  "\<not> silent (Call_AnalyzeImagesWithPlatform im pl e)"
  "\<not> silent (Call_AnalyzeImages im e)"
  "\<not> silent (Call_SaveObjectToFile p obj e)"
  "\<not> silent (Call_DeleteDirectory p e)"
  by simp_all

lemma silent_not_mem:
  assumes "\<forall>ev \<in> set evs. silent ev"
  shows "Call_ExtractFiles p f st out e \<notin> set evs"
    and "Call_ExtractAndMergeImagesFromFiles f im st e \<notin> set evs"
    and "Call_AnalyzeImagesWithPlatform im pl e \<notin> set evs"
    and "Call_AnalyzeImages im e \<notin> set evs"
    and "Call_SaveObjectToFile p obj e \<notin> set evs"
    and "Call_DeleteDirectory p e \<notin> set evs"
  using assms by fastforce+

text \<open>What \<open>cleanup\<close> adds to the trace.\<close>

lemma cleanup_events:
  assumes "cleanup env orig out cx s = (err, s')"
  obtains cev where
    "trace s' = trace s @ cev"
    "filter is_collaborator_call cev = []"
    "collaborator_results cev = []"
    "save_folders cev = []"
    "deletions cev =
       (if out \<noteq> '''' \<and> out \<noteq> orig then [out] else []) @ (if cx \<noteq> '''' then [cx] else [])"
    "warned ''Could not delete output directory'' cev \<longleftrightarrow> err \<noteq> None"
    "\<forall>ev \<in> set cev. is_Delete ev \<or> (\<exists>e msg. ev = Log WarnLevel (Some e) msg)"
  using assms by (cases rule: cleanup_cases) (auto simp: is_collaborator_call_def)

lemma validate_in_Resolve:
  assumes "validate env r (Resolve_start scanPath r images dbg s) = ((cx, err), s1)"
  obtains pre where "trace s1 = trace s @ pre" "\<forall>ev \<in> set pre. silent ev"
proof -
  from assms obtain vev where
    vev: "trace s1 = trace (Resolve_start scanPath r images dbg s) @ vev"
      "\<forall>ev \<in> set vev. silent ev"
    by (rule validate_silent)
  show thesis
  proof (rule that)
    show "trace s1 = trace s @
      ([SetGlobalLevel (if dbg then DebugLevel else InfoLevel),
        Logf DebugLevel
         ''Resolve func parameters: scanPath=%s, resolutionFolderPath=%s, images=%s, isDebug=%t''
         [ArgString scanPath, ArgString r, ArgStrings images, ArgBool dbg]] @ vev)"
      using vev(1) by simp
    show "\<forall>ev \<in> set
      ([SetGlobalLevel (if dbg then DebugLevel else InfoLevel),
        Logf DebugLevel
         ''Resolve func parameters: scanPath=%s, resolutionFolderPath=%s, images=%s, isDebug=%t''
         [ArgString scanPath, ArgString r, ArgStrings images, ArgBool dbg]] @ vev). silent ev"
      using vev(2) by simp
  qed
qed

text \<open>
  The seven runs of \<open>Resolve\<close>.  In each, \<open>pre\<close> is what the logger's set-up and
  \<open>validate\<close> added to the trace, and \<open>s1\<close> is the state \<open>validate\<close> returned.
\<close>

lemma Resolve_cases
  [consumes 1, case_names validation extraction merging analysis saving cleaning success]:
  assumes "Resolve env scanPath r images dbg s = (res, s')"
  obtains
    (validation) cx e s1 pre where
      "validate env r (Resolve_start scanPath r images dbg s) = ((cx, Some e), s1)"
      "trace s1 = trace s @ pre" "\<forall>ev \<in> set pre. silent ev"
      "res = Some e"
      "world s' = world s1"
      "trace s' = trace s @ pre @ [Log ErrorLevel (Some e)
         ''Resolution Path is not valid or could not create .checkmarx folder.'']"
  | (extraction) cx s1 pre f st out e where
      "validate env r (Resolve_start scanPath r images dbg s) = ((cx, None), s1)"
      "trace s1 = trace s @ pre" "\<forall>ev \<in> set pre. silent ev"
      "ExtractFiles env (world s1) scanPath = ((f, st, out, Some e), world s')"
      "res = Some e"
      "trace s' = trace s @ pre @ [Log DebugLevel None ''Call ExtractFiles...'',
         Call_ExtractFiles scanPath f st out (Some e),
         Log ErrorLevel (Some e) ''Could not extract files.'']"
  | (merging) cx s1 pre f st out w3 im e where
      "validate env r (Resolve_start scanPath r images dbg s) = ((cx, None), s1)"
      "trace s1 = trace s @ pre" "\<forall>ev \<in> set pre. silent ev"
      "ExtractFiles env (world s1) scanPath = ((f, st, out, None), w3)"
      "ExtractAndMergeImagesFromFiles env w3 f (ToImageModels env images) st
         = ((im, Some e), world s')"
      "res = Some e"
      "trace s' = trace s @ pre @ [Log DebugLevel None ''Call ExtractFiles...'',
         Call_ExtractFiles scanPath f st out None,
         Call_ExtractAndMergeImagesFromFiles f (ToImageModels env images) st (Some e),
         Log ErrorLevel (Some e) ''Could not extract images from files.'']"
  | (analysis) cx s1 pre f st out w3 im w4 rr e where
      "validate env r (Resolve_start scanPath r images dbg s) = ((cx, None), s1)"
      "trace s1 = trace s @ pre" "\<forall>ev \<in> set pre. silent ev"
      "ExtractFiles env (world s1) scanPath = ((f, st, out, None), w3)"
      "ExtractAndMergeImagesFromFiles env w3 f (ToImageModels env images) st
         = ((im, None), w4)"
      "AnalyzeImagesWithPlatform env w4 im ''linux/amd64'' = ((rr, Some e), world s')"
      "res = Some e"
      "trace s' = trace s @ pre @ [Log DebugLevel None ''Call ExtractFiles...'',
         Call_ExtractFiles scanPath f st out None,
         Call_ExtractAndMergeImagesFromFiles f (ToImageModels env images) st None,
         Call_AnalyzeImagesWithPlatform im ''linux/amd64'' (Some e),
         Log ErrorLevel (Some e) ''Could not analyze images.'']"
  | (saving) cx s1 pre f st out w3 im w4 rr w5 e where
      "validate env r (Resolve_start scanPath r images dbg s) = ((cx, None), s1)"
      "trace s1 = trace s @ pre" "\<forall>ev \<in> set pre. silent ev"
      "ExtractFiles env (world s1) scanPath = ((f, st, out, None), w3)"
      "ExtractAndMergeImagesFromFiles env w3 f (ToImageModels env images) st
         = ((im, None), w4)"
      "AnalyzeImagesWithPlatform env w4 im ''linux/amd64'' = ((rr, None), w5)"
      "SaveObjectToFile env w5 cx rr = (Some e, world s')"
      "res = Some e"
      "trace s' = trace s @ pre @ [Log DebugLevel None ''Call ExtractFiles...'',
         Call_ExtractFiles scanPath f st out None,
         Call_ExtractAndMergeImagesFromFiles f (ToImageModels env images) st None,
         Call_AnalyzeImagesWithPlatform im ''linux/amd64'' None,
         Call_SaveObjectToFile cx rr (Some e),
         Log ErrorLevel (Some e) ''Could not save resolution result.'']"
  | (cleaning) cx s1 pre f st out w3 im w4 rr w5 s6 e s7 where
      "validate env r (Resolve_start scanPath r images dbg s) = ((cx, None), s1)"
      "trace s1 = trace s @ pre" "\<forall>ev \<in> set pre. silent ev"
      "ExtractFiles env (world s1) scanPath = ((f, st, out, None), w3)"
      "ExtractAndMergeImagesFromFiles env w3 f (ToImageModels env images) st
         = ((im, None), w4)"
      "AnalyzeImagesWithPlatform env w4 im ''linux/amd64'' = ((rr, None), w5)"
      "SaveObjectToFile env w5 cx rr = (None, world s6)"
      "trace s6 = trace s @ pre @ [Log DebugLevel None ''Call ExtractFiles...'',
         Call_ExtractFiles scanPath f st out None,
         Call_ExtractAndMergeImagesFromFiles f (ToImageModels env images) st None,
         Call_AnalyzeImagesWithPlatform im ''linux/amd64'' None,
         Call_SaveObjectToFile cx rr None]"
      "cleanup env r out cx s6 = (Some e, s7)"
      "res = Some e"
      "world s' = world s7"
      "trace s' = trace s7 @ [Log ErrorLevel (Some e) ''Could not cleanup resources.'']"
  | (success) cx s1 pre f st out w3 im w4 rr w5 s6 where
      "validate env r (Resolve_start scanPath r images dbg s) = ((cx, None), s1)"
      "trace s1 = trace s @ pre" "\<forall>ev \<in> set pre. silent ev"
      "ExtractFiles env (world s1) scanPath = ((f, st, out, None), w3)"
      "ExtractAndMergeImagesFromFiles env w3 f (ToImageModels env images) st
         = ((im, None), w4)"
      "AnalyzeImagesWithPlatform env w4 im ''linux/amd64'' = ((rr, None), w5)"
      "SaveObjectToFile env w5 cx rr = (None, world s6)"
      "trace s6 = trace s @ pre @ [Log DebugLevel None ''Call ExtractFiles...'',
         Call_ExtractFiles scanPath f st out None,
         Call_ExtractAndMergeImagesFromFiles f (ToImageModels env images) st None,
         Call_AnalyzeImagesWithPlatform im ''linux/amd64'' None,
         Call_SaveObjectToFile cx rr None]"
      "cleanup env r out cx s6 = (None, s')"
      "res = None"
  using assms
proof (cases rule: Resolve_raw_cases)
  case (validation cx e s1)
  from validation(1) obtain pre where
    pre: "trace s1 = trace s @ pre" "\<forall>ev \<in> set pre. silent ev"
    by (rule validate_in_Resolve)
  from validation pre show ?thesis
    by (intro that(1) [of cx e s1 pre]) simp_all
next
  case (extraction cx s1 f st out e s3)
  from extraction(1) obtain pre where
    pre: "trace s1 = trace s @ pre" "\<forall>ev \<in> set pre. silent ev"
    by (rule validate_in_Resolve)
  note x = call_ExtractFiles_run [OF extraction(2)]
  from extraction pre x show ?thesis
    by (intro that(2) [of cx s1 pre f st out e]) simp_all
next
  case (merging cx s1 f st out s3 im e s4)
  from merging(1) obtain pre where
    pre: "trace s1 = trace s @ pre" "\<forall>ev \<in> set pre. silent ev"
    by (rule validate_in_Resolve)
  note x = call_ExtractFiles_run [OF merging(2)]
  note m = call_ExtractAndMergeImagesFromFiles_run [OF merging(3)]
  from merging pre x m show ?thesis
    by (intro that(3) [of cx s1 pre f st out "world s3" im e]) simp_all
next
  case (analysis cx s1 f st out s3 im s4 rr e s5)
  from analysis(1) obtain pre where
    pre: "trace s1 = trace s @ pre" "\<forall>ev \<in> set pre. silent ev"
    by (rule validate_in_Resolve)
  note x = call_ExtractFiles_run [OF analysis(2)]
  note m = call_ExtractAndMergeImagesFromFiles_run [OF analysis(3)]
  note a = call_AnalyzeImagesWithPlatform_run [OF analysis(4)]
  from analysis pre x m a show ?thesis
    by (intro that(4) [of cx s1 pre f st out "world s3" im "world s4" rr e]) simp_all
next
  case (saving cx s1 f st out s3 im s4 rr s5 e s6)
  from saving(1) obtain pre where
    pre: "trace s1 = trace s @ pre" "\<forall>ev \<in> set pre. silent ev"
    by (rule validate_in_Resolve)
  note x = call_ExtractFiles_run [OF saving(2)]
  note m = call_ExtractAndMergeImagesFromFiles_run [OF saving(3)]
  note a = call_AnalyzeImagesWithPlatform_run [OF saving(4)]
  note sv = call_SaveObjectToFile_run [OF saving(5)]
  from saving pre x m a sv show ?thesis
    by (intro that(5) [of cx s1 pre f st out "world s3" im "world s4" rr "world s5" e])
       simp_all
next
  case (cleaning cx s1 f st out s3 im s4 rr s5 s6 e s7)
  from cleaning(1) obtain pre where
    pre: "trace s1 = trace s @ pre" "\<forall>ev \<in> set pre. silent ev"
    by (rule validate_in_Resolve)
  note x = call_ExtractFiles_run [OF cleaning(2)]
  note m = call_ExtractAndMergeImagesFromFiles_run [OF cleaning(3)]
  note a = call_AnalyzeImagesWithPlatform_run [OF cleaning(4)]
  note sv = call_SaveObjectToFile_run [OF cleaning(5)]
  from cleaning pre x m a sv show ?thesis
    by (intro that(6) [of cx s1 pre f st out "world s3" im "world s4" rr "world s5" s6 e s7])
       simp_all
next
  case (success cx s1 f st out s3 im s4 rr s5 s6)
  from success(1) obtain pre where
    pre: "trace s1 = trace s @ pre" "\<forall>ev \<in> set pre. silent ev"
    by (rule validate_in_Resolve)
  note x = call_ExtractFiles_run [OF success(2)]
  note m = call_ExtractAndMergeImagesFromFiles_run [OF success(3)]
  note a = call_AnalyzeImagesWithPlatform_run [OF success(4)]
  note sv = call_SaveObjectToFile_run [OF success(5)]
  from success pre x m a sv show ?thesis
    by (intro that(7) [of cx s1 pre f st out "world s3" im "world s4" rr "world s5" s6])
       simp_all
qed

section \<open>Lemmas: the runs of the earlier resolvers\<close>

lemma validate_v1_run:
  assumes "validate_v1 env r s = (err, s')"
  obtains ok where
    "IsValidFolderPath env (world s) r = ((ok, err), world s')"
    "trace s' = trace s @ [Call_IsValidFolderPath r ok err]"
proof -
  obtain ok verr s1 where iv: "call_IsValidFolderPath env r s = ((ok, verr), s1)"
    by (cases "call_IsValidFolderPath env r s") auto
  note ivr = call_IsValidFolderPath_run [OF iv]
  from assms iv have "err = verr" "s' = s1"
    by (auto simp: validate_v1_def split: if_splits)
  with ivr show thesis
    by (intro that [of ok]) auto
qed

lemma cleanup_v1_cases [consumes 1, case_names nothing deleted]:
  assumes "cleanup_v1 env orig out s = (err, s')"
  obtains
    (nothing) "\<not> (out \<noteq> '''' \<and> out \<noteq> orig)" "err = None" "s' = s"
  | (deleted) "out \<noteq> ''''" "out \<noteq> orig"
      "DeleteDirectory env (world s) out = (err, world s')"
      "trace s' = trace s @ [Call_DeleteDirectory out err]"
proof (cases "out \<noteq> '''' \<and> out \<noteq> orig")
  case False
  show thesis
    by (rule nothing) (use assms False in \<open>auto simp: cleanup_v1_def\<close>)
next
  case True
  obtain derr s1 where d: "call_DeleteDirectory env out s = (derr, s1)"
    by (cases "call_DeleteDirectory env out s") auto
  note dr = call_DeleteDirectory_run [OF d]
  from assms True d have "err = derr" "s' = s1"
    by (auto simp: cleanup_v1_def split: if_splits)
  with True dr show thesis
    by (intro deleted) auto
qed

lemma cleanup_v2_cases [consumes 1, case_names nothing deleted]:
  assumes "cleanup_v2 env orig out cx s = (err, s')"
  obtains
    (nothing) "\<not> (out \<noteq> '''' \<and> out \<noteq> orig \<and> cx \<noteq> '''')" "err = None" "s' = s"
  | (deleted) w1 e1 e2 where "out \<noteq> ''''" "out \<noteq> orig" "cx \<noteq> ''''"
      "DeleteDirectory env (world s) out = (e1, w1)"
      "DeleteDirectory env w1 cx = (e2, world s')"
      "err = (if e1 \<noteq> None then e1 else e2)"
      "trace s' = trace s @ [Call_DeleteDirectory out e1, Call_DeleteDirectory cx e2]"
proof (cases "out \<noteq> '''' \<and> out \<noteq> orig \<and> cx \<noteq> ''''")
  case False
  show thesis
    by (rule nothing) (use assms False in \<open>auto simp: cleanup_v2_def\<close>)
next
  case True
  obtain e1 s1 where d1: "call_DeleteDirectory env out s = (e1, s1)"
    by (cases "call_DeleteDirectory env out s") auto
  obtain e2 s2 where d2: "call_DeleteDirectory env cx s1 = (e2, s2)"
    by (cases "call_DeleteDirectory env cx s1") auto
  note r1 = call_DeleteDirectory_run [OF d1]
  note r2 = call_DeleteDirectory_run [OF d2]
  from assms True d1 d2 have "err = (if e1 \<noteq> None then e1 else e2)" "s' = s2"
    by (auto simp: cleanup_v2_def split: if_splits)
  with True r1 r2 show thesis
    by (intro deleted [of e1 "world s1" e2]) auto
qed

lemma Resolve_v1_raw_cases
  [consumes 1, case_names validation extraction merging analysis saving cleaning success]:
  assumes "Resolve_v1 env scanPath r images dbg s = (res, s')"
  obtains
    (validation) e s1 where
      "validate_v1 env r (Resolve_v1_start scanPath r images dbg s) = (Some e, s1)"
      "res = Some e"
      "s' = emit (Log ErrorLevel (Some e) ''Resolution Path is not valid.'') s1"
  | (extraction) s1 f st out e s3 where
      "validate_v1 env r (Resolve_v1_start scanPath r images dbg s) = (None, s1)"
      "call_ExtractFiles env scanPath (emit (Log DebugLevel None ''Call ExtractFiles...'') s1)
         = ((f, st, out, Some e), s3)"
      "res = Some e"
      "s' = emit (Log ErrorLevel (Some e) ''Could not extract files.'') s3"
  | (merging) s1 f st out s3 im e s4 where
      "validate_v1 env r (Resolve_v1_start scanPath r images dbg s) = (None, s1)"
      "call_ExtractFiles env scanPath (emit (Log DebugLevel None ''Call ExtractFiles...'') s1)
         = ((f, st, out, None), s3)"
      "call_ExtractAndMergeImagesFromFiles env f (ToImageModels env images) st s3
         = ((im, Some e), s4)"
      "res = Some e"
      "s' = emit (Log ErrorLevel (Some e) ''Could not extract images from files.'') s4"
  | (analysis) s1 f st out s3 im s4 rr e s5 where
      "validate_v1 env r (Resolve_v1_start scanPath r images dbg s) = (None, s1)"
      "call_ExtractFiles env scanPath (emit (Log DebugLevel None ''Call ExtractFiles...'') s1)
         = ((f, st, out, None), s3)"
      "call_ExtractAndMergeImagesFromFiles env f (ToImageModels env images) st s3
         = ((im, None), s4)"
      "call_AnalyzeImages env im s4 = ((rr, Some e), s5)"
      "res = Some e"
      "s' = emit (Log ErrorLevel (Some e) ''Could not analyze images.'') s5"
  | (saving) s1 f st out s3 im s4 rr s5 e s6 where
      "validate_v1 env r (Resolve_v1_start scanPath r images dbg s) = (None, s1)"
      "call_ExtractFiles env scanPath (emit (Log DebugLevel None ''Call ExtractFiles...'') s1)
         = ((f, st, out, None), s3)"
      "call_ExtractAndMergeImagesFromFiles env f (ToImageModels env images) st s3
         = ((im, None), s4)"
      "call_AnalyzeImages env im s4 = ((rr, None), s5)"
      "call_SaveObjectToFile env r rr s5 = (Some e, s6)"
      "res = Some e"
      "s' = emit (Log ErrorLevel (Some e) ''Could not save resolution result.'') s6"
  | (cleaning) s1 f st out s3 im s4 rr s5 s6 e s7 where
      "validate_v1 env r (Resolve_v1_start scanPath r images dbg s) = (None, s1)"
      "call_ExtractFiles env scanPath (emit (Log DebugLevel None ''Call ExtractFiles...'') s1)
         = ((f, st, out, None), s3)"
      "call_ExtractAndMergeImagesFromFiles env f (ToImageModels env images) st s3
         = ((im, None), s4)"
      "call_AnalyzeImages env im s4 = ((rr, None), s5)"
      "call_SaveObjectToFile env r rr s5 = (None, s6)"
      "cleanup_v1 env r out s6 = (Some e, s7)"
      "res = Some e"
      "s' = emit (Log ErrorLevel (Some e) ''Could not cleanup resources.'') s7"
  | (success) s1 f st out s3 im s4 rr s5 s6 where
      "validate_v1 env r (Resolve_v1_start scanPath r images dbg s) = (None, s1)"
      "call_ExtractFiles env scanPath (emit (Log DebugLevel None ''Call ExtractFiles...'') s1)
         = ((f, st, out, None), s3)"
      "call_ExtractAndMergeImagesFromFiles env f (ToImageModels env images) st s3
         = ((im, None), s4)"
      "call_AnalyzeImages env im s4 = ((rr, None), s5)"
      "call_SaveObjectToFile env r rr s5 = (None, s6)"
      "cleanup_v1 env r out s6 = (None, s')"
      "res = None"
  using assms unfolding Resolve_v1_def Let_def Resolve_v1_start_def [symmetric]
  by (auto split: prod.splits if_splits)

text \<open>
  The seven runs of the resolver of \<open>part_000\<close>; \<open>ok\<close> is what the folder check
  reported.
\<close>

lemma Resolve_v1_cases
  [consumes 1, case_names validation extraction merging analysis saving cleaning success]:
  assumes "Resolve_v1 env scanPath r images dbg s = (res, s')"
  obtains
    (validation) ok e pre where
      "pre = [Logf DebugLevel
         ''Resolve func parameters: scanPath=%s, resolutionFolderPath=%s, images=%s, isDebug=%t''
         [ArgString scanPath, ArgString r, ArgStrings images, ArgBool dbg],
         Call_IsValidFolderPath r ok (Some e)]"
      "IsValidFolderPath env (world s) r = ((ok, Some e), world s')"
      "res = Some e"
      "trace s' = trace s @ pre @ [Log ErrorLevel (Some e) ''Resolution Path is not valid.'']"
  | (extraction) ok pre w1 f st out e where
      "pre = [Logf DebugLevel
         ''Resolve func parameters: scanPath=%s, resolutionFolderPath=%s, images=%s, isDebug=%t''
         [ArgString scanPath, ArgString r, ArgStrings images, ArgBool dbg],
         Call_IsValidFolderPath r ok None]"
      "IsValidFolderPath env (world s) r = ((ok, None), w1)"
      "ExtractFiles env w1 scanPath = ((f, st, out, Some e), world s')"
      "res = Some e"
      "trace s' = trace s @ pre @ [Log DebugLevel None ''Call ExtractFiles...'',
         Call_ExtractFiles scanPath f st out (Some e),
         Log ErrorLevel (Some e) ''Could not extract files.'']"
  | (merging) ok pre w1 f st out w3 im e where
      "pre = [Logf DebugLevel
         ''Resolve func parameters: scanPath=%s, resolutionFolderPath=%s, images=%s, isDebug=%t''
         [ArgString scanPath, ArgString r, ArgStrings images, ArgBool dbg],
         Call_IsValidFolderPath r ok None]"
      "IsValidFolderPath env (world s) r = ((ok, None), w1)"
      "ExtractFiles env w1 scanPath = ((f, st, out, None), w3)"
      "ExtractAndMergeImagesFromFiles env w3 f (ToImageModels env images) st
         = ((im, Some e), world s')"
      "res = Some e"
      "trace s' = trace s @ pre @ [Log DebugLevel None ''Call ExtractFiles...'',
         Call_ExtractFiles scanPath f st out None,
         Call_ExtractAndMergeImagesFromFiles f (ToImageModels env images) st (Some e),
         Log ErrorLevel (Some e) ''Could not extract images from files.'']"
  | (analysis) ok pre w1 f st out w3 im w4 rr e where
      "pre = [Logf DebugLevel
         ''Resolve func parameters: scanPath=%s, resolutionFolderPath=%s, images=%s, isDebug=%t''
         [ArgString scanPath, ArgString r, ArgStrings images, ArgBool dbg],
         Call_IsValidFolderPath r ok None]"
      "IsValidFolderPath env (world s) r = ((ok, None), w1)"
      "ExtractFiles env w1 scanPath = ((f, st, out, None), w3)"
      "ExtractAndMergeImagesFromFiles env w3 f (ToImageModels env images) st
         = ((im, None), w4)"
      "AnalyzeImages env w4 im = ((rr, Some e), world s')"
      "res = Some e"
      "trace s' = trace s @ pre @ [Log DebugLevel None ''Call ExtractFiles...'',
         Call_ExtractFiles scanPath f st out None,
         Call_ExtractAndMergeImagesFromFiles f (ToImageModels env images) st None,
         Call_AnalyzeImages im (Some e),
         Log ErrorLevel (Some e) ''Could not analyze images.'']"
  | (saving) ok pre w1 f st out w3 im w4 rr w5 e where
      "pre = [Logf DebugLevel
         ''Resolve func parameters: scanPath=%s, resolutionFolderPath=%s, images=%s, isDebug=%t''
         [ArgString scanPath, ArgString r, ArgStrings images, ArgBool dbg],
         Call_IsValidFolderPath r ok None]"
      "IsValidFolderPath env (world s) r = ((ok, None), w1)"
      "ExtractFiles env w1 scanPath = ((f, st, out, None), w3)"
      "ExtractAndMergeImagesFromFiles env w3 f (ToImageModels env images) st
         = ((im, None), w4)"
      "AnalyzeImages env w4 im = ((rr, None), w5)"
      "SaveObjectToFile env w5 r rr = (Some e, world s')"
      "res = Some e"
      "trace s' = trace s @ pre @ [Log DebugLevel None ''Call ExtractFiles...'',
         Call_ExtractFiles scanPath f st out None,
         Call_ExtractAndMergeImagesFromFiles f (ToImageModels env images) st None,
         Call_AnalyzeImages im None,
         Call_SaveObjectToFile r rr (Some e),
         Log ErrorLevel (Some e) ''Could not save resolution result.'']"
  | (cleaning) ok pre w1 f st out w3 im w4 rr w5 s6 e s7 where
      "pre = [Logf DebugLevel
         ''Resolve func parameters: scanPath=%s, resolutionFolderPath=%s, images=%s, isDebug=%t''
         [ArgString scanPath, ArgString r, ArgStrings images, ArgBool dbg],
         Call_IsValidFolderPath r ok None]"
      "IsValidFolderPath env (world s) r = ((ok, None), w1)"
      "ExtractFiles env w1 scanPath = ((f, st, out, None), w3)"
      "ExtractAndMergeImagesFromFiles env w3 f (ToImageModels env images) st
         = ((im, None), w4)"
      "AnalyzeImages env w4 im = ((rr, None), w5)"
      "SaveObjectToFile env w5 r rr = (None, world s6)"
      "trace s6 = trace s @ pre @ [Log DebugLevel None ''Call ExtractFiles...'',
         Call_ExtractFiles scanPath f st out None,
         Call_ExtractAndMergeImagesFromFiles f (ToImageModels env images) st None,
         Call_AnalyzeImages im None,
         Call_SaveObjectToFile r rr None]"
      "cleanup_v1 env r out s6 = (Some e, s7)"
      "res = Some e"
      "world s' = world s7"
      "trace s' = trace s7 @ [Log ErrorLevel (Some e) ''Could not cleanup resources.'']"
  | (success) ok pre w1 f st out w3 im w4 rr w5 s6 where
      "pre = [Logf DebugLevel
         ''Resolve func parameters: scanPath=%s, resolutionFolderPath=%s, images=%s, isDebug=%t''
         [ArgString scanPath, ArgString r, ArgStrings images, ArgBool dbg],
         Call_IsValidFolderPath r ok None]"
      "IsValidFolderPath env (world s) r = ((ok, None), w1)"
      "ExtractFiles env w1 scanPath = ((f, st, out, None), w3)"
      "ExtractAndMergeImagesFromFiles env w3 f (ToImageModels env images) st
         = ((im, None), w4)"
      "AnalyzeImages env w4 im = ((rr, None), w5)"
      "SaveObjectToFile env w5 r rr = (None, world s6)"
      "trace s6 = trace s @ pre @ [Log DebugLevel None ''Call ExtractFiles...'',
         Call_ExtractFiles scanPath f st out None,
         Call_ExtractAndMergeImagesFromFiles f (ToImageModels env images) st None,
         Call_AnalyzeImages im None,
         Call_SaveObjectToFile r rr None]"
      "cleanup_v1 env r out s6 = (None, s')"
      "res = None"
  using assms
proof (cases rule: Resolve_v1_raw_cases)
  case (validation e s1)
  from validation(1) obtain ok where
    v: "IsValidFolderPath env (world (Resolve_v1_start scanPath r images dbg s)) r
          = ((ok, Some e), world s1)"
      "trace s1 = trace (Resolve_v1_start scanPath r images dbg s)
          @ [Call_IsValidFolderPath r ok (Some e)]"
    by (rule validate_v1_run)
  from validation v show ?thesis
    by (intro that(1) [of _ ok e]) simp_all
next
  case (extraction s1 f st out e s3)
  from extraction(1) obtain ok where
    v: "IsValidFolderPath env (world (Resolve_v1_start scanPath r images dbg s)) r
          = ((ok, None), world s1)"
      "trace s1 = trace (Resolve_v1_start scanPath r images dbg s)
          @ [Call_IsValidFolderPath r ok None]"
    by (rule validate_v1_run)
  note x = call_ExtractFiles_run [OF extraction(2)]
  from extraction v x show ?thesis
    by (intro that(2) [of _ ok "world s1" f st out e]) simp_all
next
  case (merging s1 f st out s3 im e s4)
  from merging(1) obtain ok where
    v: "IsValidFolderPath env (world (Resolve_v1_start scanPath r images dbg s)) r
          = ((ok, None), world s1)"
      "trace s1 = trace (Resolve_v1_start scanPath r images dbg s)
          @ [Call_IsValidFolderPath r ok None]"
    by (rule validate_v1_run)
  note x = call_ExtractFiles_run [OF merging(2)]
  note m = call_ExtractAndMergeImagesFromFiles_run [OF merging(3)]
  from merging v x m show ?thesis
    by (intro that(3) [of _ ok "world s1" f st out "world s3" im e]) simp_all
next
  case (analysis s1 f st out s3 im s4 rr e s5)
  from analysis(1) obtain ok where
    v: "IsValidFolderPath env (world (Resolve_v1_start scanPath r images dbg s)) r
          = ((ok, None), world s1)"
      "trace s1 = trace (Resolve_v1_start scanPath r images dbg s)
          @ [Call_IsValidFolderPath r ok None]"
    by (rule validate_v1_run)
  note x = call_ExtractFiles_run [OF analysis(2)]
  note m = call_ExtractAndMergeImagesFromFiles_run [OF analysis(3)]
  note a = call_AnalyzeImages_run [OF analysis(4)]
  from analysis v x m a show ?thesis
    by (intro that(4) [of _ ok "world s1" f st out "world s3" im "world s4" rr e]) simp_all
next
  case (saving s1 f st out s3 im s4 rr s5 e s6)
  from saving(1) obtain ok where
    v: "IsValidFolderPath env (world (Resolve_v1_start scanPath r images dbg s)) r
          = ((ok, None), world s1)"
      "trace s1 = trace (Resolve_v1_start scanPath r images dbg s)
          @ [Call_IsValidFolderPath r ok None]"
    by (rule validate_v1_run)
  note x = call_ExtractFiles_run [OF saving(2)]
  note m = call_ExtractAndMergeImagesFromFiles_run [OF saving(3)]
  note a = call_AnalyzeImages_run [OF saving(4)]
  note sv = call_SaveObjectToFile_run [OF saving(5)]
  from saving v x m a sv show ?thesis
    by (intro that(5) [of _ ok "world s1" f st out "world s3" im "world s4" rr "world s5" e])
       simp_all
next
  case (cleaning s1 f st out s3 im s4 rr s5 s6 e s7)
  from cleaning(1) obtain ok where
    v: "IsValidFolderPath env (world (Resolve_v1_start scanPath r images dbg s)) r
          = ((ok, None), world s1)"
      "trace s1 = trace (Resolve_v1_start scanPath r images dbg s)
          @ [Call_IsValidFolderPath r ok None]"
    by (rule validate_v1_run)
  note x = call_ExtractFiles_run [OF cleaning(2)]
  note m = call_ExtractAndMergeImagesFromFiles_run [OF cleaning(3)]
  note a = call_AnalyzeImages_run [OF cleaning(4)]
  note sv = call_SaveObjectToFile_run [OF cleaning(5)]
  from cleaning v x m a sv show ?thesis
    by (intro that(6)
          [of _ ok "world s1" f st out "world s3" im "world s4" rr "world s5" s6 e s7])
       simp_all
next
  case (success s1 f st out s3 im s4 rr s5 s6)
  from success(1) obtain ok where
    v: "IsValidFolderPath env (world (Resolve_v1_start scanPath r images dbg s)) r
          = ((ok, None), world s1)"
      "trace s1 = trace (Resolve_v1_start scanPath r images dbg s)
          @ [Call_IsValidFolderPath r ok None]"
    by (rule validate_v1_run)
  note x = call_ExtractFiles_run [OF success(2)]
  note m = call_ExtractAndMergeImagesFromFiles_run [OF success(3)]
  note a = call_AnalyzeImages_run [OF success(4)]
  note sv = call_SaveObjectToFile_run [OF success(5)]
  from success v x m a sv show ?thesis
    by (intro that(7) [of _ ok "world s1" f st out "world s3" im "world s4" rr "world s5" s6])
       simp_all
qed

section \<open>Lemmas: the results folder is not the resolution folder\<close>

lemma split_path_not_Nil: "split_path p \<noteq> []"
  by (induction p) (auto split: list.splits)

lemma split_path_append: "split_path (p @ CHR ''/'' # q) = split_path p @ split_path q"
  by (induction p) (auto split: list.splits simp: split_path_not_Nil)

lemma split_path_free: "CHR ''/'' \<notin> set x \<Longrightarrow> split_path x = [x]"
  by (induction x) auto

lemma split_path_elems: "el \<in> set (split_path p) \<Longrightarrow> CHR ''/'' \<notin> set el"
  by (induction p arbitrary: el) (auto split: list.splits if_splits)

lemma weight_simps [simp]:
  "weight [] = 0" "weight (el # els) = el_weight el + weight els"
  "weight (xs @ ys) = weight xs + weight ys"
  by (simp_all add: weight_def)

lemma weight_join_sep:
  "\<forall>el \<in> set out. CHR ''/'' \<notin> set el \<Longrightarrow> weight (split_path (join_sep out)) = weight out"
  by (induction out rule: join_sep.induct)
     (simp_all add: split_path_free split_path_append el_weight_def)

lemma weight_butlast: "out \<noteq> [] \<Longrightarrow> weight (butlast out) = weight out - el_weight (last out)"
  by (induction out) auto

lemma weight_clean_element:
  "weight out + el_weight el \<le> weight (clean_element rooted out el)"
  by (auto simp: clean_element_def weight_butlast el_weight_def)

lemma weight_foldl:
  "weight out + weight els \<le> weight (foldl (clean_element rooted) out els)"
proof (induction els arbitrary: out)
  case Nil
  then show ?case by simp
next
  case (Cons el els)
  have "weight out + el_weight el + weight els
        \<le> weight (clean_element rooted out el) + weight els"
    using weight_clean_element [of out el rooted] by simp
  also have "\<dots> \<le> weight (foldl (clean_element rooted) (clean_element rooted out el) els)"
    by (rule Cons.IH)
  finally show ?case by simp
qed

lemma free_clean_element:
  "\<forall>x \<in> set out. CHR ''/'' \<notin> set x \<Longrightarrow> CHR ''/'' \<notin> set el
    \<Longrightarrow> \<forall>x \<in> set (clean_element rooted out el). CHR ''/'' \<notin> set x"
  by (auto simp: clean_element_def dest: in_set_butlastD)

lemma free_foldl:
  "\<forall>x \<in> set out. CHR ''/'' \<notin> set x \<Longrightarrow> \<forall>x \<in> set els. CHR ''/'' \<notin> set x
    \<Longrightarrow> \<forall>x \<in> set (foldl (clean_element rooted) out els). CHR ''/'' \<notin> set x"
proof (induction els arbitrary: out)
  case Nil
  then show ?case by simp
next
  case (Cons el els)
  have "\<forall>x \<in> set (clean_element rooted out el). CHR ''/'' \<notin> set x"
    by (rule free_clean_element) (use Cons.prems in simp_all)
  moreover have "\<forall>x \<in> set els. CHR ''/'' \<notin> set x"
    using Cons.prems(2) by simp
  ultimately have
    "\<forall>x \<in> set (foldl (clean_element rooted) (clean_element rooted out el) els).
       CHR ''/'' \<notin> set x"
    by (rule Cons.IH)
  then show ?case by simp
qed

lemma path_weight_Clean: "path_weight p \<le> path_weight (Clean p)"
proof (cases p)
  case Nil
  then show ?thesis by (simp add: Clean_def path_weight_def el_weight_def)
next
  case (Cons c cs)
  define rooted where "rooted = (c = CHR ''/'')"
  define out where "out = foldl (clean_element rooted) [] (split_path p)"
  define cleaned where "cleaned = (if rooted then ''/'' else '''') @ join_sep out"
  have free: "\<forall>x \<in> set out. CHR ''/'' \<notin> set x"
    unfolding out_def by (rule free_foldl) (auto dest: split_path_elems)
  have "weight (split_path p) \<le> weight out"
    unfolding out_def using weight_foldl [of "[]" "split_path p" rooted] by simp
  also have "weight out = weight (split_path cleaned)"
    using weight_join_sep [OF free] split_path_append [of "[]" "join_sep out"]
    by (simp add: cleaned_def el_weight_def)
  also have "\<dots> = weight (split_path (if cleaned = '''' then ''.'' else cleaned))"
    by (simp add: el_weight_def)
  also have "(if cleaned = '''' then ''.'' else cleaned) = Clean p"
    using Cons by (simp add: Clean_def Let_def rooted_def out_def cleaned_def)
  finally show ?thesis by (simp add: path_weight_def)
qed

lemma path_weight_Join_pair:
  assumes "CHR ''/'' \<notin> set el" "el \<noteq> ''''" "el \<noteq> ''.''" "el \<noteq> ''..''"
  shows "path_weight r + 1 \<le> path_weight (filepath_Join [r, el])"
proof (cases "r = ''''")
  case True
  have "path_weight el = 1"
    using assms by (simp add: path_weight_def split_path_free el_weight_def)
  moreover have "filepath_Join [r, el] = Clean el"
    using True assms by (simp add: filepath_Join_def)
  ultimately show ?thesis
    using path_weight_Clean [of el] True by (simp add: path_weight_def el_weight_def)
next
  case False
  have "path_weight (r @ CHR ''/'' # el) = path_weight r + 1"
    using assms by (simp add: path_weight_def split_path_append split_path_free el_weight_def)
  moreover have "filepath_Join [r, el] = Clean (r @ CHR ''/'' # el)"
    using False by (simp add: filepath_Join_def)
  ultimately show ?thesis
    using path_weight_Clean [of "r @ CHR ''/'' # el"] by simp
qed


lemma results_folder_differs:
  "filepath_Join [filepath_Join [r, ''.checkmarx''], ''containers''] \<noteq> r"
proof
  assume eq: "filepath_Join [filepath_Join [r, ''.checkmarx''], ''containers''] = r"
  have "path_weight r + 1 \<le> path_weight (filepath_Join [r, ''.checkmarx''])"
    by (rule path_weight_Join_pair) simp_all
  moreover have "path_weight (filepath_Join [r, ''.checkmarx'']) + 1
      \<le> path_weight (filepath_Join [filepath_Join [r, ''.checkmarx''], ''containers''])"
    by (rule path_weight_Join_pair) simp_all
  ultimately show False using eq by simp
qed


lemma Clean_not_empty: "Clean p \<noteq> ''''"
  by (simp add: Clean_def Let_def split: list.splits)

lemma results_folder_not_empty:
  "filepath_Join [p, ''containers''] \<noteq> ''''"
  by (cases "p = ''''") (simp_all add: filepath_Join_def Clean_not_empty)

section \<open>Lemmas: the runs of the test doubles\<close>

lemma test_results_folder:
  "filepath_Join [filepath_Join [''../../test_files/resolution'', ''.checkmarx''], ''containers'']
     = ''../../test_files/resolution/.checkmarx/containers''"
  by (simp add: filepath_Join_def Clean_def clean_element_def)

lemmas run_defs = Resolve_def validate_def cleanup_def hideDirectoryOnWindows_def
  Resolve_v1_def validate_v1_def cleanup_v1_def cleanup_v2_def
  call_IsValidFolderPath_def call_MkdirAll_def call_Command_def call_ExtractFiles_def
  call_ExtractAndMergeImagesFromFiles_def call_AnalyzeImagesWithPlatform_def
  call_AnalyzeImages_def call_SaveObjectToFile_def call_DeleteDirectory_def
  emit_def Let_def test_start_def test_world_def test_env_def test_results_folder
  test_scan_def test_folder_def test_images_def

section \<open>Lemmas: the runs of the second resolver\<close>

lemma validate_v2_cases [consumes 1, case_names rejected mkdir_failed created]:
  assumes "validate_v2 env r s = ((cx, err), s')"
  obtains
    (rejected) ok where
      "IsValidFolderPath env (world s) r = ((ok, err), world s')"
      "err \<noteq> None \<or> \<not> ok"
      "cx = ''''"
      "trace s' = trace s @ [Call_IsValidFolderPath r ok err]"
  | (mkdir_failed) w1 e where
      "IsValidFolderPath env (world s) r = ((True, None), w1)"
      "MkdirAll env w1 (Join env [r, ''.checkmarx'', ''containers'']) 493 = (Some e, world s')"
      "cx = ''''" "err = Some e"
      "trace s' = trace s @ [Call_IsValidFolderPath r True None,
         Call_MkdirAll (Join env [r, ''.checkmarx'', ''containers'']) 493 (Some e)]"
  | (created) w1 where
      "IsValidFolderPath env (world s) r = ((True, None), w1)"
      "MkdirAll env w1 (Join env [r, ''.checkmarx'', ''containers'']) 493 = (None, world s')"
      "cx = Join env [r, ''.checkmarx'', ''containers'']" "err = None"
      "trace s' = trace s @ [Call_IsValidFolderPath r True None,
         Call_MkdirAll (Join env [r, ''.checkmarx'', ''containers'']) 493 None]"
proof -
  let ?cx = "Join env [r, ''.checkmarx'', ''containers'']"
  obtain ok verr s1 where iv: "call_IsValidFolderPath env r s = ((ok, verr), s1)"
    by (cases "call_IsValidFolderPath env r s") auto
  note ivr = call_IsValidFolderPath_run [OF iv]
  show thesis
  proof (cases "verr \<noteq> None \<or> \<not> ok")
    case True
    with assms iv have "cx = ''''" "err = verr" "s' = s1"
      by (auto simp: validate_v2_def)
    with ivr True show thesis
      by (intro rejected [of ok]) auto
  next
    case False
    then have ok: "ok" "verr = None" by auto
    obtain merr s2 where mk: "call_MkdirAll env ?cx 493 s1 = (merr, s2)"
      by (cases "call_MkdirAll env ?cx 493 s1") auto
    note mkr = call_MkdirAll_run [OF mk]
    show thesis
    proof (cases merr)
      case (Some e)
      with assms iv ok mk have "cx = ''''" "err = Some e" "s' = s2"
        by (auto simp: validate_v2_def Let_def)
      with ivr ok mkr Some show thesis
        by (intro mkdir_failed [of "world s1" e]) auto
    next
      case None
      with assms iv ok mk have "cx = ?cx" "err = None" "s' = s2"
        by (auto simp: validate_v2_def Let_def)
      with ivr ok mkr None show thesis
        by (intro created [of "world s1"]) auto
    qed
  qed
qed

lemma validate_v2_silent:
  assumes "validate_v2 env r s = ((cx, err), s')"
  obtains vev where "trace s' = trace s @ vev" "\<forall>ev \<in> set vev. silent ev"
  using assms by (cases rule: validate_v2_cases) auto

text \<open>What the \<open>cleanup\<close> of the second resolver adds to the trace.\<close>

lemma cleanup_v2_events:
  assumes "cleanup_v2 env orig out cx s = (err, s')"
  obtains cev where
    "trace s' = trace s @ cev"
    "collaborator_results cev = []"
    "save_folders cev = []"
    "deletions cev = (if out \<noteq> '''' \<and> out \<noteq> orig \<and> cx \<noteq> '''' then [out, cx] else [])"
    "deletion_failures cev = [] \<longleftrightarrow> err = None"
    "\<forall>ev \<in> set cev. is_Delete ev"
  using assms by (cases rule: cleanup_v2_cases) (auto split: if_splits)

lemma Resolve_v2_raw_cases
  [consumes 1, case_names validation extraction merging analysis saving cleaning success]:
  assumes "Resolve_v2 env scanPath r images dbg s = (res, s')"
  obtains
    (validation) cx e s1 where
      "validate_v2 env r (Resolve_start scanPath r images dbg s) = ((cx, Some e), s1)"
      "res = Some e"
      "s' = emit (Log ErrorLevel (Some e)
               ''Resolution Path is not valid or could not create .checkmarx folder.'') s1"
  | (extraction) cx s1 f st out e s3 where
      "validate_v2 env r (Resolve_start scanPath r images dbg s) = ((cx, None), s1)"
      "call_ExtractFiles env scanPath (emit (Log DebugLevel None ''Call ExtractFiles...'') s1)
         = ((f, st, out, Some e), s3)"
      "res = Some e"
      "s' = emit (Log ErrorLevel (Some e) ''Could not extract files.'') s3"
  | (merging) cx s1 f st out s3 im e s4 where
      "validate_v2 env r (Resolve_start scanPath r images dbg s) = ((cx, None), s1)"
      "call_ExtractFiles env scanPath (emit (Log DebugLevel None ''Call ExtractFiles...'') s1)
         = ((f, st, out, None), s3)"
      "call_ExtractAndMergeImagesFromFiles env f (ToImageModels env images) st s3
         = ((im, Some e), s4)"
      "res = Some e"
      "s' = emit (Log ErrorLevel (Some e) ''Could not extract images from files.'') s4"
  | (analysis) cx s1 f st out s3 im s4 rr e s5 where
      "validate_v2 env r (Resolve_start scanPath r images dbg s) = ((cx, None), s1)"
      "call_ExtractFiles env scanPath (emit (Log DebugLevel None ''Call ExtractFiles...'') s1)
         = ((f, st, out, None), s3)"
      "call_ExtractAndMergeImagesFromFiles env f (ToImageModels env images) st s3
         = ((im, None), s4)"
      "call_AnalyzeImages env im s4 = ((rr, Some e), s5)"
      "res = Some e"
      "s' = emit (Log ErrorLevel (Some e) ''Could not analyze images.'') s5"
  | (saving) cx s1 f st out s3 im s4 rr s5 e s6 where
      "validate_v2 env r (Resolve_start scanPath r images dbg s) = ((cx, None), s1)"
      "call_ExtractFiles env scanPath (emit (Log DebugLevel None ''Call ExtractFiles...'') s1)
         = ((f, st, out, None), s3)"
      "call_ExtractAndMergeImagesFromFiles env f (ToImageModels env images) st s3
         = ((im, None), s4)"
      "call_AnalyzeImages env im s4 = ((rr, None), s5)"
      "call_SaveObjectToFile env cx rr s5 = (Some e, s6)"
      "res = Some e"
      "s' = emit (Log ErrorLevel (Some e) ''Could not save resolution result.'') s6"
  | (cleaning) cx s1 f st out s3 im s4 rr s5 s6 e s7 where
      "validate_v2 env r (Resolve_start scanPath r images dbg s) = ((cx, None), s1)"
      "call_ExtractFiles env scanPath (emit (Log DebugLevel None ''Call ExtractFiles...'') s1)
         = ((f, st, out, None), s3)"
      "call_ExtractAndMergeImagesFromFiles env f (ToImageModels env images) st s3
         = ((im, None), s4)"
      "call_AnalyzeImages env im s4 = ((rr, None), s5)"
      "call_SaveObjectToFile env cx rr s5 = (None, s6)"
      "cleanup_v2 env r out cx s6 = (Some e, s7)"
      "res = Some e"
      "s' = emit (Log ErrorLevel (Some e) ''Could not cleanup resources.'') s7"
  | (success) cx s1 f st out s3 im s4 rr s5 s6 where
      "validate_v2 env r (Resolve_start scanPath r images dbg s) = ((cx, None), s1)"
      "call_ExtractFiles env scanPath (emit (Log DebugLevel None ''Call ExtractFiles...'') s1)
         = ((f, st, out, None), s3)"
      "call_ExtractAndMergeImagesFromFiles env f (ToImageModels env images) st s3
         = ((im, None), s4)"
      "call_AnalyzeImages env im s4 = ((rr, None), s5)"
      "call_SaveObjectToFile env cx rr s5 = (None, s6)"
      "cleanup_v2 env r out cx s6 = (None, s')"
      "res = None"
  using assms unfolding Resolve_v2_def Let_def Resolve_start_def [symmetric]
  by (auto split: prod.splits if_splits)

lemma validate_v2_in_Resolve:
  assumes "validate_v2 env r (Resolve_start scanPath r images dbg s) = ((cx, err), s1)"
  obtains pre where "trace s1 = trace s @ pre" "\<forall>ev \<in> set pre. silent ev"
proof -
  from assms obtain vev where
    vev: "trace s1 = trace (Resolve_start scanPath r images dbg s) @ vev"
      "\<forall>ev \<in> set vev. silent ev"
    by (rule validate_v2_silent)
  show thesis
  proof (rule that)
    show "trace s1 = trace s @
      ([SetGlobalLevel (if dbg then DebugLevel else InfoLevel),
        Logf DebugLevel
         ''Resolve func parameters: scanPath=%s, resolutionFolderPath=%s, images=%s, isDebug=%t''
         [ArgString scanPath, ArgString r, ArgStrings images, ArgBool dbg]] @ vev)"
      using vev(1) by simp
    show "\<forall>ev \<in> set
      ([SetGlobalLevel (if dbg then DebugLevel else InfoLevel),
        Logf DebugLevel
         ''Resolve func parameters: scanPath=%s, resolutionFolderPath=%s, images=%s, isDebug=%t''
         [ArgString scanPath, ArgString r, ArgStrings images, ArgBool dbg]] @ vev). silent ev"
      using vev(2) by simp
  qed
qed

text \<open>
  The seven runs of the second \<open>Resolve\<close>.  In each, \<open>pre\<close> is what the logger's set-up and
  its \<open>validate\<close> added to the trace, and \<open>s1\<close> is the state its \<open>validate\<close> returned.
\<close>

lemma Resolve_v2_cases
  [consumes 1, case_names validation extraction merging analysis saving cleaning success]:
  assumes "Resolve_v2 env scanPath r images dbg s = (res, s')"
  obtains
    (validation) cx e s1 pre where
      "validate_v2 env r (Resolve_start scanPath r images dbg s) = ((cx, Some e), s1)"
      "trace s1 = trace s @ pre" "\<forall>ev \<in> set pre. silent ev"
      "res = Some e"
      "world s' = world s1"
      "trace s' = trace s @ pre @ [Log ErrorLevel (Some e)
         ''Resolution Path is not valid or could not create .checkmarx folder.'']"
  | (extraction) cx s1 pre f st out e where
      "validate_v2 env r (Resolve_start scanPath r images dbg s) = ((cx, None), s1)"
      "trace s1 = trace s @ pre" "\<forall>ev \<in> set pre. silent ev"
      "ExtractFiles env (world s1) scanPath = ((f, st, out, Some e), world s')"
      "res = Some e"
      "trace s' = trace s @ pre @ [Log DebugLevel None ''Call ExtractFiles...'',
         Call_ExtractFiles scanPath f st out (Some e),
         Log ErrorLevel (Some e) ''Could not extract files.'']"
  | (merging) cx s1 pre f st out w3 im e where
      "validate_v2 env r (Resolve_start scanPath r images dbg s) = ((cx, None), s1)"
      "trace s1 = trace s @ pre" "\<forall>ev \<in> set pre. silent ev"
      "ExtractFiles env (world s1) scanPath = ((f, st, out, None), w3)"
      "ExtractAndMergeImagesFromFiles env w3 f (ToImageModels env images) st
         = ((im, Some e), world s')"
      "res = Some e"
      "trace s' = trace s @ pre @ [Log DebugLevel None ''Call ExtractFiles...'',
         Call_ExtractFiles scanPath f st out None,
         Call_ExtractAndMergeImagesFromFiles f (ToImageModels env images) st (Some e),
         Log ErrorLevel (Some e) ''Could not extract images from files.'']"
  | (analysis) cx s1 pre f st out w3 im w4 rr e where
      "validate_v2 env r (Resolve_start scanPath r images dbg s) = ((cx, None), s1)"
      "trace s1 = trace s @ pre" "\<forall>ev \<in> set pre. silent ev"
      "ExtractFiles env (world s1) scanPath = ((f, st, out, None), w3)"
      "ExtractAndMergeImagesFromFiles env w3 f (ToImageModels env images) st
         = ((im, None), w4)"
      "AnalyzeImages env w4 im = ((rr, Some e), world s')"
      "res = Some e"
      "trace s' = trace s @ pre @ [Log DebugLevel None ''Call ExtractFiles...'',
         Call_ExtractFiles scanPath f st out None,
         Call_ExtractAndMergeImagesFromFiles f (ToImageModels env images) st None,
         Call_AnalyzeImages im (Some e),
         Log ErrorLevel (Some e) ''Could not analyze images.'']"
  | (saving) cx s1 pre f st out w3 im w4 rr w5 e where
      "validate_v2 env r (Resolve_start scanPath r images dbg s) = ((cx, None), s1)"
      "trace s1 = trace s @ pre" "\<forall>ev \<in> set pre. silent ev"
      "ExtractFiles env (world s1) scanPath = ((f, st, out, None), w3)"
      "ExtractAndMergeImagesFromFiles env w3 f (ToImageModels env images) st
         = ((im, None), w4)"
      "AnalyzeImages env w4 im = ((rr, None), w5)"
      "SaveObjectToFile env w5 cx rr = (Some e, world s')"
      "res = Some e"
      "trace s' = trace s @ pre @ [Log DebugLevel None ''Call ExtractFiles...'',
         Call_ExtractFiles scanPath f st out None,
         Call_ExtractAndMergeImagesFromFiles f (ToImageModels env images) st None,
         Call_AnalyzeImages im None,
         Call_SaveObjectToFile cx rr (Some e),
         Log ErrorLevel (Some e) ''Could not save resolution result.'']"
  | (cleaning) cx s1 pre f st out w3 im w4 rr w5 s6 e s7 where
      "validate_v2 env r (Resolve_start scanPath r images dbg s) = ((cx, None), s1)"
      "trace s1 = trace s @ pre" "\<forall>ev \<in> set pre. silent ev"
      "ExtractFiles env (world s1) scanPath = ((f, st, out, None), w3)"
      "ExtractAndMergeImagesFromFiles env w3 f (ToImageModels env images) st
         = ((im, None), w4)"
      "AnalyzeImages env w4 im = ((rr, None), w5)"
      "SaveObjectToFile env w5 cx rr = (None, world s6)"
      "trace s6 = trace s @ pre @ [Log DebugLevel None ''Call ExtractFiles...'',
         Call_ExtractFiles scanPath f st out None,
         Call_ExtractAndMergeImagesFromFiles f (ToImageModels env images) st None,
         Call_AnalyzeImages im None,
         Call_SaveObjectToFile cx rr None]"
      "cleanup_v2 env r out cx s6 = (Some e, s7)"
      "res = Some e"
      "world s' = world s7"
      "trace s' = trace s7 @ [Log ErrorLevel (Some e) ''Could not cleanup resources.'']"
  | (success) cx s1 pre f st out w3 im w4 rr w5 s6 where
      "validate_v2 env r (Resolve_start scanPath r images dbg s) = ((cx, None), s1)"
      "trace s1 = trace s @ pre" "\<forall>ev \<in> set pre. silent ev"
      "ExtractFiles env (world s1) scanPath = ((f, st, out, None), w3)"
      "ExtractAndMergeImagesFromFiles env w3 f (ToImageModels env images) st
         = ((im, None), w4)"
      "AnalyzeImages env w4 im = ((rr, None), w5)"
      "SaveObjectToFile env w5 cx rr = (None, world s6)"
      "trace s6 = trace s @ pre @ [Log DebugLevel None ''Call ExtractFiles...'',
         Call_ExtractFiles scanPath f st out None,
         Call_ExtractAndMergeImagesFromFiles f (ToImageModels env images) st None,
         Call_AnalyzeImages im None,
         Call_SaveObjectToFile cx rr None]"
      "cleanup_v2 env r out cx s6 = (None, s')"
      "res = None"
  using assms
proof (cases rule: Resolve_v2_raw_cases)
  case (validation cx e s1)
  from validation(1) obtain pre where
    pre: "trace s1 = trace s @ pre" "\<forall>ev \<in> set pre. silent ev"
    by (rule validate_v2_in_Resolve)
  from validation pre show ?thesis
    by (intro that(1) [of cx e s1 pre]) simp_all
next
  case (extraction cx s1 f st out e s3)
  from extraction(1) obtain pre where
    pre: "trace s1 = trace s @ pre" "\<forall>ev \<in> set pre. silent ev"
    by (rule validate_v2_in_Resolve)
  note x = call_ExtractFiles_run [OF extraction(2)]
  from extraction pre x show ?thesis
    by (intro that(2) [of cx s1 pre f st out e]) simp_all
next
  case (merging cx s1 f st out s3 im e s4)
  from merging(1) obtain pre where
    pre: "trace s1 = trace s @ pre" "\<forall>ev \<in> set pre. silent ev"
    by (rule validate_v2_in_Resolve)
  note x = call_ExtractFiles_run [OF merging(2)]
  note m = call_ExtractAndMergeImagesFromFiles_run [OF merging(3)]
  from merging pre x m show ?thesis
    by (intro that(3) [of cx s1 pre f st out "world s3" im e]) simp_all
next
  case (analysis cx s1 f st out s3 im s4 rr e s5)
  from analysis(1) obtain pre where
    pre: "trace s1 = trace s @ pre" "\<forall>ev \<in> set pre. silent ev"
    by (rule validate_v2_in_Resolve)
  note x = call_ExtractFiles_run [OF analysis(2)]
  note m = call_ExtractAndMergeImagesFromFiles_run [OF analysis(3)]
  note a = call_AnalyzeImages_run [OF analysis(4)]
  from analysis pre x m a show ?thesis
    by (intro that(4) [of cx s1 pre f st out "world s3" im "world s4" rr e]) simp_all
next
  case (saving cx s1 f st out s3 im s4 rr s5 e s6)
  from saving(1) obtain pre where
    pre: "trace s1 = trace s @ pre" "\<forall>ev \<in> set pre. silent ev"
    by (rule validate_v2_in_Resolve)
  note x = call_ExtractFiles_run [OF saving(2)]
  note m = call_ExtractAndMergeImagesFromFiles_run [OF saving(3)]
  note a = call_AnalyzeImages_run [OF saving(4)]
  note sv = call_SaveObjectToFile_run [OF saving(5)]
  from saving pre x m a sv show ?thesis
    by (intro that(5) [of cx s1 pre f st out "world s3" im "world s4" rr "world s5" e])
       simp_all
next
  case (cleaning cx s1 f st out s3 im s4 rr s5 s6 e s7)
  from cleaning(1) obtain pre where
    pre: "trace s1 = trace s @ pre" "\<forall>ev \<in> set pre. silent ev"
    by (rule validate_v2_in_Resolve)
  note x = call_ExtractFiles_run [OF cleaning(2)]
  note m = call_ExtractAndMergeImagesFromFiles_run [OF cleaning(3)]
  note a = call_AnalyzeImages_run [OF cleaning(4)]
  note sv = call_SaveObjectToFile_run [OF cleaning(5)]
  from cleaning pre x m a sv show ?thesis
    by (intro that(6) [of cx s1 pre f st out "world s3" im "world s4" rr "world s5" s6 e s7])
       simp_all
next
  case (success cx s1 f st out s3 im s4 rr s5 s6)
  from success(1) obtain pre where
    pre: "trace s1 = trace s @ pre" "\<forall>ev \<in> set pre. silent ev"
    by (rule validate_v2_in_Resolve)
  note x = call_ExtractFiles_run [OF success(2)]
  note m = call_ExtractAndMergeImagesFromFiles_run [OF success(3)]
  note a = call_AnalyzeImages_run [OF success(4)]
  note sv = call_SaveObjectToFile_run [OF success(5)]
  from success pre x m a sv show ?thesis
    by (intro that(7) [of cx s1 pre f st out "world s3" im "world s4" rr "world s5" s6])
       simp_all
qed

lemma test_results_folder_v2:
  "filepath_Join [''../../test_files/resolution'', ''.checkmarx'', ''containers'']
     = ''../../test_files/resolution/.checkmarx/containers''"
  by (simp add: filepath_Join_def Clean_def clean_element_def)

lemmas run_v2_defs = Resolve_v2_def validate_v2_def test_results_folder_v2

section \<open>Lemmas: the trace before the call of \<open>SaveObjectToFile\<close>\<close>

lemma takeWhile_not_Save_silent:
  assumes "\<forall>ev \<in> set pre. silent ev"
  shows "takeWhile (\<lambda>ev. \<not> is_Save ev) (pre @ evs) = pre @ takeWhile (\<lambda>ev. \<not> is_Save ev) evs"
  using assms silent_not_call by (intro takeWhile_append2) blast

lemma takeWhile_not_Save_all:
  assumes "\<forall>ev \<in> set pre. silent ev"
  shows "takeWhile (\<lambda>ev. \<not> is_Save ev) pre = pre"
  using assms silent_not_call by (intro takeWhile_eq_all_conv [THEN iffD2]) blast

section \<open>The claims\<close>

subsection \<open>C5: a failure of file discovery\<close>

text \<open>
  Claim C5.  Whenever \<open>ExtractFiles\<close> returns an error during \<open>Resolve\<close>, \<open>Resolve\<close> returns
  exactly that error, and neither \<open>ExtractAndMergeImagesFromFiles\<close> nor an analysis
  (\<open>AnalyzeImagesWithPlatform\<close>, \<open>AnalyzeImages\<close>) is called.  This holds for the resolver
  of \<open>containerScanner.go\<close> and for the resolver of \<open>part_000\<close>.
\<close>

theorem discovery_failure_aborts:
  assumes "Resolve env scanPath r images dbg s = (res, s')"
    and "Resolve_v1 env scanPath r images dbg s = (res1, s1')"
  shows "(Call_ExtractFiles p f st out (Some e) \<in> set (new_events s s') \<longrightarrow>
            res = Some e \<and> filter is_Merge (new_events s s') = []
            \<and> filter is_Analyze (new_events s s') = [])
       \<and> (Call_ExtractFiles p f st out (Some e) \<in> set (new_events s s1') \<longrightarrow>
            res1 = Some e \<and> filter is_Merge (new_events s s1') = []
            \<and> filter is_Analyze (new_events s s1') = [])"
proof
  show "Call_ExtractFiles p f st out (Some e) \<in> set (new_events s s') \<longrightarrow>
      res = Some e \<and> filter is_Merge (new_events s s') = []
      \<and> filter is_Analyze (new_events s s') = []"
    using assms(1)
  proof (cases rule: Resolve_cases)
    case (cleaning cx s1 pre f' st' out' w3 im w4 rr w5 s6 e' s7)
    from cleaning(9) obtain cev where "trace s7 = trace s6 @ cev"
      "\<forall>ev \<in> set cev. is_Delete ev \<or> (\<exists>e msg. ev = Log WarnLevel (Some e) msg)"
      by (rule cleanup_events)
    with cleaning show ?thesis by auto
  next
    case (success cx s1 pre f' st' out' w3 im w4 rr w5 s6)
    from success(9) obtain cev where "trace s' = trace s6 @ cev"
      "\<forall>ev \<in> set cev. is_Delete ev \<or> (\<exists>e msg. ev = Log WarnLevel (Some e) msg)"
      by (rule cleanup_events)
    with success show ?thesis by auto
  qed (auto simp: silent_filters)
  show "Call_ExtractFiles p f st out (Some e) \<in> set (new_events s s1') \<longrightarrow>
      res1 = Some e \<and> filter is_Merge (new_events s s1') = []
      \<and> filter is_Analyze (new_events s s1') = []"
    using assms(2)
  proof (cases rule: Resolve_v1_cases)
    case (cleaning ok pre w1 f' st' out' w3 im w4 rr w5 s6 e' s7)
    from cleaning(8) show ?thesis
      by (cases rule: cleanup_v1_cases) (use cleaning in auto)
  next
    case (success ok pre w1 f' st' out' w3 im w4 rr w5 s6)
    from success(8) show ?thesis
      by (cases rule: cleanup_v1_cases) (use success in auto)
  qed auto
qed

theorem discovery_failure_aborts_witness:
  "Call_ExtractFiles test_scan [''Dockerfile''] [''settings.json''] ''/output/path''
       (Some (Error ''invalid path''))
     \<in> set (new_events test_start
           (snd (Resolve env_extract_fails test_scan test_folder test_images False test_start)))
   \<and> fst (Resolve env_extract_fails test_scan test_folder test_images False test_start)
       = Some (Error ''invalid path'')
   \<and> filter is_Merge (new_events test_start
         (snd (Resolve env_extract_fails test_scan test_folder test_images False test_start)))
       = []
   \<and> filter is_Analyze (new_events test_start
         (snd (Resolve env_extract_fails test_scan test_folder test_images False test_start)))
       = []
   \<and> Call_ExtractFiles test_scan [''Dockerfile''] [''settings.json''] ''/output/path''
       (Some (Error ''invalid path''))
     \<in> set (new_events test_start
           (snd (Resolve_v1 env_extract_fails test_scan test_folder test_images False
                  test_start)))
   \<and> fst (Resolve_v1 env_extract_fails test_scan test_folder test_images False test_start)
       = Some (Error ''invalid path'')
   \<and> filter is_Merge (new_events test_start
         (snd (Resolve_v1 env_extract_fails test_scan test_folder test_images False
                test_start))) = []
   \<and> filter is_Analyze (new_events test_start
         (snd (Resolve_v1 env_extract_fails test_scan test_folder test_images False
                test_start))) = []"
proof -
  have run: "Call_ExtractFiles test_scan [''Dockerfile''] [''settings.json''] ''/output/path''
       (Some (Error ''invalid path''))
     \<in> set (new_events test_start
           (snd (Resolve env_extract_fails test_scan test_folder test_images False test_start)))"
    by (simp add: run_defs env_extract_fails_def new_events_def)
  have run1: "Call_ExtractFiles test_scan [''Dockerfile''] [''settings.json''] ''/output/path''
       (Some (Error ''invalid path''))
     \<in> set (new_events test_start
           (snd (Resolve_v1 env_extract_fails test_scan test_folder test_images False
                  test_start)))"
    by (simp add: run_defs env_extract_fails_def new_events_def)
  from run run1
    discovery_failure_aborts
      [where env = env_extract_fails and scanPath = test_scan and r = test_folder
         and images = test_images and dbg = False and s = test_start and p = test_scan
         and f = "[''Dockerfile'']" and st = "[''settings.json'']" and out = "''/output/path''"
         and e = "Error ''invalid path''",
       OF prod.collapse [symmetric] prod.collapse [symmetric]]
  show ?thesis by simp
qed

subsection \<open>C6: a failure of the analysis\<close>

text \<open>
  Claim C6.  Whenever the analyzer returns an error during \<open>Resolve\<close>, discovery and merge
  have succeeded and the analysis is the third and last collaborator call: \<open>Resolve\<close>
  returns the analyzer's error as it is, \<open>SaveObjectToFile\<close> is not called, and the world
  \<open>Resolve\<close> leaves is the world the analyzer call returned, so nothing is written after the
  failure.  This holds for the resolver of \<open>containerScanner.go\<close>
  (\<open>AnalyzeImagesWithPlatform\<close>) and for the resolver of \<open>part_000\<close> (\<open>AnalyzeImages\<close>).
\<close>

theorem analysis_failure_aborts:
  assumes "Resolve env scanPath r images dbg s = (res, s')"
    and "Resolve_v1 env scanPath r images dbg s = (res1, s1')"
  shows "(Call_AnalyzeImagesWithPlatform im pl (Some e) \<in> set (new_events s s') \<longrightarrow>
            res = Some e
            \<and> collaborator_results (new_events s s') = [None, None, Some e]
            \<and> filter is_Save (new_events s s') = []
            \<and> (\<exists>w rr. AnalyzeImagesWithPlatform env w im pl = ((rr, Some e), world s')))
       \<and> (Call_AnalyzeImages im (Some e) \<in> set (new_events s s1') \<longrightarrow>
            res1 = Some e
            \<and> collaborator_results (new_events s s1') = [None, None, Some e]
            \<and> filter is_Save (new_events s s1') = []
            \<and> (\<exists>w rr. AnalyzeImages env w im = ((rr, Some e), world s1')))"
proof
  show "Call_AnalyzeImagesWithPlatform im pl (Some e) \<in> set (new_events s s') \<longrightarrow>
      res = Some e
      \<and> collaborator_results (new_events s s') = [None, None, Some e]
      \<and> filter is_Save (new_events s s') = []
      \<and> (\<exists>w rr. AnalyzeImagesWithPlatform env w im pl = ((rr, Some e), world s'))"
    using assms(1)
  proof (cases rule: Resolve_cases)
    case (cleaning cx s1 pre f' st' out' w3 im' w4 rr w5 s6 e' s7)
    from cleaning(9) obtain cev where "trace s7 = trace s6 @ cev"
      "\<forall>ev \<in> set cev. is_Delete ev \<or> (\<exists>e msg. ev = Log WarnLevel (Some e) msg)"
      by (rule cleanup_events)
    with cleaning show ?thesis by auto
  next
    case (success cx s1 pre f' st' out' w3 im' w4 rr w5 s6)
    from success(9) obtain cev where "trace s' = trace s6 @ cev"
      "\<forall>ev \<in> set cev. is_Delete ev \<or> (\<exists>e msg. ev = Log WarnLevel (Some e) msg)"
      by (rule cleanup_events)
    with success show ?thesis by auto
  qed (auto simp: silent_filters silent_results)
  show "Call_AnalyzeImages im (Some e) \<in> set (new_events s s1') \<longrightarrow>
      res1 = Some e
      \<and> collaborator_results (new_events s s1') = [None, None, Some e]
      \<and> filter is_Save (new_events s s1') = []
      \<and> (\<exists>w rr. AnalyzeImages env w im = ((rr, Some e), world s1'))"
    using assms(2)
  proof (cases rule: Resolve_v1_cases)
    case (cleaning ok pre w1 f' st' out' w3 im' w4 rr w5 s6 e' s7)
    from cleaning(8) show ?thesis
      by (cases rule: cleanup_v1_cases) (use cleaning in auto)
  next
    case (success ok pre w1 f' st' out' w3 im' w4 rr w5 s6)
    from success(8) show ?thesis
      by (cases rule: cleanup_v1_cases) (use success in auto)
  qed auto
qed

theorem analysis_failure_aborts_witness:
  "Call_AnalyzeImagesWithPlatform test_images ''linux/amd64''
       (Some (Error ''error analyzing images''))
     \<in> set (new_events test_start
           (snd (Resolve env_analyze_fails test_scan test_folder test_images False test_start)))
   \<and> fst (Resolve env_analyze_fails test_scan test_folder test_images False test_start)
       = Some (Error ''error analyzing images'')
   \<and> collaborator_results (new_events test_start
         (snd (Resolve env_analyze_fails test_scan test_folder test_images False test_start)))
       = [None, None, Some (Error ''error analyzing images'')]
   \<and> filter is_Save (new_events test_start
         (snd (Resolve env_analyze_fails test_scan test_folder test_images False test_start)))
       = []
   \<and> files (world
         (snd (Resolve env_analyze_fails test_scan test_folder test_images False test_start)))
       = []
   \<and> Call_AnalyzeImages test_images (Some (Error ''error analyzing images''))
     \<in> set (new_events test_start
           (snd (Resolve_v1 env_analyze_fails test_scan test_folder test_images False
                  test_start)))
   \<and> fst (Resolve_v1 env_analyze_fails test_scan test_folder test_images False test_start)
       = Some (Error ''error analyzing images'')
   \<and> collaborator_results (new_events test_start
         (snd (Resolve_v1 env_analyze_fails test_scan test_folder test_images False
                test_start)))
       = [None, None, Some (Error ''error analyzing images'')]
   \<and> filter is_Save (new_events test_start
         (snd (Resolve_v1 env_analyze_fails test_scan test_folder test_images False
                test_start))) = []"
proof -
  have run: "Call_AnalyzeImagesWithPlatform test_images ''linux/amd64''
       (Some (Error ''error analyzing images''))
     \<in> set (new_events test_start
           (snd (Resolve env_analyze_fails test_scan test_folder test_images False test_start)))"
    by (simp add: run_defs env_analyze_fails_def new_events_def)
  have run1: "Call_AnalyzeImages test_images (Some (Error ''error analyzing images''))
     \<in> set (new_events test_start
           (snd (Resolve_v1 env_analyze_fails test_scan test_folder test_images False
                  test_start)))"
    by (simp add: run_defs env_analyze_fails_def new_events_def)
  have nothing_saved: "files (world
         (snd (Resolve env_analyze_fails test_scan test_folder test_images False test_start)))
       = []"
    by (simp add: run_defs env_analyze_fails_def)
  from run run1 nothing_saved
    analysis_failure_aborts
      [where env = env_analyze_fails and scanPath = test_scan and r = test_folder
         and images = test_images and dbg = False and s = test_start and im = test_images
         and pl = "''linux/amd64''" and e = "Error ''error analyzing images''",
       OF prod.collapse [symmetric] prod.collapse [symmetric]]
  show ?thesis by simp
qed

subsection \<open>C1: an invalid resolution folder\<close>

text \<open>
  Claim C1 says that \<open>Resolve\<close> returns an error and calls no collaborator for every
  resolution folder that is not valid.  The code means to do so and misses one case.
  \<open>validate\<close> tests \<open>err != nil || isValidFolderPath == false\<close> in order to reject the
  folder, and then returns \<open>err\<close>.  When the folder check reports ``not valid'' without
  an error, that \<open>err\<close> is \<open>nil\<close>, so \<open>Resolve\<close> does not take the branch that logs
  ``Resolution Path is not valid or could not create .checkmarx folder.'' and returns.  On
  the path \<open>notes.txt\<close>, reported not valid without an error, each of the three
  resolvers makes all four collaborator calls, saves (the two resolvers of
  \<open>containerScanner.go\<close> into the folder with the empty path) and returns \<open>nil\<close>.
\<close>

theorem not_valid_folder_is_not_rejected:
  "Call_IsValidFolderPath ''notes.txt'' False None
     \<in> set (new_events test_start
           (snd (Resolve env_not_valid test_scan ''notes.txt'' test_images False test_start)))
   \<and> fst (Resolve env_not_valid test_scan ''notes.txt'' test_images False test_start) = None
   \<and> collaborator_results (new_events test_start
         (snd (Resolve env_not_valid test_scan ''notes.txt'' test_images False test_start)))
       = [None, None, None, None]
   \<and> save_folders (new_events test_start
         (snd (Resolve env_not_valid test_scan ''notes.txt'' test_images False test_start)))
       = ['''']
   \<and> fst (Resolve_v2 env_not_valid test_scan ''notes.txt'' test_images False test_start)
       = None
   \<and> collaborator_results (new_events test_start
         (snd (Resolve_v2 env_not_valid test_scan ''notes.txt'' test_images False test_start)))
       = [None, None, None, None]
   \<and> save_folders (new_events test_start
         (snd (Resolve_v2 env_not_valid test_scan ''notes.txt'' test_images False test_start)))
       = ['''']
   \<and> fst (Resolve_v1 env_not_valid test_scan ''notes.txt'' test_images False test_start)
       = None
   \<and> collaborator_results (new_events test_start
         (snd (Resolve_v1 env_not_valid test_scan ''notes.txt'' test_images False test_start)))
       = [None, None, None, None]"
  by (simp add: run_defs run_v2_defs env_not_valid_def new_events_def)

text \<open>
  The rejection that the code does make: whenever the validation step reports an error
  (the folder check returns an error, or the results folder cannot be created), \<open>Resolve\<close>
  returns exactly that error, calls no collaborator (no \<open>ExtractFiles\<close>, no
  \<open>ExtractAndMergeImagesFromFiles\<close>, no analysis, no \<open>SaveObjectToFile\<close>) and deletes
  nothing.  In the resolver of \<open>part_000\<close> the same holds for an error of the folder check.
\<close>

lemma validation_error_aborts:
  assumes "Resolve env scanPath r images dbg s = (res, s')"
    and "Resolve_v1 env scanPath r images dbg s = (res1, s1')"
  shows "(Call_IsValidFolderPath q ok (Some e) \<in> set (new_events s s')
            \<or> Call_MkdirAll p perm (Some e) \<in> set (new_events s s') \<longrightarrow>
            res = Some e \<and> filter is_collaborator_call (new_events s s') = []
            \<and> filter is_Delete (new_events s s') = [])
       \<and> (Call_IsValidFolderPath q ok (Some e) \<in> set (new_events s s1') \<longrightarrow>
            res1 = Some e \<and> filter is_collaborator_call (new_events s s1') = []
            \<and> filter is_Delete (new_events s s1') = [])"
proof
  show "Call_IsValidFolderPath q ok (Some e) \<in> set (new_events s s')
      \<or> Call_MkdirAll p perm (Some e) \<in> set (new_events s s') \<longrightarrow>
      res = Some e \<and> filter is_collaborator_call (new_events s s') = []
      \<and> filter is_Delete (new_events s s') = []"
    using assms(1)
  proof (cases rule: Resolve_cases)
    case (validation cx e' s1 pre)
    from validation(1) show ?thesis
      by (cases rule: validate_cases) (use validation in \<open>auto simp: silent_filters\<close>)
  next
    case (extraction cx s1 pre f st out e')
    from extraction(1) show ?thesis
      by (cases rule: validate_cases) (use extraction in auto)
  next
    case (merging cx s1 pre f st out w3 im e')
    from merging(1) show ?thesis
      by (cases rule: validate_cases) (use merging in auto)
  next
    case (analysis cx s1 pre f st out w3 im w4 rr e')
    from analysis(1) show ?thesis
      by (cases rule: validate_cases) (use analysis in auto)
  next
    case (saving cx s1 pre f st out w3 im w4 rr w5 e')
    from saving(1) show ?thesis
      by (cases rule: validate_cases) (use saving in auto)
  next
    case (cleaning cx s1 pre f st out w3 im w4 rr w5 s6 e' s7)
    from cleaning(9) obtain cev where cev: "trace s7 = trace s6 @ cev"
      "\<forall>ev \<in> set cev. is_Delete ev \<or> (\<exists>e msg. ev = Log WarnLevel (Some e) msg)"
      by (rule cleanup_events)
    from cleaning(1) show ?thesis
      by (cases rule: validate_cases) (use cleaning cev in auto)
  next
    case (success cx s1 pre f st out w3 im w4 rr w5 s6)
    from success(9) obtain cev where cev: "trace s' = trace s6 @ cev"
      "\<forall>ev \<in> set cev. is_Delete ev \<or> (\<exists>e msg. ev = Log WarnLevel (Some e) msg)"
      by (rule cleanup_events)
    from success(1) show ?thesis
      by (cases rule: validate_cases) (use success cev in auto)
  qed
  show "Call_IsValidFolderPath q ok (Some e) \<in> set (new_events s s1') \<longrightarrow>
      res1 = Some e \<and> filter is_collaborator_call (new_events s s1') = []
      \<and> filter is_Delete (new_events s s1') = []"
    using assms(2)
  proof (cases rule: Resolve_v1_cases)
    case (cleaning ok pre w1 f' st' out' w3 im w4 rr w5 s6 e' s7)
    from cleaning(8) show ?thesis
      by (cases rule: cleanup_v1_cases) (use cleaning in auto)
  next
    case (success ok pre w1 f' st' out' w3 im w4 rr w5 s6)
    from success(8) show ?thesis
      by (cases rule: cleanup_v1_cases) (use success in auto)
  qed auto
qed

lemma validation_error_aborts_on_empty_path:
  "(Call_IsValidFolderPath '''' False (Some (Error ''stat : no such file or directory''))
      \<in> set (new_events test_start
            (snd (Resolve test_env test_scan '''' test_images False test_start)))
    \<or> Call_MkdirAll '''' 493 (Some (Error ''stat : no such file or directory''))
      \<in> set (new_events test_start
            (snd (Resolve test_env test_scan '''' test_images False test_start))))
   \<and> fst (Resolve test_env test_scan '''' test_images False test_start)
       = Some (Error ''stat : no such file or directory'')
   \<and> filter is_collaborator_call (new_events test_start
         (snd (Resolve test_env test_scan '''' test_images False test_start))) = []
   \<and> filter is_Delete (new_events test_start
         (snd (Resolve test_env test_scan '''' test_images False test_start))) = []
   \<and> Call_IsValidFolderPath '''' False (Some (Error ''stat : no such file or directory''))
      \<in> set (new_events test_start
            (snd (Resolve_v1 test_env test_scan '''' test_images False test_start)))
   \<and> fst (Resolve_v1 test_env test_scan '''' test_images False test_start)
       = Some (Error ''stat : no such file or directory'')
   \<and> filter is_collaborator_call (new_events test_start
         (snd (Resolve_v1 test_env test_scan '''' test_images False test_start))) = []
   \<and> filter is_Delete (new_events test_start
         (snd (Resolve_v1 test_env test_scan '''' test_images False test_start))) = []"
proof -
  have run: "Call_IsValidFolderPath '''' False (Some (Error ''stat : no such file or directory''))
      \<in> set (new_events test_start
            (snd (Resolve test_env test_scan '''' test_images False test_start)))"
    by (simp add: run_defs new_events_def)
  have run1: "Call_IsValidFolderPath '''' False (Some (Error ''stat : no such file or directory''))
      \<in> set (new_events test_start
            (snd (Resolve_v1 test_env test_scan '''' test_images False test_start)))"
    by (simp add: run_defs new_events_def)
  from run run1
    validation_error_aborts
      [where env = test_env and scanPath = test_scan and r = "''''"
         and images = test_images and dbg = False and s = test_start and q = "''''"
         and ok = False and p = "''''" and perm = 493
         and e = "Error ''stat : no such file or directory''",
       OF prod.collapse [symmetric] prod.collapse [symmetric]]
  show ?thesis by simp
qed

subsection \<open>C9: a folder reported not valid without an error\<close>

text \<open>
  Claim C9.  When the folder check reports that the resolution folder is not valid and
  returns no error, \<open>validate\<close> returns the empty results path and no error, having done
  nothing else; and \<open>Resolve\<close> does not abort.  It calls \<open>ExtractFiles\<close>; if that succeeds
  it calls \<open>ExtractAndMergeImagesFromFiles\<close>; if that succeeds it calls the analyzer; and
  if that succeeds it calls \<open>SaveObjectToFile\<close>, once, with the empty string as the folder.
  No call of \<open>SaveObjectToFile\<close> in such a run gets another folder.  In the resolver of
  \<open>part_000\<close>, \<open>validate\<close> returns no error in that case and \<open>Resolve\<close> goes on to
  \<open>ExtractFiles\<close> as well.
\<close>

theorem not_valid_without_error_goes_on:
  assumes "validate env r t = ((cx, verr), t')"
    and "validate_v1 env r t = (verr1, u')"
    and "Resolve env scanPath r images dbg s = (res, s')"
    and "Resolve_v1 env scanPath r images dbg s = (res1, s1')"
  shows "(Call_IsValidFolderPath q False None \<in> set (new_events t t') \<longrightarrow>
            cx = '''' \<and> verr = None
            \<and> new_events t t' = [Call_IsValidFolderPath r False None])
       \<and> (Call_IsValidFolderPath q False None \<in> set (new_events t u') \<longrightarrow>
            verr1 = None)
       \<and> (Call_IsValidFolderPath q False None \<in> set (new_events s s') \<longrightarrow>
            filter is_ExtractFiles (new_events s s') \<noteq> []
            \<and> (take 1 (collaborator_results (new_events s s')) = [None] \<longrightarrow>
                 filter is_Merge (new_events s s') \<noteq> [])
            \<and> (take 2 (collaborator_results (new_events s s')) = [None, None] \<longrightarrow>
                 filter is_Analyze (new_events s s') \<noteq> [])
            \<and> (take 3 (collaborator_results (new_events s s')) = [None, None, None] \<longrightarrow>
                 save_folders (new_events s s') = [''''])
            \<and> set (save_folders (new_events s s')) \<subseteq> {''''})
       \<and> (Call_IsValidFolderPath q False None \<in> set (new_events s s1') \<longrightarrow>
            filter is_ExtractFiles (new_events s s1') \<noteq> [])"
proof (intro conjI)
  show "Call_IsValidFolderPath q False None \<in> set (new_events t t') \<longrightarrow>
      cx = '''' \<and> verr = None \<and> new_events t t' = [Call_IsValidFolderPath r False None]"
    using assms(1) by (cases rule: validate_cases) auto
  show "Call_IsValidFolderPath q False None \<in> set (new_events t u') \<longrightarrow> verr1 = None"
    using assms(2) by (rule validate_v1_run) auto
  show "Call_IsValidFolderPath q False None \<in> set (new_events s s') \<longrightarrow>
      filter is_ExtractFiles (new_events s s') \<noteq> []
      \<and> (take 1 (collaborator_results (new_events s s')) = [None] \<longrightarrow>
           filter is_Merge (new_events s s') \<noteq> [])
      \<and> (take 2 (collaborator_results (new_events s s')) = [None, None] \<longrightarrow>
           filter is_Analyze (new_events s s') \<noteq> [])
      \<and> (take 3 (collaborator_results (new_events s s')) = [None, None, None] \<longrightarrow>
           save_folders (new_events s s') = [''''])
      \<and> set (save_folders (new_events s s')) \<subseteq> {''''}"
    using assms(3)
  proof (cases rule: Resolve_cases)
    case (validation cx' e' s1 pre)
    from validation(1) show ?thesis
      by (cases rule: validate_cases) (use validation in auto)
  next
    case (extraction cx' s1 pre f st out e')
    from extraction(1) show ?thesis
      by (cases rule: validate_cases)
         (use extraction in \<open>auto simp: silent_results silent_save_folders\<close>)
  next
    case (merging cx' s1 pre f st out w3 im e')
    from merging(1) show ?thesis
      by (cases rule: validate_cases)
         (use merging in \<open>auto simp: silent_results silent_save_folders\<close>)
  next
    case (analysis cx' s1 pre f st out w3 im w4 rr e')
    from analysis(1) show ?thesis
      by (cases rule: validate_cases)
         (use analysis in \<open>auto simp: silent_results silent_save_folders\<close>)
  next
    case (saving cx' s1 pre f st out w3 im w4 rr w5 e')
    from saving(1) show ?thesis
      by (cases rule: validate_cases)
         (use saving in \<open>auto simp: silent_results silent_save_folders\<close>)
  next
    case (cleaning cx' s1 pre f st out w3 im w4 rr w5 s6 e' s7)
    from cleaning(9) obtain cev where cev: "trace s7 = trace s6 @ cev"
      "collaborator_results cev = []" "save_folders cev = []"
      "\<forall>ev \<in> set cev. is_Delete ev \<or> (\<exists>e msg. ev = Log WarnLevel (Some e) msg)"
      by (rule cleanup_events)
    from cleaning(1) show ?thesis
      by (cases rule: validate_cases)
         (use cleaning cev in \<open>auto simp: silent_results silent_save_folders\<close>)
  next
    case (success cx' s1 pre f st out w3 im w4 rr w5 s6)
    from success(9) obtain cev where cev: "trace s' = trace s6 @ cev"
      "collaborator_results cev = []" "save_folders cev = []"
      "\<forall>ev \<in> set cev. is_Delete ev \<or> (\<exists>e msg. ev = Log WarnLevel (Some e) msg)"
      by (rule cleanup_events)
    from success(1) show ?thesis
      by (cases rule: validate_cases)
         (use success cev in \<open>auto simp: silent_results silent_save_folders\<close>)
  qed
  show "Call_IsValidFolderPath q False None \<in> set (new_events s s1') \<longrightarrow>
      filter is_ExtractFiles (new_events s s1') \<noteq> []"
    using assms(4)
  proof (cases rule: Resolve_v1_cases)
    case (cleaning ok pre w1 f' st' out' w3 im w4 rr w5 s6 e' s7)
    from cleaning(8) show ?thesis
      by (cases rule: cleanup_v1_cases) (use cleaning in auto)
  next
    case (success ok pre w1 f' st' out' w3 im w4 rr w5 s6)
    from success(8) show ?thesis
      by (cases rule: cleanup_v1_cases) (use success in auto)
  qed auto
qed

theorem not_valid_without_error_goes_on_witness:
  "Call_IsValidFolderPath ''notes.txt'' False None
     \<in> set (new_events test_start (snd (validate env_not_valid ''notes.txt'' test_start)))
   \<and> fst (validate env_not_valid ''notes.txt'' test_start) = ('''', None)
   \<and> Call_IsValidFolderPath ''notes.txt'' False None
     \<in> set (new_events test_start (snd (validate_v1 env_not_valid ''notes.txt'' test_start)))
   \<and> fst (validate_v1 env_not_valid ''notes.txt'' test_start) = None
   \<and> Call_IsValidFolderPath ''notes.txt'' False None
     \<in> set (new_events test_start
           (snd (Resolve env_not_valid test_scan ''notes.txt'' test_images False test_start)))
   \<and> take 3 (collaborator_results (new_events test_start
         (snd (Resolve env_not_valid test_scan ''notes.txt'' test_images False test_start))))
       = [None, None, None]
   \<and> save_folders (new_events test_start
         (snd (Resolve env_not_valid test_scan ''notes.txt'' test_images False test_start)))
       = ['''']
   \<and> Call_IsValidFolderPath ''notes.txt'' False None
     \<in> set (new_events test_start
           (snd (Resolve_v1 env_not_valid test_scan ''notes.txt'' test_images False
                  test_start)))
   \<and> filter is_ExtractFiles (new_events test_start
         (snd (Resolve_v1 env_not_valid test_scan ''notes.txt'' test_images False
                test_start))) \<noteq> []"
proof -
  have v: "Call_IsValidFolderPath ''notes.txt'' False None
     \<in> set (new_events test_start (snd (validate env_not_valid ''notes.txt'' test_start)))"
    by (simp add: run_defs env_not_valid_def new_events_def)
  have v1: "Call_IsValidFolderPath ''notes.txt'' False None
     \<in> set (new_events test_start (snd (validate_v1 env_not_valid ''notes.txt'' test_start)))"
    by (simp add: run_defs env_not_valid_def new_events_def)
  have run: "Call_IsValidFolderPath ''notes.txt'' False None
     \<in> set (new_events test_start
           (snd (Resolve env_not_valid test_scan ''notes.txt'' test_images False test_start)))"
    by (simp add: run_defs env_not_valid_def new_events_def)
  have run1: "Call_IsValidFolderPath ''notes.txt'' False None
     \<in> set (new_events test_start
           (snd (Resolve_v1 env_not_valid test_scan ''notes.txt'' test_images False
                  test_start)))"
    by (simp add: run_defs env_not_valid_def new_events_def)
  have three: "take 3 (collaborator_results (new_events test_start
         (snd (Resolve env_not_valid test_scan ''notes.txt'' test_images False test_start))))
       = [None, None, None]"
    by (simp add: run_defs env_not_valid_def new_events_def)
  from v v1 run run1 three
    not_valid_without_error_goes_on
      [where env = env_not_valid and scanPath = test_scan and r = "''notes.txt''"
         and images = test_images and dbg = False and s = test_start and t = test_start
         and q = "''notes.txt''",
       OF nested_pair_collapse prod.collapse [symmetric]
          prod.collapse [symmetric] prod.collapse [symmetric]]
  show ?thesis by (simp add: prod_eq_iff)
qed

subsection \<open>C8: where the result is saved\<close>

text \<open>
  Claim C8 says that the result is saved under \<open>.checkmarx/containers\<close> of the resolution
  folder and not in the resolution folder itself.  The resolver of \<open>part_000\<close> has no
  results folder: it returns no error and has called \<open>SaveObjectToFile\<close> with the
  resolution folder itself.
\<close>

theorem results_folder_counterexample:
  "fst (Resolve_v1 test_env test_scan test_folder test_images False test_start) = None
   \<and> save_folders (new_events test_start
         (snd (Resolve_v1 test_env test_scan test_folder test_images False test_start)))
       = [test_folder]"
  by (simp add: run_defs new_events_def)

text \<open>
  Claim C8, amended.  In the resolver of \<open>containerScanner.go\<close>, when the folder check
  reports a valid folder, \<open>validate\<close> creates the folder
  \<open>Join (Join resolutionFolderPath ".checkmarx") "containers"\<close> with \<open>MkdirAll\<close> and
  returns its path; \<open>SaveObjectToFile\<close> is called with no other folder than this one, and
  a run that returns no error has called it exactly once, with this folder, after creating
  it.  With \<open>filepath.Join\<close> of a Unix system this folder is never the resolution folder
  itself.  In the resolver of \<open>part_000\<close>, which has no results folder,
  \<open>SaveObjectToFile\<close> is called with the resolution folder itself.
\<close>

theorem saved_to_results_folder:
  assumes "validate env r t = ((cx, verr), t')"
    and "Resolve env scanPath r images dbg s = (res, s')"
    and "Resolve_v1 env scanPath r images dbg s = (res1, u')"
  shows "(Call_IsValidFolderPath q True None \<in> set (new_events t t') \<and> verr = None \<longrightarrow>
            cx = Join env [Join env [r, ''.checkmarx''], ''containers'']
            \<and> Call_MkdirAll cx 493 None \<in> set (new_events t t'))
       \<and> (Call_IsValidFolderPath q True None \<in> set (new_events s s') \<longrightarrow>
            set (save_folders (new_events s s'))
              \<subseteq> {Join env [Join env [r, ''.checkmarx''], ''containers'']}
            \<and> (res = None \<longrightarrow>
                 save_folders (new_events s s')
                   = [Join env [Join env [r, ''.checkmarx''], ''containers'']]
                 \<and> collaborator_results (new_events s s') = [None, None, None, None]
                 \<and> Call_MkdirAll (Join env [Join env [r, ''.checkmarx''], ''containers''])
                      493 None \<in> set (new_events s s'))
            \<and> (Join env = filepath_Join \<longrightarrow> r \<notin> set (save_folders (new_events s s'))))
       \<and> set (save_folders (new_events s u')) \<subseteq> {r}
       \<and> (res1 = None \<longrightarrow> save_folders (new_events s u') = [r])"
proof (intro conjI)
  let ?cx = "Join env [Join env [r, ''.checkmarx''], ''containers'']"
  show "Call_IsValidFolderPath q True None \<in> set (new_events t t') \<and> verr = None \<longrightarrow>
      cx = ?cx \<and> Call_MkdirAll cx 493 None \<in> set (new_events t t')"
    using assms(1) by (cases rule: validate_cases) auto
  show "Call_IsValidFolderPath q True None \<in> set (new_events s s') \<longrightarrow>
      set (save_folders (new_events s s')) \<subseteq> {?cx}
      \<and> (res = None \<longrightarrow>
           save_folders (new_events s s') = [?cx]
           \<and> collaborator_results (new_events s s') = [None, None, None, None]
           \<and> Call_MkdirAll ?cx 493 None \<in> set (new_events s s'))
      \<and> (Join env = filepath_Join \<longrightarrow> r \<notin> set (save_folders (new_events s s')))"
    using assms(2)
  proof (cases rule: Resolve_cases)
    case (validation cx' e' s1 pre)
    from validation(1) show ?thesis
      by (cases rule: validate_cases) (use validation in auto)
  next
    case (extraction cx' s1 pre f st out e')
    from extraction(1) show ?thesis
      by (cases rule: validate_cases) (use extraction in auto)
  next
    case (merging cx' s1 pre f st out w3 im e')
    from merging(1) show ?thesis
      by (cases rule: validate_cases) (use merging in auto)
  next
    case (analysis cx' s1 pre f st out w3 im w4 rr e')
    from analysis(1) show ?thesis
      by (cases rule: validate_cases) (use analysis in auto)
  next
    case (saving cx' s1 pre f st out w3 im w4 rr w5 e')
    from saving(1) show ?thesis
      by (cases rule: validate_cases)
         (use saving results_folder_differs [of r] in auto)
  next
    case (cleaning cx' s1 pre f st out w3 im w4 rr w5 s6 e' s7)
    from cleaning(9) obtain cev where cev: "trace s7 = trace s6 @ cev"
      "collaborator_results cev = []" "save_folders cev = []"
      "\<forall>ev \<in> set cev. is_Delete ev \<or> (\<exists>e msg. ev = Log WarnLevel (Some e) msg)"
      by (rule cleanup_events)
    from cleaning(1) show ?thesis
      by (cases rule: validate_cases)
         (use cleaning cev results_folder_differs [of r] in auto)
  next
    case (success cx' s1 pre f st out w3 im w4 rr w5 s6)
    from success(9) obtain cev where cev: "trace s' = trace s6 @ cev"
      "collaborator_results cev = []" "save_folders cev = []"
      "\<forall>ev \<in> set cev. is_Delete ev \<or> (\<exists>e msg. ev = Log WarnLevel (Some e) msg)"
      by (rule cleanup_events)
    from success(1) show ?thesis
      by (cases rule: validate_cases)
         (use success cev results_folder_differs [of r] in auto)
  qed
  show "set (save_folders (new_events s u')) \<subseteq> {r}"
    using assms(3)
  proof (cases rule: Resolve_v1_cases)
    case (cleaning ok pre w1 f' st' out' w3 im w4 rr w5 s6 e' s7)
    from cleaning(8) show ?thesis
      by (cases rule: cleanup_v1_cases) (use cleaning in auto)
  next
    case (success ok pre w1 f' st' out' w3 im w4 rr w5 s6)
    from success(8) show ?thesis
      by (cases rule: cleanup_v1_cases) (use success in auto)
  qed auto
  show "res1 = None \<longrightarrow> save_folders (new_events s u') = [r]"
    using assms(3)
  proof (cases rule: Resolve_v1_cases)
    case (success ok pre w1 f' st' out' w3 im w4 rr w5 s6)
    from success(8) show ?thesis
      by (cases rule: cleanup_v1_cases) (use success in auto)
  qed auto
qed

theorem saved_to_results_folder_witness:
  "Call_IsValidFolderPath test_folder True None
     \<in> set (new_events test_start (snd (validate test_env test_folder test_start)))
   \<and> fst (validate test_env test_folder test_start)
       = (''../../test_files/resolution/.checkmarx/containers'', None)
   \<and> Call_MkdirAll ''../../test_files/resolution/.checkmarx/containers'' 493 None
     \<in> set (new_events test_start (snd (validate test_env test_folder test_start)))
   \<and> Call_IsValidFolderPath test_folder True None
     \<in> set (new_events test_start
           (snd (Resolve test_env test_scan test_folder test_images True test_start)))
   \<and> fst (Resolve test_env test_scan test_folder test_images True test_start) = None
   \<and> save_folders (new_events test_start
         (snd (Resolve test_env test_scan test_folder test_images True test_start)))
       = [''../../test_files/resolution/.checkmarx/containers'']
   \<and> test_folder \<notin> set (save_folders (new_events test_start
         (snd (Resolve test_env test_scan test_folder test_images True test_start))))
   \<and> fst (Resolve_v1 test_env test_scan test_folder test_images True test_start) = None
   \<and> save_folders (new_events test_start
         (snd (Resolve_v1 test_env test_scan test_folder test_images True test_start)))
       = [test_folder]"
proof -
  have v: "Call_IsValidFolderPath test_folder True None
     \<in> set (new_events test_start (snd (validate test_env test_folder test_start)))"
    "snd (fst (validate test_env test_folder test_start)) = None"
    by (simp_all add: run_defs new_events_def)
  have run: "Call_IsValidFolderPath test_folder True None
     \<in> set (new_events test_start
           (snd (Resolve test_env test_scan test_folder test_images True test_start)))"
    "fst (Resolve test_env test_scan test_folder test_images True test_start) = None"
    by (simp_all add: run_defs new_events_def)
  have run1: "fst (Resolve_v1 test_env test_scan test_folder test_images True test_start) = None"
    by (simp add: run_defs)
  have j: "Join test_env = filepath_Join"
    "Join test_env [Join test_env [test_folder, ''.checkmarx''], ''containers'']
       = ''../../test_files/resolution/.checkmarx/containers''"
    by (simp_all add: test_env_def test_folder_def test_results_folder)
  from v run run1 j
    saved_to_results_folder
      [where env = test_env and scanPath = test_scan and r = test_folder
         and images = test_images and dbg = True and s = test_start and t = test_start
         and q = test_folder,
       OF nested_pair_collapse prod.collapse [symmetric] prod.collapse [symmetric]]
  show ?thesis by (auto simp: prod_eq_iff test_folder_def)
qed

subsection \<open>C2: cleanup after a failure of persistence\<close>

text \<open>
  Claim C2 says that cleanup still runs when \<open>SaveObjectToFile\<close> fails.  It does not:
  \<open>Resolve\<close> returns the error of \<open>SaveObjectToFile\<close> at once.  No directory is deleted,
  and the output directory and the results folder are still there when \<open>Resolve\<close> returns.
\<close>

theorem cleanup_after_save_counterexample:
  "Call_SaveObjectToFile ''../../test_files/resolution/.checkmarx/containers'' test_images
       (Some (Error ''disk full''))
     \<in> set (new_events test_start
           (snd (Resolve env_save_fails test_scan test_folder test_images False test_start)))
   \<and> deletions (new_events test_start
         (snd (Resolve env_save_fails test_scan test_folder test_images False test_start)))
       = []
   \<and> dirs (world
         (snd (Resolve env_save_fails test_scan test_folder test_images False test_start)))
       = [''/output/path'', ''../../test_files/resolution/.checkmarx/containers'',
          ''../../test_files/resolution'', ''../../test_files'']"
  by (simp add: run_defs env_save_fails_def new_events_def)

text \<open>
  Claim C2, amended.  Cleanup is attempted only after persistence has succeeded, in each of
  the three resolvers.  No call of \<open>DeleteDirectory\<close> comes before the call of
  \<open>SaveObjectToFile\<close>.  When \<open>SaveObjectToFile\<close> fails, \<open>Resolve\<close> returns that error at
  once: \<open>DeleteDirectory\<close> is not called, and the world \<open>Resolve\<close> leaves is the world
  \<open>SaveObjectToFile\<close> returned.  When \<open>SaveObjectToFile\<close> succeeds, cleanup runs, and
  these are its calls of \<open>DeleteDirectory\<close>:

  \<^item> in the first resolver of \<open>containerScanner.go\<close> (lines 28 to 130), the output
    directory of \<open>ExtractFiles\<close> if it is not empty and is not the resolution folder, and
    then the folder given to \<open>SaveObjectToFile\<close> if its path is not empty;

  \<^item> in the second resolver of that file (lines 167 to 250), the output directory and then
    the folder given to \<open>SaveObjectToFile\<close> if the output directory is not empty and is
    not the resolution folder and the path of the folder is not empty, and no directory
    otherwise;

  \<^item> in the resolver of \<open>part_000\<close>, the output directory if it is not empty and is not
    the resolution folder.
\<close>

theorem cleanup_only_after_save:
  assumes "Resolve env scanPath r images dbg s = (res, s')"
    and "Resolve_v2 env scanPath r images dbg s = (res2, t')"
    and "Resolve_v1 env scanPath r images dbg s = (res1, u')"
  shows "(Call_SaveObjectToFile p obj (Some e) \<in> set (new_events s s') \<longrightarrow>
            res = Some e \<and> deletions (new_events s s') = []
            \<and> (\<exists>w. SaveObjectToFile env w p obj = (Some e, world s')))
       \<and> (Call_SaveObjectToFile p obj None \<in> set (new_events s s')
            \<and> Call_ExtractFiles q f st out None \<in> set (new_events s s') \<longrightarrow>
            deletions (new_events s s')
              = (if out \<noteq> '''' \<and> out \<noteq> r then [out] else [])
                @ (if p \<noteq> '''' then [p] else []))
       \<and> deletions (takeWhile (\<lambda>ev. \<not> is_Save ev) (new_events s s')) = []
       \<and> (Call_SaveObjectToFile p obj (Some e) \<in> set (new_events s t') \<longrightarrow>
            res2 = Some e \<and> deletions (new_events s t') = []
            \<and> (\<exists>w. SaveObjectToFile env w p obj = (Some e, world t')))
       \<and> (Call_SaveObjectToFile p obj None \<in> set (new_events s t')
            \<and> Call_ExtractFiles q f st out None \<in> set (new_events s t') \<longrightarrow>
            deletions (new_events s t')
              = (if out \<noteq> '''' \<and> out \<noteq> r \<and> p \<noteq> '''' then [out, p] else []))
       \<and> deletions (takeWhile (\<lambda>ev. \<not> is_Save ev) (new_events s t')) = []
       \<and> (Call_SaveObjectToFile p obj (Some e) \<in> set (new_events s u') \<longrightarrow>
            res1 = Some e \<and> deletions (new_events s u') = []
            \<and> (\<exists>w. SaveObjectToFile env w p obj = (Some e, world u')))
       \<and> (Call_SaveObjectToFile p obj None \<in> set (new_events s u')
            \<and> Call_ExtractFiles q f st out None \<in> set (new_events s u') \<longrightarrow>
            deletions (new_events s u') = (if out \<noteq> '''' \<and> out \<noteq> r then [out] else []))
       \<and> deletions (takeWhile (\<lambda>ev. \<not> is_Save ev) (new_events s u')) = []"
proof (intro conjI)
  show "Call_SaveObjectToFile p obj (Some e) \<in> set (new_events s s') \<longrightarrow>
      res = Some e \<and> deletions (new_events s s') = []
      \<and> (\<exists>w. SaveObjectToFile env w p obj = (Some e, world s'))"
    using assms(1)
  proof (cases rule: Resolve_cases)
    case (cleaning cx s1 pre f' st' out' w3 im w4 rr w5 s6 e' s7)
    from cleaning(9) obtain cev where "trace s7 = trace s6 @ cev"
      "\<forall>ev \<in> set cev. is_Delete ev \<or> (\<exists>e msg. ev = Log WarnLevel (Some e) msg)"
      by (rule cleanup_events)
    with cleaning show ?thesis by auto
  next
    case (success cx s1 pre f' st' out' w3 im w4 rr w5 s6)
    from success(9) obtain cev where "trace s' = trace s6 @ cev"
      "\<forall>ev \<in> set cev. is_Delete ev \<or> (\<exists>e msg. ev = Log WarnLevel (Some e) msg)"
      by (rule cleanup_events)
    with success show ?thesis by auto
  qed (auto simp: silent_deletions)
  show "Call_SaveObjectToFile p obj None \<in> set (new_events s s')
      \<and> Call_ExtractFiles q f st out None \<in> set (new_events s s') \<longrightarrow>
      deletions (new_events s s')
        = (if out \<noteq> '''' \<and> out \<noteq> r then [out] else []) @ (if p \<noteq> '''' then [p] else [])"
    using assms(1)
  proof (cases rule: Resolve_cases)
    case (cleaning cx s1 pre f' st' out' w3 im w4 rr w5 s6 e' s7)
    from cleaning(9) obtain cev where "trace s7 = trace s6 @ cev"
      "deletions cev = (if out' \<noteq> '''' \<and> out' \<noteq> r then [out'] else [])
         @ (if cx \<noteq> '''' then [cx] else [])"
      "\<forall>ev \<in> set cev. is_Delete ev \<or> (\<exists>e msg. ev = Log WarnLevel (Some e) msg)"
      by (rule cleanup_events)
    with cleaning show ?thesis by (auto simp: silent_deletions)
  next
    case (success cx s1 pre f' st' out' w3 im w4 rr w5 s6)
    from success(9) obtain cev where "trace s' = trace s6 @ cev"
      "deletions cev = (if out' \<noteq> '''' \<and> out' \<noteq> r then [out'] else [])
         @ (if cx \<noteq> '''' then [cx] else [])"
      "\<forall>ev \<in> set cev. is_Delete ev \<or> (\<exists>e msg. ev = Log WarnLevel (Some e) msg)"
      by (rule cleanup_events)
    with success show ?thesis by (auto simp: silent_deletions)
  qed auto
  show "deletions (takeWhile (\<lambda>ev. \<not> is_Save ev) (new_events s s')) = []"
    using assms(1)
  proof (cases rule: Resolve_cases)
    case (cleaning cx s1 pre f' st' out' w3 im w4 rr w5 s6 e' s7)
    from cleaning(9) obtain cev where "trace s7 = trace s6 @ cev"
      by (rule cleanup_events)
    with cleaning show ?thesis
      by (simp add: takeWhile_not_Save_silent silent_deletions)
  next
    case (success cx s1 pre f' st' out' w3 im w4 rr w5 s6)
    from success(9) obtain cev where "trace s' = trace s6 @ cev"
      by (rule cleanup_events)
    with success show ?thesis
      by (simp add: takeWhile_not_Save_silent silent_deletions)
  qed (simp_all add: takeWhile_not_Save_silent silent_deletions)
  show "Call_SaveObjectToFile p obj (Some e) \<in> set (new_events s t') \<longrightarrow>
      res2 = Some e \<and> deletions (new_events s t') = []
      \<and> (\<exists>w. SaveObjectToFile env w p obj = (Some e, world t'))"
    using assms(2)
  proof (cases rule: Resolve_v2_cases)
    case (cleaning cx s1 pre f' st' out' w3 im w4 rr w5 s6 e' s7)
    from cleaning(9) obtain cev where "trace s7 = trace s6 @ cev" "\<forall>ev \<in> set cev. is_Delete ev"
      by (rule cleanup_v2_events)
    with cleaning show ?thesis by auto
  next
    case (success cx s1 pre f' st' out' w3 im w4 rr w5 s6)
    from success(9) obtain cev where "trace t' = trace s6 @ cev" "\<forall>ev \<in> set cev. is_Delete ev"
      by (rule cleanup_v2_events)
    with success show ?thesis by auto
  qed (auto simp: silent_deletions)
  show "Call_SaveObjectToFile p obj None \<in> set (new_events s t')
      \<and> Call_ExtractFiles q f st out None \<in> set (new_events s t') \<longrightarrow>
      deletions (new_events s t')
        = (if out \<noteq> '''' \<and> out \<noteq> r \<and> p \<noteq> '''' then [out, p] else [])"
    using assms(2)
  proof (cases rule: Resolve_v2_cases)
    case (cleaning cx s1 pre f' st' out' w3 im w4 rr w5 s6 e' s7)
    from cleaning(9) obtain cev where "trace s7 = trace s6 @ cev"
      "deletions cev = (if out' \<noteq> '''' \<and> out' \<noteq> r \<and> cx \<noteq> '''' then [out', cx] else [])"
      "\<forall>ev \<in> set cev. is_Delete ev"
      by (rule cleanup_v2_events)
    with cleaning show ?thesis by (auto simp: silent_deletions)
  next
    case (success cx s1 pre f' st' out' w3 im w4 rr w5 s6)
    from success(9) obtain cev where "trace t' = trace s6 @ cev"
      "deletions cev = (if out' \<noteq> '''' \<and> out' \<noteq> r \<and> cx \<noteq> '''' then [out', cx] else [])"
      "\<forall>ev \<in> set cev. is_Delete ev"
      by (rule cleanup_v2_events)
    with success show ?thesis by (auto simp: silent_deletions)
  qed auto
  show "deletions (takeWhile (\<lambda>ev. \<not> is_Save ev) (new_events s t')) = []"
    using assms(2)
  proof (cases rule: Resolve_v2_cases)
    case (cleaning cx s1 pre f' st' out' w3 im w4 rr w5 s6 e' s7)
    from cleaning(9) obtain cev where "trace s7 = trace s6 @ cev"
      by (rule cleanup_v2_events)
    with cleaning show ?thesis
      by (simp add: takeWhile_not_Save_silent silent_deletions)
  next
    case (success cx s1 pre f' st' out' w3 im w4 rr w5 s6)
    from success(9) obtain cev where "trace t' = trace s6 @ cev"
      by (rule cleanup_v2_events)
    with success show ?thesis
      by (simp add: takeWhile_not_Save_silent silent_deletions)
  qed (simp_all add: takeWhile_not_Save_silent silent_deletions)
  show "Call_SaveObjectToFile p obj (Some e) \<in> set (new_events s u') \<longrightarrow>
      res1 = Some e \<and> deletions (new_events s u') = []
      \<and> (\<exists>w. SaveObjectToFile env w p obj = (Some e, world u'))"
    using assms(3)
  proof (cases rule: Resolve_v1_cases)
    case (cleaning ok pre w1 f' st' out' w3 im w4 rr w5 s6 e' s7)
    from cleaning(8) show ?thesis
      by (cases rule: cleanup_v1_cases) (use cleaning in auto)
  next
    case (success ok pre w1 f' st' out' w3 im w4 rr w5 s6)
    from success(8) show ?thesis
      by (cases rule: cleanup_v1_cases) (use success in auto)
  qed auto
  show "Call_SaveObjectToFile p obj None \<in> set (new_events s u')
      \<and> Call_ExtractFiles q f st out None \<in> set (new_events s u') \<longrightarrow>
      deletions (new_events s u') = (if out \<noteq> '''' \<and> out \<noteq> r then [out] else [])"
    using assms(3)
  proof (cases rule: Resolve_v1_cases)
    case (cleaning ok pre w1 f' st' out' w3 im w4 rr w5 s6 e' s7)
    from cleaning(8) show ?thesis
      by (cases rule: cleanup_v1_cases) (use cleaning in auto)
  next
    case (success ok pre w1 f' st' out' w3 im w4 rr w5 s6)
    from success(8) show ?thesis
      by (cases rule: cleanup_v1_cases) (use success in auto)
  qed auto
  show "deletions (takeWhile (\<lambda>ev. \<not> is_Save ev) (new_events s u')) = []"
    using assms(3)
  proof (cases rule: Resolve_v1_cases)
    case (cleaning ok pre w1 f' st' out' w3 im w4 rr w5 s6 e' s7)
    from cleaning(8) show ?thesis
      by (cases rule: cleanup_v1_cases) (use cleaning in auto)
  next
    case (success ok pre w1 f' st' out' w3 im w4 rr w5 s6)
    from success(8) show ?thesis
      by (cases rule: cleanup_v1_cases) (use success in auto)
  qed auto
qed

theorem cleanup_only_after_save_witness:
  "Call_SaveObjectToFile ''../../test_files/resolution/.checkmarx/containers'' test_images
       (Some (Error ''disk full''))
     \<in> set (new_events test_start
           (snd (Resolve env_save_fails test_scan test_folder test_images False test_start)))
   \<and> fst (Resolve env_save_fails test_scan test_folder test_images False test_start)
       = Some (Error ''disk full'')
   \<and> deletions (new_events test_start
         (snd (Resolve env_save_fails test_scan test_folder test_images False test_start)))
       = []
   \<and> Call_SaveObjectToFile ''../../test_files/resolution/.checkmarx/containers'' test_images
       (Some (Error ''disk full''))
     \<in> set (new_events test_start
           (snd (Resolve_v2 env_save_fails test_scan test_folder test_images False
                  test_start)))
   \<and> fst (Resolve_v2 env_save_fails test_scan test_folder test_images False test_start)
       = Some (Error ''disk full'')
   \<and> deletions (new_events test_start
         (snd (Resolve_v2 env_save_fails test_scan test_folder test_images False test_start)))
       = []
   \<and> Call_SaveObjectToFile test_folder test_images (Some (Error ''disk full''))
     \<in> set (new_events test_start
           (snd (Resolve_v1 env_save_fails test_scan test_folder test_images False
                  test_start)))
   \<and> fst (Resolve_v1 env_save_fails test_scan test_folder test_images False test_start)
       = Some (Error ''disk full'')
   \<and> deletions (new_events test_start
         (snd (Resolve_v1 env_save_fails test_scan test_folder test_images False test_start)))
       = []
   \<and> Call_SaveObjectToFile ''../../test_files/resolution/.checkmarx/containers'' test_images
       None
     \<in> set (new_events test_start
           (snd (Resolve test_env test_scan test_folder test_images False test_start)))
   \<and> Call_ExtractFiles test_scan [''Dockerfile''] [''settings.json''] ''/output/path'' None
     \<in> set (new_events test_start
           (snd (Resolve test_env test_scan test_folder test_images False test_start)))
   \<and> deletions (new_events test_start
         (snd (Resolve test_env test_scan test_folder test_images False test_start)))
       = [''/output/path'', ''../../test_files/resolution/.checkmarx/containers'']
   \<and> Call_SaveObjectToFile ''../../test_files/resolution/.checkmarx/containers'' test_images
       None
     \<in> set (new_events test_start
           (snd (Resolve_v2 test_env test_scan test_folder test_images False test_start)))
   \<and> Call_ExtractFiles test_scan [''Dockerfile''] [''settings.json''] ''/output/path'' None
     \<in> set (new_events test_start
           (snd (Resolve_v2 test_env test_scan test_folder test_images False test_start)))
   \<and> deletions (new_events test_start
         (snd (Resolve_v2 test_env test_scan test_folder test_images False test_start)))
       = [''/output/path'', ''../../test_files/resolution/.checkmarx/containers'']
   \<and> Call_SaveObjectToFile test_folder test_images None
     \<in> set (new_events test_start
           (snd (Resolve_v1 test_env test_scan test_folder test_images False test_start)))
   \<and> Call_ExtractFiles test_scan [''Dockerfile''] [''settings.json''] ''/output/path'' None
     \<in> set (new_events test_start
           (snd (Resolve_v1 test_env test_scan test_folder test_images False test_start)))
   \<and> deletions (new_events test_start
         (snd (Resolve_v1 test_env test_scan test_folder test_images False test_start)))
       = [''/output/path'']
   \<and> Call_SaveObjectToFile ''../../test_files/resolution/.checkmarx/containers'' test_images
       None
     \<in> set (new_events test_start
           (snd (Resolve_v2 env_output_in_place test_scan test_folder test_images False
                  test_start)))
   \<and> Call_ExtractFiles test_scan [''Dockerfile''] [''settings.json'']
       ''../../test_files/resolution'' None
     \<in> set (new_events test_start
           (snd (Resolve_v2 env_output_in_place test_scan test_folder test_images False
                  test_start)))
   \<and> deletions (new_events test_start
         (snd (Resolve_v2 env_output_in_place test_scan test_folder test_images False
                test_start)))
       = []
   \<and> deletions (new_events test_start
         (snd (Resolve env_output_in_place test_scan test_folder test_images False
                test_start)))
       = [''../../test_files/resolution/.checkmarx/containers'']"
proof -
  have in_place: "Call_SaveObjectToFile ''../../test_files/resolution/.checkmarx/containers''
       test_images None
     \<in> set (new_events test_start
           (snd (Resolve_v2 env_output_in_place test_scan test_folder test_images False
                  test_start)))"
    "Call_ExtractFiles test_scan [''Dockerfile''] [''settings.json'']
       ''../../test_files/resolution'' None
     \<in> set (new_events test_start
           (snd (Resolve_v2 env_output_in_place test_scan test_folder test_images False
                  test_start)))"
    "Call_SaveObjectToFile ''../../test_files/resolution/.checkmarx/containers''
       test_images None
     \<in> set (new_events test_start
           (snd (Resolve env_output_in_place test_scan test_folder test_images False
                  test_start)))"
    "Call_ExtractFiles test_scan [''Dockerfile''] [''settings.json'']
       ''../../test_files/resolution'' None
     \<in> set (new_events test_start
           (snd (Resolve env_output_in_place test_scan test_folder test_images False
                  test_start)))"
    by (simp_all add: run_defs run_v2_defs env_output_in_place_def new_events_def)
  note e = cleanup_only_after_save
      [where env = env_output_in_place and scanPath = test_scan and r = test_folder
         and images = test_images and dbg = False and s = test_start
         and p = "''../../test_files/resolution/.checkmarx/containers''" and obj = test_images
         and q = test_scan and f = "[''Dockerfile'']" and st = "[''settings.json'']"
         and out = "''../../test_files/resolution''",
       OF prod.collapse [symmetric] prod.collapse [symmetric] prod.collapse [symmetric]]
  have failing: "Call_SaveObjectToFile ''../../test_files/resolution/.checkmarx/containers''
       test_images (Some (Error ''disk full''))
     \<in> set (new_events test_start
           (snd (Resolve env_save_fails test_scan test_folder test_images False test_start)))"
    "Call_SaveObjectToFile ''../../test_files/resolution/.checkmarx/containers''
       test_images (Some (Error ''disk full''))
     \<in> set (new_events test_start
           (snd (Resolve_v2 env_save_fails test_scan test_folder test_images False
                  test_start)))"
    "Call_SaveObjectToFile test_folder test_images (Some (Error ''disk full''))
     \<in> set (new_events test_start
           (snd (Resolve_v1 env_save_fails test_scan test_folder test_images False
                  test_start)))"
    by (simp_all add: run_defs run_v2_defs env_save_fails_def new_events_def)
  have saving: "Call_SaveObjectToFile ''../../test_files/resolution/.checkmarx/containers''
       test_images None
     \<in> set (new_events test_start
           (snd (Resolve test_env test_scan test_folder test_images False test_start)))"
    "Call_ExtractFiles test_scan [''Dockerfile''] [''settings.json''] ''/output/path'' None
     \<in> set (new_events test_start
           (snd (Resolve test_env test_scan test_folder test_images False test_start)))"
    "Call_SaveObjectToFile ''../../test_files/resolution/.checkmarx/containers''
       test_images None
     \<in> set (new_events test_start
           (snd (Resolve_v2 test_env test_scan test_folder test_images False test_start)))"
    "Call_ExtractFiles test_scan [''Dockerfile''] [''settings.json''] ''/output/path'' None
     \<in> set (new_events test_start
           (snd (Resolve_v2 test_env test_scan test_folder test_images False test_start)))"
    "Call_SaveObjectToFile test_folder test_images None
     \<in> set (new_events test_start
           (snd (Resolve_v1 test_env test_scan test_folder test_images False test_start)))"
    "Call_ExtractFiles test_scan [''Dockerfile''] [''settings.json''] ''/output/path'' None
     \<in> set (new_events test_start
           (snd (Resolve_v1 test_env test_scan test_folder test_images False test_start)))"
    by (simp_all add: run_defs run_v2_defs new_events_def)
  note a = cleanup_only_after_save
      [where env = env_save_fails and scanPath = test_scan and r = test_folder
         and images = test_images and dbg = False and s = test_start
         and p = "''../../test_files/resolution/.checkmarx/containers''" and obj = test_images
         and e = "Error ''disk full''",
       OF prod.collapse [symmetric] prod.collapse [symmetric] prod.collapse [symmetric]]
  note b = cleanup_only_after_save
      [where env = env_save_fails and scanPath = test_scan and r = test_folder
         and images = test_images and dbg = False and s = test_start
         and p = test_folder and obj = test_images and e = "Error ''disk full''",
       OF prod.collapse [symmetric] prod.collapse [symmetric] prod.collapse [symmetric]]
  note c = cleanup_only_after_save
      [where env = test_env and scanPath = test_scan and r = test_folder
         and images = test_images and dbg = False and s = test_start
         and p = "''../../test_files/resolution/.checkmarx/containers''" and obj = test_images
         and q = test_scan and f = "[''Dockerfile'']" and st = "[''settings.json'']"
         and out = "''/output/path''",
       OF prod.collapse [symmetric] prod.collapse [symmetric] prod.collapse [symmetric]]
  note d = cleanup_only_after_save
      [where env = test_env and scanPath = test_scan and r = test_folder
         and images = test_images and dbg = False and s = test_start
         and p = test_folder and obj = test_images
         and q = test_scan and f = "[''Dockerfile'']" and st = "[''settings.json'']"
         and out = "''/output/path''",
       OF prod.collapse [symmetric] prod.collapse [symmetric] prod.collapse [symmetric]]
  from failing saving in_place a b c d e show ?thesis
    by (simp add: test_folder_def)
qed

subsection \<open>C10: what \<open>cleanup\<close> returns\<close>

text \<open>
  Claim C10.  In the richer variant, the first resolver of \<open>containerScanner.go\<close> (lines
  108 to 130), \<open>cleanup\<close> returns exactly the error of the deletion of the output
  directory: the error \<open>DeleteDirectory\<close> returns for the output directory when that
  deletion is attempted, and \<open>nil\<close> when it is not.  The deletion of the results folder
  takes place in the world the first deletion left; when it fails, the last thing
  \<open>cleanup\<close> does is log the warning with that error, and the error is not returned,
  whatever the first deletion did.  A warning for the results folder is logged in no other
  case.
\<close>

theorem cleanup_returns_output_error:
  assumes "cleanup env orig out cx s = (err, s')"
  shows "err = (if out \<noteq> '''' \<and> out \<noteq> orig then fst (DeleteDirectory env (world s) out)
                else None)
       \<and> (cx \<noteq> '''' \<and>
            fst (DeleteDirectory env
                  (if out \<noteq> '''' \<and> out \<noteq> orig then snd (DeleteDirectory env (world s) out)
                   else world s) cx) = Some e \<longrightarrow>
            last (new_events s s')
              = Log WarnLevel (Some e)
                  ''Could not delete containers directory inside .checkmarx folder'')
       \<and> (warned ''Could not delete containers directory inside .checkmarx folder''
             (new_events s s') \<longleftrightarrow>
            cx \<noteq> '''' \<and>
            fst (DeleteDirectory env
                  (if out \<noteq> '''' \<and> out \<noteq> orig then snd (DeleteDirectory env (world s) out)
                   else world s) cx) \<noteq> None)"
  using assms by (cases rule: cleanup_cases) auto

theorem cleanup_returns_output_error_witness:
  "fst (cleanup env_results_stay test_folder ''/output/path''
         ''../../test_files/resolution/.checkmarx/containers'' test_start) = None
   \<and> last (new_events test_start
        (snd (cleanup env_results_stay test_folder ''/output/path''
               ''../../test_files/resolution/.checkmarx/containers'' test_start)))
       = Log WarnLevel (Some (Error ''directory in use''))
           ''Could not delete containers directory inside .checkmarx folder''
   \<and> fst (cleanup env_delete_fails test_folder ''/output/path''
         ''../../test_files/resolution/.checkmarx/containers'' test_start)
       = Some (Error ''directory in use'')
   \<and> warned ''Could not delete containers directory inside .checkmarx folder''
        (new_events test_start
          (snd (cleanup env_delete_fails test_folder ''/output/path''
                 ''../../test_files/resolution/.checkmarx/containers'' test_start)))"
proof -
  note a = cleanup_returns_output_error
      [where env = env_results_stay and orig = test_folder and out = "''/output/path''"
         and cx = "''../../test_files/resolution/.checkmarx/containers''" and s = test_start
         and e = "Error ''directory in use''",
       OF prod.collapse [symmetric]]
  note b = cleanup_returns_output_error
      [where env = env_delete_fails and orig = test_folder and out = "''/output/path''"
         and cx = "''../../test_files/resolution/.checkmarx/containers''" and s = test_start
         and e = "Error ''directory in use''",
       OF prod.collapse [symmetric]]
  from a b show ?thesis
    by (simp add: env_results_stay_def env_delete_fails_def test_env_def test_start_def
          test_folder_def)
qed

subsection \<open>C7: what \<open>cleanup\<close> deletes\<close>




subsection \<open>C4: a failure of cleanup after a success\<close>

text \<open>
  Claim C4 says that \<open>Resolve\<close> returns \<open>nil\<close> when all four collaborator calls succeeded,
  even when a deletion of cleanup fails.  It fails for the deletion of the output
  directory: \<open>cleanup\<close> returns that error (as its comment says) and \<open>Resolve\<close> returns it.
  Here the four calls succeed, the output directory cannot be deleted, and \<open>Resolve\<close>
  returns the error of that deletion.
\<close>

theorem cleanup_failure_counterexample:
  "collaborator_results (new_events test_start
       (snd (Resolve env_output_stays test_scan test_folder test_images False test_start)))
     = [None, None, None, None]
   \<and> deletion_failures (new_events test_start
       (snd (Resolve env_output_stays test_scan test_folder test_images False test_start)))
     = [(''/output/path'', Error ''directory in use'')]
   \<and> fst (Resolve env_output_stays test_scan test_folder test_images False test_start)
       = Some (Error ''directory in use'')"
  by (simp add: run_defs env_output_stays_def new_events_def)

text \<open>
  Claim C4, amended.  In the first resolver of \<open>containerScanner.go\<close> (lines 28 to 130), a
  failure to delete the results folder never overrides a prior success: when all four
  collaborator calls succeeded, \<open>Resolve\<close> returns \<open>nil\<close> if and only if no failure of the
  deletion of the output directory was logged, whether or not the deletion of the results
  folder failed.  A failure to delete the output directory is returned by \<open>Resolve\<close>.
  In this resolver every deletion that fails is logged as a warning with its error.  In
  the second resolver of that file (lines 167 to 250) and in the resolver of \<open>part_000\<close>,
  when all four calls succeeded, \<open>Resolve\<close> returns \<open>nil\<close> if no deletion failed, and
  otherwise the error of the first deletion that failed (\<open>part_000\<close> makes one deletion
  at most).
\<close>

theorem results_cleanup_failure_is_not_returned:
  assumes "Resolve env scanPath r images dbg s = (res, s')"
    and "Resolve_v2 env scanPath r images dbg s = (res2, t')"
    and "Resolve_v1 env scanPath r images dbg s = (res1, u')"
  shows "(collaborator_results (new_events s s') = [None, None, None, None] \<longrightarrow>
            (res = None \<longleftrightarrow>
               \<not> warned ''Could not delete output directory'' (new_events s s'))
            \<and> (Log WarnLevel (Some e) ''Could not delete output directory''
                  \<in> set (new_events s s') \<longrightarrow> res = Some e))
       \<and> ((p, e) \<in> set (deletion_failures (new_events s s')) \<longrightarrow>
            Log WarnLevel (Some e) ''Could not delete output directory''
              \<in> set (new_events s s')
            \<or> Log WarnLevel (Some e)
                 ''Could not delete containers directory inside .checkmarx folder''
              \<in> set (new_events s s'))
       \<and> (collaborator_results (new_events s t') = [None, None, None, None] \<longrightarrow>
            (deletion_failures (new_events s t') = [] \<longrightarrow> res2 = None)
            \<and> (deletion_failures (new_events s t') \<noteq> [] \<longrightarrow>
                 res2 = Some (snd (hd (deletion_failures (new_events s t'))))))
       \<and> (collaborator_results (new_events s u') = [None, None, None, None] \<longrightarrow>
            (deletion_failures (new_events s u') = [] \<longrightarrow> res1 = None)
            \<and> (deletion_failures (new_events s u') \<noteq> [] \<longrightarrow>
                 res1 = Some (snd (hd (deletion_failures (new_events s u'))))))"
proof (intro conjI)
  show "collaborator_results (new_events s s') = [None, None, None, None] \<longrightarrow>
      (res = None \<longleftrightarrow> \<not> warned ''Could not delete output directory'' (new_events s s'))
      \<and> (Log WarnLevel (Some e) ''Could not delete output directory''
            \<in> set (new_events s s') \<longrightarrow> res = Some e)"
    using assms(1)
  proof (cases rule: Resolve_cases)
    case (cleaning cx s1 pre f st out w3 im w4 rr w5 s6 e' s7)
    from cleaning(9) show ?thesis
      by (cases rule: cleanup_cases) (use cleaning in \<open>auto simp: silent_warned\<close>)
  next
    case (success cx s1 pre f st out w3 im w4 rr w5 s6)
    from success(9) show ?thesis
      by (cases rule: cleanup_cases) (use success in \<open>auto simp: silent_warned\<close>)
  qed (auto simp: silent_results)
  show "(p, e) \<in> set (deletion_failures (new_events s s')) \<longrightarrow>
      Log WarnLevel (Some e) ''Could not delete output directory'' \<in> set (new_events s s')
      \<or> Log WarnLevel (Some e) ''Could not delete containers directory inside .checkmarx folder''
        \<in> set (new_events s s')"
    using assms(1)
  proof (cases rule: Resolve_cases)
    case (cleaning cx s1 pre f st out w3 im w4 rr w5 s6 e' s7)
    from cleaning(9) show ?thesis
      by (cases rule: cleanup_cases)
         (use cleaning in \<open>auto simp: silent_deletion_failures\<close>)
  next
    case (success cx s1 pre f st out w3 im w4 rr w5 s6)
    from success(9) show ?thesis
      by (cases rule: cleanup_cases)
         (use success in \<open>auto simp: silent_deletion_failures\<close>)
  qed (auto simp: silent_deletion_failures)
  show "collaborator_results (new_events s t') = [None, None, None, None] \<longrightarrow>
      (deletion_failures (new_events s t') = [] \<longrightarrow> res2 = None)
      \<and> (deletion_failures (new_events s t') \<noteq> [] \<longrightarrow>
           res2 = Some (snd (hd (deletion_failures (new_events s t')))))"
    using assms(2)
  proof (cases rule: Resolve_v2_cases)
    case (cleaning cx s1 pre f st out w3 im w4 rr w5 s6 e' s7)
    from cleaning(9) show ?thesis
      by (cases rule: cleanup_v2_cases)
         (use cleaning in \<open>auto simp: silent_deletion_failures split: if_splits\<close>)
  next
    case (success cx s1 pre f st out w3 im w4 rr w5 s6)
    from success(9) show ?thesis
      by (cases rule: cleanup_v2_cases)
         (use success in \<open>auto simp: silent_deletion_failures split: if_splits\<close>)
  qed (auto simp: silent_results)
  show "collaborator_results (new_events s u') = [None, None, None, None] \<longrightarrow>
      (deletion_failures (new_events s u') = [] \<longrightarrow> res1 = None)
      \<and> (deletion_failures (new_events s u') \<noteq> [] \<longrightarrow>
           res1 = Some (snd (hd (deletion_failures (new_events s u')))))"
    using assms(3)
  proof (cases rule: Resolve_v1_cases)
    case (cleaning ok pre w1 f st out w3 im w4 rr w5 s6 e' s7)
    from cleaning(8) show ?thesis
      by (cases rule: cleanup_v1_cases) (use cleaning in auto)
  next
    case (success ok pre w1 f st out w3 im w4 rr w5 s6)
    from success(8) show ?thesis
      by (cases rule: cleanup_v1_cases) (use success in auto)
  qed auto
qed

theorem results_cleanup_failure_is_not_returned_witness:
  "collaborator_results (new_events test_start
       (snd (Resolve env_results_stay test_scan test_folder test_images False test_start)))
     = [None, None, None, None]
   \<and> \<not> warned ''Could not delete output directory'' (new_events test_start
       (snd (Resolve env_results_stay test_scan test_folder test_images False test_start)))
   \<and> (''../../test_files/resolution/.checkmarx/containers'', Error ''directory in use'')
       \<in> set (deletion_failures (new_events test_start
         (snd (Resolve env_results_stay test_scan test_folder test_images False test_start))))
   \<and> Log WarnLevel (Some (Error ''directory in use''))
         ''Could not delete containers directory inside .checkmarx folder''
       \<in> set (new_events test_start
         (snd (Resolve env_results_stay test_scan test_folder test_images False test_start)))
   \<and> fst (Resolve env_results_stay test_scan test_folder test_images False test_start) = None
   \<and> collaborator_results (new_events test_start
       (snd (Resolve env_output_stays test_scan test_folder test_images False test_start)))
     = [None, None, None, None]
   \<and> Log WarnLevel (Some (Error ''directory in use'')) ''Could not delete output directory''
       \<in> set (new_events test_start
         (snd (Resolve env_output_stays test_scan test_folder test_images False test_start)))
   \<and> fst (Resolve env_output_stays test_scan test_folder test_images False test_start)
       = Some (Error ''directory in use'')
   \<and> collaborator_results (new_events test_start
       (snd (Resolve_v2 env_results_stay test_scan test_folder test_images False test_start)))
     = [None, None, None, None]
   \<and> deletion_failures (new_events test_start
       (snd (Resolve_v2 env_results_stay test_scan test_folder test_images False test_start)))
     = [(''../../test_files/resolution/.checkmarx/containers'', Error ''directory in use'')]
   \<and> fst (Resolve_v2 env_results_stay test_scan test_folder test_images False test_start)
       = Some (Error ''directory in use'')
   \<and> collaborator_results (new_events test_start
       (snd (Resolve_v2 test_env test_scan test_folder test_images False test_start)))
     = [None, None, None, None]
   \<and> deletion_failures (new_events test_start
       (snd (Resolve_v2 test_env test_scan test_folder test_images False test_start))) = []
   \<and> fst (Resolve_v2 test_env test_scan test_folder test_images False test_start) = None
   \<and> collaborator_results (new_events test_start
       (snd (Resolve_v1 env_output_stays test_scan test_folder test_images False test_start)))
     = [None, None, None, None]
   \<and> deletion_failures (new_events test_start
       (snd (Resolve_v1 env_output_stays test_scan test_folder test_images False test_start)))
     = [(''/output/path'', Error ''directory in use'')]
   \<and> fst (Resolve_v1 env_output_stays test_scan test_folder test_images False test_start)
       = Some (Error ''directory in use'')
   \<and> collaborator_results (new_events test_start
       (snd (Resolve_v1 env_results_stay test_scan test_folder test_images False test_start)))
     = [None, None, None, None]
   \<and> deletion_failures (new_events test_start
       (snd (Resolve_v1 env_results_stay test_scan test_folder test_images False test_start)))
     = []
   \<and> fst (Resolve_v1 env_results_stay test_scan test_folder test_images False test_start)
       = None"
proof -
  have stay: "collaborator_results (new_events test_start
       (snd (Resolve env_results_stay test_scan test_folder test_images False test_start)))
     = [None, None, None, None]"
    "\<not> warned ''Could not delete output directory'' (new_events test_start
       (snd (Resolve env_results_stay test_scan test_folder test_images False test_start)))"
    "(''../../test_files/resolution/.checkmarx/containers'', Error ''directory in use'')
       \<in> set (deletion_failures (new_events test_start
         (snd (Resolve env_results_stay test_scan test_folder test_images False test_start))))"
    "Log WarnLevel (Some (Error ''directory in use'')) ''Could not delete output directory''
       \<notin> set (new_events test_start
         (snd (Resolve env_results_stay test_scan test_folder test_images False test_start)))"
    "collaborator_results (new_events test_start
       (snd (Resolve_v2 env_results_stay test_scan test_folder test_images False test_start)))
     = [None, None, None, None]"
    "deletion_failures (new_events test_start
       (snd (Resolve_v2 env_results_stay test_scan test_folder test_images False test_start)))
     = [(''../../test_files/resolution/.checkmarx/containers'', Error ''directory in use'')]"
    "collaborator_results (new_events test_start
       (snd (Resolve_v1 env_results_stay test_scan test_folder test_images False test_start)))
     = [None, None, None, None]"
    "deletion_failures (new_events test_start
       (snd (Resolve_v1 env_results_stay test_scan test_folder test_images False test_start)))
     = []"
    by (simp_all add: run_defs run_v2_defs env_results_stay_def new_events_def)
  have out: "collaborator_results (new_events test_start
       (snd (Resolve env_output_stays test_scan test_folder test_images False test_start)))
     = [None, None, None, None]"
    "Log WarnLevel (Some (Error ''directory in use'')) ''Could not delete output directory''
       \<in> set (new_events test_start
         (snd (Resolve env_output_stays test_scan test_folder test_images False test_start)))"
    "collaborator_results (new_events test_start
       (snd (Resolve_v1 env_output_stays test_scan test_folder test_images False test_start)))
     = [None, None, None, None]"
    "deletion_failures (new_events test_start
       (snd (Resolve_v1 env_output_stays test_scan test_folder test_images False test_start)))
     = [(''/output/path'', Error ''directory in use'')]"
    by (simp_all add: run_defs env_output_stays_def new_events_def)
  have fine: "collaborator_results (new_events test_start
       (snd (Resolve_v2 test_env test_scan test_folder test_images False test_start)))
     = [None, None, None, None]"
    "deletion_failures (new_events test_start
       (snd (Resolve_v2 test_env test_scan test_folder test_images False test_start))) = []"
    by (simp_all add: run_defs run_v2_defs new_events_def)
  note a = results_cleanup_failure_is_not_returned
      [where env = env_results_stay and scanPath = test_scan and r = test_folder
         and images = test_images and dbg = False and s = test_start
         and p = "''../../test_files/resolution/.checkmarx/containers''"
         and e = "Error ''directory in use''",
       OF prod.collapse [symmetric] prod.collapse [symmetric] prod.collapse [symmetric]]
  note b = results_cleanup_failure_is_not_returned
      [where env = env_output_stays and scanPath = test_scan and r = test_folder
         and images = test_images and dbg = False and s = test_start
         and p = "''/output/path''" and e = "Error ''directory in use''",
       OF prod.collapse [symmetric] prod.collapse [symmetric] prod.collapse [symmetric]]
  note c = results_cleanup_failure_is_not_returned
      [where env = test_env and scanPath = test_scan and r = test_folder
         and images = test_images and dbg = False and s = test_start,
       OF prod.collapse [symmetric] prod.collapse [symmetric] prod.collapse [symmetric]]
  from stay out fine a b c show ?thesis by auto
qed

subsection \<open>C3: success of \<open>Resolve\<close>\<close>

text \<open>
  Claim C3 says that \<open>Resolve\<close> returns no error if and only if all four collaborator calls
  succeed, and that the results folder is gone after a run without error.  Both parts
  fail.  When the output directory cannot be deleted, all four calls have succeeded and
  \<open>Resolve\<close> returns the error of the deletion.  When the results folder cannot be
  deleted, \<open>Resolve\<close> returns no error and the results folder is still there.
\<close>

theorem success_iff_counterexample:
  "Call_IsValidFolderPath test_folder True None \<in> set (new_events test_start
       (snd (Resolve env_output_stays test_scan test_folder test_images False test_start)))
   \<and> Call_IsValidFolderPath test_folder True None \<in> set (new_events test_start
       (snd (Resolve env_results_stay test_scan test_folder test_images False test_start)))
   \<and> collaborator_results (new_events test_start
       (snd (Resolve env_output_stays test_scan test_folder test_images False test_start)))
     = [None, None, None, None]
   \<and> fst (Resolve env_output_stays test_scan test_folder test_images False test_start)
       \<noteq> None
   \<and> fst (Resolve env_results_stay test_scan test_folder test_images False test_start) = None
   \<and> ''../../test_files/resolution/.checkmarx/containers''
       \<in> set (dirs (world
             (snd (Resolve env_results_stay test_scan test_folder test_images False
                    test_start))))"
  by (simp add: run_defs env_output_stays_def env_results_stay_def new_events_def)

text \<open>
  Claim C3, amended.  Let the folder check report the resolution folder valid.

  \<^item> In the first resolver of \<open>containerScanner.go\<close> (lines 28 to 130), \<open>Resolve\<close> returns
    no error if and only if all four collaborator calls succeed and no failure of the
    deletion of the output directory is logged.  After a run without error, the last call
    of \<open>DeleteDirectory\<close> is the one on the results folder (if its path is not empty); the
    results folder is absent afterwards whenever a successful \<open>DeleteDirectory\<close> leaves
    its directory absent and no failure of that deletion was logged.

  \<^item> In the second resolver of that file (lines 167 to 250), \<open>Resolve\<close> returns no error
    if and only if all four collaborator calls succeed and no call of \<open>DeleteDirectory\<close>
    fails.  After a run without error in which the output directory of \<open>ExtractFiles\<close> is
    not empty and is not the resolution folder, \<open>DeleteDirectory\<close> has been called on the
    output directory and then on the results folder (if its path is not empty), and the
    results folder is absent afterwards whenever a successful \<open>DeleteDirectory\<close> leaves
    its directory absent.

  \<^item> In the resolver of \<open>part_000\<close>, which has no results folder, \<open>Resolve\<close> returns no
    error if and only if all four collaborator calls succeed and no call of
    \<open>DeleteDirectory\<close> fails.
\<close>

theorem success_iff:
  assumes "Resolve env scanPath r images dbg s = (res, s')"
    and "Resolve_v2 env scanPath r images dbg s = (res2, t')"
    and "Resolve_v1 env scanPath r images dbg s = (res1, u')"
  shows "(Call_IsValidFolderPath r True None \<in> set (new_events s s') \<longrightarrow>
            (res = None \<longleftrightarrow>
               collaborator_results (new_events s s') = [None, None, None, None]
               \<and> \<not> warned ''Could not delete output directory'' (new_events s s')))
       \<and> (res = None \<and> Call_IsValidFolderPath r True None \<in> set (new_events s s')
            \<and> Join env [Join env [r, ''.checkmarx''], ''containers''] \<noteq> '''' \<longrightarrow>
            deletions (new_events s s') \<noteq> []
            \<and> last (deletions (new_events s s'))
                = Join env [Join env [r, ''.checkmarx''], ''containers''])
       \<and> ((\<forall>w p w'. DeleteDirectory env w p = (None, w') \<longrightarrow> \<not> present w' p)
            \<and> res = None \<and> Call_IsValidFolderPath r True None \<in> set (new_events s s')
            \<and> Join env [Join env [r, ''.checkmarx''], ''containers''] \<noteq> ''''
            \<and> \<not> warned ''Could not delete containers directory inside .checkmarx folder''
                  (new_events s s') \<longrightarrow>
            \<not> present (world s') (Join env [Join env [r, ''.checkmarx''], ''containers'']))
       \<and> (Call_IsValidFolderPath r True None \<in> set (new_events s t') \<longrightarrow>
            (res2 = None \<longleftrightarrow>
               collaborator_results (new_events s t') = [None, None, None, None]
               \<and> deletion_failures (new_events s t') = []))
       \<and> (res2 = None \<and> Call_IsValidFolderPath r True None \<in> set (new_events s t')
            \<and> Join env [r, ''.checkmarx'', ''containers''] \<noteq> ''''
            \<and> Call_ExtractFiles q f st out None \<in> set (new_events s t')
            \<and> out \<noteq> '''' \<and> out \<noteq> r \<longrightarrow>
            deletions (new_events s t') = [out, Join env [r, ''.checkmarx'', ''containers'']])
       \<and> ((\<forall>w p w'. DeleteDirectory env w p = (None, w') \<longrightarrow> \<not> present w' p)
            \<and> res2 = None \<and> Call_IsValidFolderPath r True None \<in> set (new_events s t')
            \<and> Join env [r, ''.checkmarx'', ''containers''] \<noteq> ''''
            \<and> Call_ExtractFiles q f st out None \<in> set (new_events s t')
            \<and> out \<noteq> '''' \<and> out \<noteq> r \<longrightarrow>
            \<not> present (world t') (Join env [r, ''.checkmarx'', ''containers'']))
       \<and> (Call_IsValidFolderPath r True None \<in> set (new_events s u') \<longrightarrow>
            (res1 = None \<longleftrightarrow>
               collaborator_results (new_events s u') = [None, None, None, None]
               \<and> deletion_failures (new_events s u') = []))"
proof (intro conjI)
  let ?cx = "Join env [Join env [r, ''.checkmarx''], ''containers'']"
  let ?cx2 = "Join env [r, ''.checkmarx'', ''containers'']"
  have iff1: "res = None \<longleftrightarrow>
      collaborator_results (new_events s s') = [None, None, None, None]
      \<and> \<not> warned ''Could not delete output directory'' (new_events s s')"
    using assms(1)
  proof (cases rule: Resolve_cases)
    case (cleaning cx' s1 pre f' st' out' w3 im w4 rr w5 s6 e' s7)
    from cleaning(9) show ?thesis
      by (cases rule: cleanup_cases) (use cleaning in \<open>auto simp: silent_results\<close>)
  next
    case (success cx' s1 pre f' st' out' w3 im w4 rr w5 s6)
    from success(9) show ?thesis
      by (cases rule: cleanup_cases)
         (use success in \<open>auto simp: silent_results silent_warned\<close>)
  qed (auto simp: silent_results)
  then show "Call_IsValidFolderPath r True None \<in> set (new_events s s') \<longrightarrow>
      (res = None \<longleftrightarrow>
         collaborator_results (new_events s s') = [None, None, None, None]
         \<and> \<not> warned ''Could not delete output directory'' (new_events s s'))"
    by simp
  show "res = None \<and> Call_IsValidFolderPath r True None \<in> set (new_events s s')
      \<and> ?cx \<noteq> '''' \<longrightarrow>
      deletions (new_events s s') \<noteq> [] \<and> last (deletions (new_events s s')) = ?cx"
    using assms(1)
  proof (cases rule: Resolve_cases)
    case (success cx' s1 pre f' st' out' w3 im w4 rr w5 s6)
    from success(9) obtain cev where cev: "trace s' = trace s6 @ cev"
      "deletions cev = (if out' \<noteq> '''' \<and> out' \<noteq> r then [out'] else [])
         @ (if cx' \<noteq> '''' then [cx'] else [])"
      "\<forall>ev \<in> set cev. is_Delete ev \<or> (\<exists>e msg. ev = Log WarnLevel (Some e) msg)"
      by (rule cleanup_events)
    from success(1) show ?thesis
      by (cases rule: validate_cases) (use success cev in \<open>auto simp: silent_deletions\<close>)
  qed auto
  show "(\<forall>w p w'. DeleteDirectory env w p = (None, w') \<longrightarrow> \<not> present w' p)
      \<and> res = None \<and> Call_IsValidFolderPath r True None \<in> set (new_events s s')
      \<and> ?cx \<noteq> ''''
      \<and> \<not> warned ''Could not delete containers directory inside .checkmarx folder''
            (new_events s s') \<longrightarrow>
      \<not> present (world s') ?cx"
    using assms(1)
  proof (cases rule: Resolve_cases)
    case (success cx' s1 pre f' st' out' w3 im w4 rr w5 s6)
    from success(9) obtain cev where cev: "trace s' = trace s6 @ cev"
      "\<forall>ev \<in> set cev. is_Delete ev \<or> (\<exists>e msg. ev = Log WarnLevel (Some e) msg)"
      by (rule cleanup_events)
    from success(1) have
      cx': "Call_IsValidFolderPath r True None \<in> set (new_events s s') \<longrightarrow> cx' = ?cx"
      by (cases rule: validate_cases) (use success cev in auto)
    from success(9) have
      "(\<forall>w p w'. DeleteDirectory env w p = (None, w') \<longrightarrow> \<not> present w' p)
       \<and> cx' \<noteq> ''''
       \<and> \<not> warned ''Could not delete containers directory inside .checkmarx folder''
             (new_events s s') \<longrightarrow>
       \<not> present (world s') cx'"
      by (cases rule: cleanup_cases) (use success in auto)
    with cx' show ?thesis by auto
  qed auto
  have iff2: "res2 = None \<longleftrightarrow>
      collaborator_results (new_events s t') = [None, None, None, None]
      \<and> deletion_failures (new_events s t') = []"
    using assms(2)
  proof (cases rule: Resolve_v2_cases)
    case (cleaning cx' s1 pre f' st' out' w3 im w4 rr w5 s6 e' s7)
    from cleaning(9) obtain cev where "trace s7 = trace s6 @ cev"
      "collaborator_results cev = []" "deletion_failures cev = [] \<longleftrightarrow> Some e' = None"
      by (rule cleanup_v2_events)
    with cleaning show ?thesis
      by (auto simp: silent_results silent_deletion_failures)
  next
    case (success cx' s1 pre f' st' out' w3 im w4 rr w5 s6)
    from success(9) obtain cev where "trace t' = trace s6 @ cev"
      "collaborator_results cev = []" "deletion_failures cev = [] \<longleftrightarrow> (None :: error option) = None"
      by (rule cleanup_v2_events)
    with success show ?thesis
      by (auto simp: silent_results silent_deletion_failures)
  qed (auto simp: silent_results)
  then show "Call_IsValidFolderPath r True None \<in> set (new_events s t') \<longrightarrow>
      (res2 = None \<longleftrightarrow>
         collaborator_results (new_events s t') = [None, None, None, None]
         \<and> deletion_failures (new_events s t') = [])"
    by simp
  show "res2 = None \<and> Call_IsValidFolderPath r True None \<in> set (new_events s t')
      \<and> ?cx2 \<noteq> ''''
      \<and> Call_ExtractFiles q f st out None \<in> set (new_events s t')
      \<and> out \<noteq> '''' \<and> out \<noteq> r \<longrightarrow>
      deletions (new_events s t') = [out, ?cx2]"
    using assms(2)
  proof (cases rule: Resolve_v2_cases)
    case (success cx' s1 pre f' st' out' w3 im w4 rr w5 s6)
    from success(9) obtain cev where cev: "trace t' = trace s6 @ cev"
      "deletions cev = (if out' \<noteq> '''' \<and> out' \<noteq> r \<and> cx' \<noteq> '''' then [out', cx'] else [])"
      "\<forall>ev \<in> set cev. is_Delete ev"
      by (rule cleanup_v2_events)
    from success(1) show ?thesis
      by (cases rule: validate_v2_cases) (use success cev in \<open>auto simp: silent_deletions\<close>)
  qed auto
  show "(\<forall>w p w'. DeleteDirectory env w p = (None, w') \<longrightarrow> \<not> present w' p)
      \<and> res2 = None \<and> Call_IsValidFolderPath r True None \<in> set (new_events s t')
      \<and> ?cx2 \<noteq> ''''
      \<and> Call_ExtractFiles q f st out None \<in> set (new_events s t')
      \<and> out \<noteq> '''' \<and> out \<noteq> r \<longrightarrow>
      \<not> present (world t') ?cx2"
    using assms(2)
  proof (cases rule: Resolve_v2_cases)
    case (success cx' s1 pre f' st' out' w3 im w4 rr w5 s6)
    from success(9) obtain cev where cev: "trace t' = trace s6 @ cev"
      "\<forall>ev \<in> set cev. is_Delete ev"
      by (rule cleanup_v2_events)
    from success(1) have
      cx': "Call_IsValidFolderPath r True None \<in> set (new_events s t') \<longrightarrow> cx' = ?cx2"
      by (cases rule: validate_v2_cases) (use success cev in auto)
    from success cev have
      out': "Call_ExtractFiles q f st out None \<in> set (new_events s t') \<longrightarrow> out' = out"
      by (auto simp: silent_not_mem)
    from success(9) have
      "(\<forall>w p w'. DeleteDirectory env w p = (None, w') \<longrightarrow> \<not> present w' p)
       \<and> cx' \<noteq> '''' \<and> out' \<noteq> '''' \<and> out' \<noteq> r \<longrightarrow>
       \<not> present (world t') cx'"
      by (cases rule: cleanup_v2_cases) (auto split: if_splits)
    with cx' out' show ?thesis by auto
  qed auto
  have iff3: "res1 = None \<longleftrightarrow>
      collaborator_results (new_events s u') = [None, None, None, None]
      \<and> deletion_failures (new_events s u') = []"
    using assms(3)
  proof (cases rule: Resolve_v1_cases)
    case (cleaning ok pre w1 f' st' out' w3 im w4 rr w5 s6 e' s7)
    from cleaning(8) show ?thesis
      by (cases rule: cleanup_v1_cases) (use cleaning in auto)
  next
    case (success ok pre w1 f' st' out' w3 im w4 rr w5 s6)
    from success(8) show ?thesis
      by (cases rule: cleanup_v1_cases) (use success in auto)
  qed auto
  then show "Call_IsValidFolderPath r True None \<in> set (new_events s u') \<longrightarrow>
      (res1 = None \<longleftrightarrow>
         collaborator_results (new_events s u') = [None, None, None, None]
         \<and> deletion_failures (new_events s u') = [])"
    by simp
qed

theorem success_iff_witness:
  "Call_IsValidFolderPath test_folder True None \<in> set (new_events test_start
        (snd (Resolve test_env test_scan test_folder test_images False test_start)))
   \<and> fst (Resolve test_env test_scan test_folder test_images False test_start) = None
   \<and> collaborator_results (new_events test_start
        (snd (Resolve test_env test_scan test_folder test_images False test_start)))
       = [None, None, None, None]
   \<and> \<not> warned ''Could not delete output directory'' (new_events test_start
        (snd (Resolve test_env test_scan test_folder test_images False test_start)))
   \<and> last (deletions (new_events test_start
        (snd (Resolve test_env test_scan test_folder test_images False test_start))))
       = ''../../test_files/resolution/.checkmarx/containers''
   \<and> \<not> warned ''Could not delete containers directory inside .checkmarx folder''
        (new_events test_start
          (snd (Resolve test_env test_scan test_folder test_images False test_start)))
   \<and> ''../../test_files/resolution/.checkmarx/containers''
       \<notin> set (dirs (world
             (snd (Resolve test_env test_scan test_folder test_images False test_start))))
   \<and> Call_IsValidFolderPath test_folder True None \<in> set (new_events test_start
        (snd (Resolve_v2 test_env test_scan test_folder test_images False test_start)))
   \<and> Call_ExtractFiles test_scan [''Dockerfile''] [''settings.json''] ''/output/path'' None
       \<in> set (new_events test_start
        (snd (Resolve_v2 test_env test_scan test_folder test_images False test_start)))
   \<and> fst (Resolve_v2 test_env test_scan test_folder test_images False test_start) = None
   \<and> collaborator_results (new_events test_start
        (snd (Resolve_v2 test_env test_scan test_folder test_images False test_start)))
       = [None, None, None, None]
   \<and> deletion_failures (new_events test_start
        (snd (Resolve_v2 test_env test_scan test_folder test_images False test_start))) = []
   \<and> deletions (new_events test_start
        (snd (Resolve_v2 test_env test_scan test_folder test_images False test_start)))
       = [''/output/path'', ''../../test_files/resolution/.checkmarx/containers'']
   \<and> ''../../test_files/resolution/.checkmarx/containers''
       \<notin> set (dirs (world
             (snd (Resolve_v2 test_env test_scan test_folder test_images False test_start))))
   \<and> Call_IsValidFolderPath test_folder True None \<in> set (new_events test_start
        (snd (Resolve_v1 test_env test_scan test_folder test_images False test_start)))
   \<and> fst (Resolve_v1 test_env test_scan test_folder test_images False test_start) = None
   \<and> collaborator_results (new_events test_start
        (snd (Resolve_v1 test_env test_scan test_folder test_images False test_start)))
       = [None, None, None, None]
   \<and> deletion_failures (new_events test_start
        (snd (Resolve_v1 test_env test_scan test_folder test_images False test_start))) = []"
proof -
  have removes: "\<forall>w p w'. DeleteDirectory test_env w p = (None, w') \<longrightarrow> \<not> p \<in> set (dirs w')"
    by (auto simp: test_env_def)
  have run: "fst (Resolve test_env test_scan test_folder test_images False test_start) = None"
    "Call_IsValidFolderPath test_folder True None \<in> set (new_events test_start
        (snd (Resolve test_env test_scan test_folder test_images False test_start)))"
    "\<not> warned ''Could not delete containers directory inside .checkmarx folder''
        (new_events test_start
          (snd (Resolve test_env test_scan test_folder test_images False test_start)))"
    by (simp_all add: run_defs new_events_def)
  have run2: "fst (Resolve_v2 test_env test_scan test_folder test_images False test_start) = None"
    "Call_IsValidFolderPath test_folder True None \<in> set (new_events test_start
        (snd (Resolve_v2 test_env test_scan test_folder test_images False test_start)))"
    "Call_ExtractFiles test_scan [''Dockerfile''] [''settings.json''] ''/output/path'' None
       \<in> set (new_events test_start
        (snd (Resolve_v2 test_env test_scan test_folder test_images False test_start)))"
    by (simp_all add: run_defs run_v2_defs new_events_def)
  have run1: "fst (Resolve_v1 test_env test_scan test_folder test_images False test_start) = None"
    "Call_IsValidFolderPath test_folder True None \<in> set (new_events test_start
        (snd (Resolve_v1 test_env test_scan test_folder test_images False test_start)))"
    by (simp_all add: run_defs new_events_def)
  have j: "Join test_env [Join test_env [test_folder, ''.checkmarx''], ''containers'']
       = ''../../test_files/resolution/.checkmarx/containers''"
    "Join test_env [test_folder, ''.checkmarx'', ''containers'']
       = ''../../test_files/resolution/.checkmarx/containers''"
    by (simp_all add: test_env_def test_folder_def test_results_folder
          test_results_folder_v2)
  note a = success_iff
      [where env = test_env and scanPath = test_scan and r = test_folder
         and images = test_images and dbg = False and s = test_start
         and present = "\<lambda>w p. p \<in> set (dirs w)"
         and q = test_scan and f = "[''Dockerfile'']" and st = "[''settings.json'']"
         and out = "''/output/path''",
       OF prod.collapse [symmetric] prod.collapse [symmetric] prod.collapse [symmetric]]
  from removes run run2 run1 j a show ?thesis
    by (auto simp: test_folder_def)
qed

end
